theory Spec2Isabelle
  imports Complex_Main "HOL-Library.Monad_Syntax"
begin

text \<open>
  A model of the slip verification core: the transaction parser with its risk scorer and
  timestamp cross-check, the character normalizer and the identifier repair of the OCR
  service, and the scoring of the validation service. The definitions come first, each
  function of the source with the statements it is made of, in the order of the source;
  the properties follow. Where a field or a variable of the source has a name that is
  taken here (\<open>type\<close>, \<open>length\<close>, \<open>valid\<close>, \<open>message\<close>, \<open>prefix\<close> as a
  variable), the text at the definition gives the name used instead.
\<close>

section \<open>JavaScript strings\<close>

text \<open>
  A JavaScript string is a sequence of UTF-16 code units. The model keeps each code unit
  as a natural number (below \<open>65536\<close> in every string the program can hold), so that the
  Thai letters and digits the OCR layer produces are ordinary elements. \<open>js\<close> turns an
  ASCII literal into such a sequence.
\<close>

type_synonym jschar = nat
type_synonym jsstring = "jschar list"

definition js :: "string \<Rightarrow> jsstring" where
  "js s = map of_char s"

text \<open>
  The character classes of the regular expressions in the source: \<^verbatim>\<open>\d\<close> is
  \<^verbatim>\<open>[0-9]\<close>, \<^verbatim>\<open>[A-Z]\<close>, \<^verbatim>\<open>[A-Z0-9]\<close>, and \<^verbatim>\<open>\s\<close>, which
  is the ECMAScript WhiteSpace and LineTerminator set (also what \<^verbatim>\<open>trim\<close> strips and
  what \<^verbatim>\<open>parseInt\<close> skips).
\<close>

definition isDigit :: "jschar \<Rightarrow> bool" where
  "isDigit c = (48 \<le> c \<and> c \<le> 57)"

definition isUpperAZ :: "jschar \<Rightarrow> bool" where
  "isUpperAZ c = (65 \<le> c \<and> c \<le> 90)"

definition isAlnum :: "jschar \<Rightarrow> bool" where
  "isAlnum c = (isUpperAZ c \<or> isDigit c)"

definition isWhiteSpace :: "jschar \<Rightarrow> bool" where
  "isWhiteSpace c =
     (c = 9 \<or> c = 10 \<or> c = 11 \<or> c = 12 \<or> c = 13 \<or> c = 32 \<or> c = 160 \<or> c = 5760
      \<or> (8192 \<le> c \<and> c \<le> 8202) \<or> c = 8232 \<or> c = 8233 \<or> c = 8239 \<or> c = 8287
      \<or> c = 12288 \<or> c = 65279)"

text \<open>\<^verbatim>\<open>s.trim()\<close> and \<^verbatim>\<open>s.replace(/\s/g, '')\<close>.\<close>

definition trim :: "jsstring \<Rightarrow> jsstring" where
  "trim s = rev (dropWhile isWhiteSpace (rev (dropWhile isWhiteSpace s)))"

definition removeWhitespace :: "jsstring \<Rightarrow> jsstring" where
  "removeWhitespace s = filter (\<lambda>c. \<not> isWhiteSpace c) s"

definition startsWith :: "jsstring \<Rightarrow> jsstring \<Rightarrow> bool" where
  "startsWith s p = (take (length p) s = p)"

definition substring :: "jsstring \<Rightarrow> nat \<Rightarrow> nat \<Rightarrow> jsstring" where
  "substring s a b = take (max a b - min a b) (drop (min a b) s)"

subsection \<open>\<^verbatim>\<open>toUpperCase\<close>\<close>

text \<open>
  \<^verbatim>\<open>String.prototype.toUpperCase\<close> maps every code point to its Unicode upper-case
  form, without regard to context or locale. Below \<open>128\<close> only \<^verbatim>\<open>a\<close> to \<^verbatim>\<open>z\<close>
  change. For the other code points the table lists those that change, with the code
  points they become (Unicode 14.0, UnicodeData and SpecialCasing); one code point may
  become several, as \<open>223\<close> (sharp s) becomes \<^verbatim>\<open>SS\<close>. An engine with a later
  version of the standard may have further pairs; what is proved below is about the
  table written here, and for a string of code units below \<open>128\<close> does not depend on
  the table.
\<close>

definition upperTable0 :: "(nat \<times> nat list) list" where
  "upperTable0 = [(181, [924]), (223, [83, 83]), (224, [192]), (225, [193]), (226, [194]),
    (227, [195]), (228, [196]), (229, [197]), (230, [198]), (231, [199]), (232, [200]),
    (233, [201]), (234, [202]), (235, [203]), (236, [204]), (237, [205]), (238, [206]),
    (239, [207]), (240, [208]), (241, [209]), (242, [210]), (243, [211]), (244, [212]),
    (245, [213]), (246, [214]), (248, [216]), (249, [217]), (250, [218]), (251, [219]),
    (252, [220]), (253, [221]), (254, [222]), (255, [376]), (257, [256]), (259, [258]),
    (261, [260]), (263, [262]), (265, [264]), (267, [266]), (269, [268]), (271, [270]),
    (273, [272]), (275, [274]), (277, [276]), (279, [278]), (281, [280]), (283, [282]),
    (285, [284]), (287, [286]), (289, [288]), (291, [290]), (293, [292]), (295, [294]),
    (297, [296]), (299, [298]), (301, [300]), (303, [302]), (305, [73]), (307, [306]),
    (309, [308]), (311, [310]), (314, [313]), (316, [315]), (318, [317])]"

definition upperTable1 :: "(nat \<times> nat list) list" where
  "upperTable1 = [(320, [319]), (322, [321]), (324, [323]), (326, [325]), (328, [327]),
    (329, [700, 78]), (331, [330]), (333, [332]), (335, [334]), (337, [336]), (339, [338]),
    (341, [340]), (343, [342]), (345, [344]), (347, [346]), (349, [348]), (351, [350]),
    (353, [352]), (355, [354]), (357, [356]), (359, [358]), (361, [360]), (363, [362]),
    (365, [364]), (367, [366]), (369, [368]), (371, [370]), (373, [372]), (375, [374]),
    (378, [377]), (380, [379]), (382, [381]), (383, [83]), (384, [579]), (387, [386]),
    (389, [388]), (392, [391]), (396, [395]), (402, [401]), (405, [502]), (409, [408]),
    (410, [573]), (414, [544]), (417, [416]), (419, [418]), (421, [420]), (424, [423]),
    (429, [428]), (432, [431]), (436, [435]), (438, [437]), (441, [440]), (445, [444]),
    (447, [503]), (453, [452]), (454, [452]), (456, [455]), (457, [455]), (459, [458]),
    (460, [458]), (462, [461]), (464, [463]), (466, [465]), (468, [467])]"

definition upperTable2 :: "(nat \<times> nat list) list" where
  "upperTable2 = [(470, [469]), (472, [471]), (474, [473]), (476, [475]), (477, [398]),
    (479, [478]), (481, [480]), (483, [482]), (485, [484]), (487, [486]), (489, [488]),
    (491, [490]), (493, [492]), (495, [494]), (496, [74, 780]), (498, [497]), (499, [497]),
    (501, [500]), (505, [504]), (507, [506]), (509, [508]), (511, [510]), (513, [512]),
    (515, [514]), (517, [516]), (519, [518]), (521, [520]), (523, [522]), (525, [524]),
    (527, [526]), (529, [528]), (531, [530]), (533, [532]), (535, [534]), (537, [536]),
    (539, [538]), (541, [540]), (543, [542]), (547, [546]), (549, [548]), (551, [550]),
    (553, [552]), (555, [554]), (557, [556]), (559, [558]), (561, [560]), (563, [562]),
    (572, [571]), (575, [11390]), (576, [11391]), (578, [577]), (583, [582]), (585, [584]),
    (587, [586]), (589, [588]), (591, [590]), (592, [11375]), (593, [11373]), (594, [11376]),
    (595, [385]), (596, [390]), (598, [393]), (599, [394]), (601, [399])]"

definition upperTable3 :: "(nat \<times> nat list) list" where
  "upperTable3 = [(603, [400]), (604, [42923]), (608, [403]), (609, [42924]), (611, [404]),
    (613, [42893]), (614, [42922]), (616, [407]), (617, [406]), (618, [42926]), (619, [11362]),
    (620, [42925]), (623, [412]), (625, [11374]), (626, [413]), (629, [415]), (637, [11364]),
    (640, [422]), (642, [42949]), (643, [425]), (647, [42929]), (648, [430]), (649, [580]),
    (650, [433]), (651, [434]), (652, [581]), (658, [439]), (669, [42930]), (670, [42928]),
    (837, [921]), (881, [880]), (883, [882]), (887, [886]), (891, [1021]), (892, [1022]),
    (893, [1023]), (912, [921, 776, 769]), (940, [902]), (941, [904]), (942, [905]), (943, [906]),
    (944, [933, 776, 769]), (945, [913]), (946, [914]), (947, [915]), (948, [916]), (949, [917]),
    (950, [918]), (951, [919]), (952, [920]), (953, [921]), (954, [922]), (955, [923]),
    (956, [924]), (957, [925]), (958, [926]), (959, [927]), (960, [928]), (961, [929]),
    (962, [931]), (963, [931]), (964, [932]), (965, [933]), (966, [934])]"

definition upperTable4 :: "(nat \<times> nat list) list" where
  "upperTable4 = [(967, [935]), (968, [936]), (969, [937]), (970, [938]), (971, [939]),
    (972, [908]), (973, [910]), (974, [911]), (976, [914]), (977, [920]), (981, [934]),
    (982, [928]), (983, [975]), (985, [984]), (987, [986]), (989, [988]), (991, [990]),
    (993, [992]), (995, [994]), (997, [996]), (999, [998]), (1001, [1000]), (1003, [1002]),
    (1005, [1004]), (1007, [1006]), (1008, [922]), (1009, [929]), (1010, [1017]), (1011, [895]),
    (1013, [917]), (1016, [1015]), (1019, [1018]), (1072, [1040]), (1073, [1041]), (1074, [1042]),
    (1075, [1043]), (1076, [1044]), (1077, [1045]), (1078, [1046]), (1079, [1047]), (1080, [1048]),
    (1081, [1049]), (1082, [1050]), (1083, [1051]), (1084, [1052]), (1085, [1053]), (1086, [1054]),
    (1087, [1055]), (1088, [1056]), (1089, [1057]), (1090, [1058]), (1091, [1059]), (1092, [1060]),
    (1093, [1061]), (1094, [1062]), (1095, [1063]), (1096, [1064]), (1097, [1065]), (1098, [1066]),
    (1099, [1067]), (1100, [1068]), (1101, [1069]), (1102, [1070]), (1103, [1071])]"

definition upperTable5 :: "(nat \<times> nat list) list" where
  "upperTable5 = [(1104, [1024]), (1105, [1025]), (1106, [1026]), (1107, [1027]), (1108, [1028]),
    (1109, [1029]), (1110, [1030]), (1111, [1031]), (1112, [1032]), (1113, [1033]), (1114, [1034]),
    (1115, [1035]), (1116, [1036]), (1117, [1037]), (1118, [1038]), (1119, [1039]), (1121, [1120]),
    (1123, [1122]), (1125, [1124]), (1127, [1126]), (1129, [1128]), (1131, [1130]), (1133, [1132]),
    (1135, [1134]), (1137, [1136]), (1139, [1138]), (1141, [1140]), (1143, [1142]), (1145, [1144]),
    (1147, [1146]), (1149, [1148]), (1151, [1150]), (1153, [1152]), (1163, [1162]), (1165, [1164]),
    (1167, [1166]), (1169, [1168]), (1171, [1170]), (1173, [1172]), (1175, [1174]), (1177, [1176]),
    (1179, [1178]), (1181, [1180]), (1183, [1182]), (1185, [1184]), (1187, [1186]), (1189, [1188]),
    (1191, [1190]), (1193, [1192]), (1195, [1194]), (1197, [1196]), (1199, [1198]), (1201, [1200]),
    (1203, [1202]), (1205, [1204]), (1207, [1206]), (1209, [1208]), (1211, [1210]), (1213, [1212]),
    (1215, [1214]), (1218, [1217]), (1220, [1219]), (1222, [1221]), (1224, [1223])]"

definition upperTable6 :: "(nat \<times> nat list) list" where
  "upperTable6 = [(1226, [1225]), (1228, [1227]), (1230, [1229]), (1231, [1216]), (1233, [1232]),
    (1235, [1234]), (1237, [1236]), (1239, [1238]), (1241, [1240]), (1243, [1242]), (1245, [1244]),
    (1247, [1246]), (1249, [1248]), (1251, [1250]), (1253, [1252]), (1255, [1254]), (1257, [1256]),
    (1259, [1258]), (1261, [1260]), (1263, [1262]), (1265, [1264]), (1267, [1266]), (1269, [1268]),
    (1271, [1270]), (1273, [1272]), (1275, [1274]), (1277, [1276]), (1279, [1278]), (1281, [1280]),
    (1283, [1282]), (1285, [1284]), (1287, [1286]), (1289, [1288]), (1291, [1290]), (1293, [1292]),
    (1295, [1294]), (1297, [1296]), (1299, [1298]), (1301, [1300]), (1303, [1302]), (1305, [1304]),
    (1307, [1306]), (1309, [1308]), (1311, [1310]), (1313, [1312]), (1315, [1314]), (1317, [1316]),
    (1319, [1318]), (1321, [1320]), (1323, [1322]), (1325, [1324]), (1327, [1326]), (1377, [1329]),
    (1378, [1330]), (1379, [1331]), (1380, [1332]), (1381, [1333]), (1382, [1334]), (1383, [1335]),
    (1384, [1336]), (1385, [1337]), (1386, [1338]), (1387, [1339]), (1388, [1340])]"

definition upperTable7 :: "(nat \<times> nat list) list" where
  "upperTable7 = [(1389, [1341]), (1390, [1342]), (1391, [1343]), (1392, [1344]), (1393, [1345]),
    (1394, [1346]), (1395, [1347]), (1396, [1348]), (1397, [1349]), (1398, [1350]), (1399, [1351]),
    (1400, [1352]), (1401, [1353]), (1402, [1354]), (1403, [1355]), (1404, [1356]), (1405, [1357]),
    (1406, [1358]), (1407, [1359]), (1408, [1360]), (1409, [1361]), (1410, [1362]), (1411, [1363]),
    (1412, [1364]), (1413, [1365]), (1414, [1366]), (1415, [1333, 1362]), (4304, [7312]),
    (4305, [7313]), (4306, [7314]), (4307, [7315]), (4308, [7316]), (4309, [7317]), (4310, [7318]),
    (4311, [7319]), (4312, [7320]), (4313, [7321]), (4314, [7322]), (4315, [7323]), (4316, [7324]),
    (4317, [7325]), (4318, [7326]), (4319, [7327]), (4320, [7328]), (4321, [7329]), (4322, [7330]),
    (4323, [7331]), (4324, [7332]), (4325, [7333]), (4326, [7334]), (4327, [7335]), (4328, [7336]),
    (4329, [7337]), (4330, [7338]), (4331, [7339]), (4332, [7340]), (4333, [7341]), (4334, [7342]),
    (4335, [7343]), (4336, [7344]), (4337, [7345]), (4338, [7346]), (4339, [7347]), (4340, [7348])]"

definition upperTable8 :: "(nat \<times> nat list) list" where
  "upperTable8 = [(4341, [7349]), (4342, [7350]), (4343, [7351]), (4344, [7352]), (4345, [7353]),
    (4346, [7354]), (4349, [7357]), (4350, [7358]), (4351, [7359]), (5112, [5104]), (5113, [5105]),
    (5114, [5106]), (5115, [5107]), (5116, [5108]), (5117, [5109]), (7296, [1042]), (7297, [1044]),
    (7298, [1054]), (7299, [1057]), (7300, [1058]), (7301, [1058]), (7302, [1066]), (7303, [1122]),
    (7304, [42570]), (7545, [42877]), (7549, [11363]), (7566, [42950]), (7681, [7680]),
    (7683, [7682]), (7685, [7684]), (7687, [7686]), (7689, [7688]), (7691, [7690]), (7693, [7692]),
    (7695, [7694]), (7697, [7696]), (7699, [7698]), (7701, [7700]), (7703, [7702]), (7705, [7704]),
    (7707, [7706]), (7709, [7708]), (7711, [7710]), (7713, [7712]), (7715, [7714]), (7717, [7716]),
    (7719, [7718]), (7721, [7720]), (7723, [7722]), (7725, [7724]), (7727, [7726]), (7729, [7728]),
    (7731, [7730]), (7733, [7732]), (7735, [7734]), (7737, [7736]), (7739, [7738]), (7741, [7740]),
    (7743, [7742]), (7745, [7744]), (7747, [7746]), (7749, [7748]), (7751, [7750]), (7753, [7752])]"

definition upperTable9 :: "(nat \<times> nat list) list" where
  "upperTable9 = [(7755, [7754]), (7757, [7756]), (7759, [7758]), (7761, [7760]), (7763, [7762]),
    (7765, [7764]), (7767, [7766]), (7769, [7768]), (7771, [7770]), (7773, [7772]), (7775, [7774]),
    (7777, [7776]), (7779, [7778]), (7781, [7780]), (7783, [7782]), (7785, [7784]), (7787, [7786]),
    (7789, [7788]), (7791, [7790]), (7793, [7792]), (7795, [7794]), (7797, [7796]), (7799, [7798]),
    (7801, [7800]), (7803, [7802]), (7805, [7804]), (7807, [7806]), (7809, [7808]), (7811, [7810]),
    (7813, [7812]), (7815, [7814]), (7817, [7816]), (7819, [7818]), (7821, [7820]), (7823, [7822]),
    (7825, [7824]), (7827, [7826]), (7829, [7828]), (7830, [72, 817]), (7831, [84, 776]),
    (7832, [87, 778]), (7833, [89, 778]), (7834, [65, 702]), (7835, [7776]), (7841, [7840]),
    (7843, [7842]), (7845, [7844]), (7847, [7846]), (7849, [7848]), (7851, [7850]), (7853, [7852]),
    (7855, [7854]), (7857, [7856]), (7859, [7858]), (7861, [7860]), (7863, [7862]), (7865, [7864]),
    (7867, [7866]), (7869, [7868]), (7871, [7870]), (7873, [7872]), (7875, [7874]), (7877, [7876]),
    (7879, [7878])]"

definition upperTable10 :: "(nat \<times> nat list) list" where
  "upperTable10 = [(7881, [7880]), (7883, [7882]), (7885, [7884]), (7887, [7886]), (7889, [7888]),
    (7891, [7890]), (7893, [7892]), (7895, [7894]), (7897, [7896]), (7899, [7898]), (7901, [7900]),
    (7903, [7902]), (7905, [7904]), (7907, [7906]), (7909, [7908]), (7911, [7910]), (7913, [7912]),
    (7915, [7914]), (7917, [7916]), (7919, [7918]), (7921, [7920]), (7923, [7922]), (7925, [7924]),
    (7927, [7926]), (7929, [7928]), (7931, [7930]), (7933, [7932]), (7935, [7934]), (7936, [7944]),
    (7937, [7945]), (7938, [7946]), (7939, [7947]), (7940, [7948]), (7941, [7949]), (7942, [7950]),
    (7943, [7951]), (7952, [7960]), (7953, [7961]), (7954, [7962]), (7955, [7963]), (7956, [7964]),
    (7957, [7965]), (7968, [7976]), (7969, [7977]), (7970, [7978]), (7971, [7979]), (7972, [7980]),
    (7973, [7981]), (7974, [7982]), (7975, [7983]), (7984, [7992]), (7985, [7993]), (7986, [7994]),
    (7987, [7995]), (7988, [7996]), (7989, [7997]), (7990, [7998]), (7991, [7999]), (8000, [8008]),
    (8001, [8009]), (8002, [8010]), (8003, [8011]), (8004, [8012]), (8005, [8013])]"

definition upperTable11 :: "(nat \<times> nat list) list" where
  "upperTable11 = [(8016, [933, 787]), (8017, [8025]), (8018, [933, 787, 768]), (8019, [8027]),
    (8020, [933, 787, 769]), (8021, [8029]), (8022, [933, 787, 834]), (8023, [8031]),
    (8032, [8040]), (8033, [8041]), (8034, [8042]), (8035, [8043]), (8036, [8044]), (8037, [8045]),
    (8038, [8046]), (8039, [8047]), (8048, [8122]), (8049, [8123]), (8050, [8136]), (8051, [8137]),
    (8052, [8138]), (8053, [8139]), (8054, [8154]), (8055, [8155]), (8056, [8184]), (8057, [8185]),
    (8058, [8170]), (8059, [8171]), (8060, [8186]), (8061, [8187]), (8064, [7944, 921]),
    (8065, [7945, 921]), (8066, [7946, 921]), (8067, [7947, 921]), (8068, [7948, 921]),
    (8069, [7949, 921]), (8070, [7950, 921]), (8071, [7951, 921]), (8072, [7944, 921]),
    (8073, [7945, 921]), (8074, [7946, 921]), (8075, [7947, 921]), (8076, [7948, 921]),
    (8077, [7949, 921]), (8078, [7950, 921]), (8079, [7951, 921]), (8080, [7976, 921]),
    (8081, [7977, 921]), (8082, [7978, 921]), (8083, [7979, 921]), (8084, [7980, 921]),
    (8085, [7981, 921]), (8086, [7982, 921]), (8087, [7983, 921]), (8088, [7976, 921]),
    (8089, [7977, 921]), (8090, [7978, 921]), (8091, [7979, 921]), (8092, [7980, 921]),
    (8093, [7981, 921]), (8094, [7982, 921]), (8095, [7983, 921]), (8096, [8040, 921]),
    (8097, [8041, 921])]"

definition upperTable12 :: "(nat \<times> nat list) list" where
  "upperTable12 = [(8098, [8042, 921]), (8099, [8043, 921]), (8100, [8044, 921]),
    (8101, [8045, 921]), (8102, [8046, 921]), (8103, [8047, 921]), (8104, [8040, 921]),
    (8105, [8041, 921]), (8106, [8042, 921]), (8107, [8043, 921]), (8108, [8044, 921]),
    (8109, [8045, 921]), (8110, [8046, 921]), (8111, [8047, 921]), (8112, [8120]), (8113, [8121]),
    (8114, [8122, 921]), (8115, [913, 921]), (8116, [902, 921]), (8118, [913, 834]),
    (8119, [913, 834, 921]), (8124, [913, 921]), (8126, [921]), (8130, [8138, 921]),
    (8131, [919, 921]), (8132, [905, 921]), (8134, [919, 834]), (8135, [919, 834, 921]),
    (8140, [919, 921]), (8144, [8152]), (8145, [8153]), (8146, [921, 776, 768]),
    (8147, [921, 776, 769]), (8150, [921, 834]), (8151, [921, 776, 834]), (8160, [8168]),
    (8161, [8169]), (8162, [933, 776, 768]), (8163, [933, 776, 769]), (8164, [929, 787]),
    (8165, [8172]), (8166, [933, 834]), (8167, [933, 776, 834]), (8178, [8186, 921]),
    (8179, [937, 921]), (8180, [911, 921]), (8182, [937, 834]), (8183, [937, 834, 921]),
    (8188, [937, 921]), (8526, [8498]), (8560, [8544]), (8561, [8545]), (8562, [8546]),
    (8563, [8547]), (8564, [8548]), (8565, [8549]), (8566, [8550]), (8567, [8551]), (8568, [8552]),
    (8569, [8553]), (8570, [8554]), (8571, [8555]), (8572, [8556]), (8573, [8557])]"

definition upperTable13 :: "(nat \<times> nat list) list" where
  "upperTable13 = [(8574, [8558]), (8575, [8559]), (8580, [8579]), (9424, [9398]), (9425, [9399]),
    (9426, [9400]), (9427, [9401]), (9428, [9402]), (9429, [9403]), (9430, [9404]), (9431, [9405]),
    (9432, [9406]), (9433, [9407]), (9434, [9408]), (9435, [9409]), (9436, [9410]), (9437, [9411]),
    (9438, [9412]), (9439, [9413]), (9440, [9414]), (9441, [9415]), (9442, [9416]), (9443, [9417]),
    (9444, [9418]), (9445, [9419]), (9446, [9420]), (9447, [9421]), (9448, [9422]), (9449, [9423]),
    (11312, [11264]), (11313, [11265]), (11314, [11266]), (11315, [11267]), (11316, [11268]),
    (11317, [11269]), (11318, [11270]), (11319, [11271]), (11320, [11272]), (11321, [11273]),
    (11322, [11274]), (11323, [11275]), (11324, [11276]), (11325, [11277]), (11326, [11278]),
    (11327, [11279]), (11328, [11280]), (11329, [11281]), (11330, [11282]), (11331, [11283]),
    (11332, [11284]), (11333, [11285]), (11334, [11286]), (11335, [11287]), (11336, [11288]),
    (11337, [11289]), (11338, [11290]), (11339, [11291]), (11340, [11292]), (11341, [11293]),
    (11342, [11294]), (11343, [11295]), (11344, [11296]), (11345, [11297]), (11346, [11298])]"

definition upperTable14 :: "(nat \<times> nat list) list" where
  "upperTable14 = [(11347, [11299]), (11348, [11300]), (11349, [11301]), (11350, [11302]),
    (11351, [11303]), (11352, [11304]), (11353, [11305]), (11354, [11306]), (11355, [11307]),
    (11356, [11308]), (11357, [11309]), (11358, [11310]), (11359, [11311]), (11361, [11360]),
    (11365, [570]), (11366, [574]), (11368, [11367]), (11370, [11369]), (11372, [11371]),
    (11379, [11378]), (11382, [11381]), (11393, [11392]), (11395, [11394]), (11397, [11396]),
    (11399, [11398]), (11401, [11400]), (11403, [11402]), (11405, [11404]), (11407, [11406]),
    (11409, [11408]), (11411, [11410]), (11413, [11412]), (11415, [11414]), (11417, [11416]),
    (11419, [11418]), (11421, [11420]), (11423, [11422]), (11425, [11424]), (11427, [11426]),
    (11429, [11428]), (11431, [11430]), (11433, [11432]), (11435, [11434]), (11437, [11436]),
    (11439, [11438]), (11441, [11440]), (11443, [11442]), (11445, [11444]), (11447, [11446]),
    (11449, [11448]), (11451, [11450]), (11453, [11452]), (11455, [11454]), (11457, [11456]),
    (11459, [11458]), (11461, [11460]), (11463, [11462]), (11465, [11464]), (11467, [11466]),
    (11469, [11468]), (11471, [11470]), (11473, [11472]), (11475, [11474]), (11477, [11476])]"

definition upperTable15 :: "(nat \<times> nat list) list" where
  "upperTable15 = [(11479, [11478]), (11481, [11480]), (11483, [11482]), (11485, [11484]),
    (11487, [11486]), (11489, [11488]), (11491, [11490]), (11500, [11499]), (11502, [11501]),
    (11507, [11506]), (11520, [4256]), (11521, [4257]), (11522, [4258]), (11523, [4259]),
    (11524, [4260]), (11525, [4261]), (11526, [4262]), (11527, [4263]), (11528, [4264]),
    (11529, [4265]), (11530, [4266]), (11531, [4267]), (11532, [4268]), (11533, [4269]),
    (11534, [4270]), (11535, [4271]), (11536, [4272]), (11537, [4273]), (11538, [4274]),
    (11539, [4275]), (11540, [4276]), (11541, [4277]), (11542, [4278]), (11543, [4279]),
    (11544, [4280]), (11545, [4281]), (11546, [4282]), (11547, [4283]), (11548, [4284]),
    (11549, [4285]), (11550, [4286]), (11551, [4287]), (11552, [4288]), (11553, [4289]),
    (11554, [4290]), (11555, [4291]), (11556, [4292]), (11557, [4293]), (11559, [4295]),
    (11565, [4301]), (42561, [42560]), (42563, [42562]), (42565, [42564]), (42567, [42566]),
    (42569, [42568]), (42571, [42570]), (42573, [42572]), (42575, [42574]), (42577, [42576]),
    (42579, [42578]), (42581, [42580]), (42583, [42582]), (42585, [42584]), (42587, [42586])]"

definition upperTable16 :: "(nat \<times> nat list) list" where
  "upperTable16 = [(42589, [42588]), (42591, [42590]), (42593, [42592]), (42595, [42594]),
    (42597, [42596]), (42599, [42598]), (42601, [42600]), (42603, [42602]), (42605, [42604]),
    (42625, [42624]), (42627, [42626]), (42629, [42628]), (42631, [42630]), (42633, [42632]),
    (42635, [42634]), (42637, [42636]), (42639, [42638]), (42641, [42640]), (42643, [42642]),
    (42645, [42644]), (42647, [42646]), (42649, [42648]), (42651, [42650]), (42787, [42786]),
    (42789, [42788]), (42791, [42790]), (42793, [42792]), (42795, [42794]), (42797, [42796]),
    (42799, [42798]), (42803, [42802]), (42805, [42804]), (42807, [42806]), (42809, [42808]),
    (42811, [42810]), (42813, [42812]), (42815, [42814]), (42817, [42816]), (42819, [42818]),
    (42821, [42820]), (42823, [42822]), (42825, [42824]), (42827, [42826]), (42829, [42828]),
    (42831, [42830]), (42833, [42832]), (42835, [42834]), (42837, [42836]), (42839, [42838]),
    (42841, [42840]), (42843, [42842]), (42845, [42844]), (42847, [42846]), (42849, [42848]),
    (42851, [42850]), (42853, [42852]), (42855, [42854]), (42857, [42856]), (42859, [42858]),
    (42861, [42860]), (42863, [42862]), (42874, [42873]), (42876, [42875]), (42879, [42878])]"

definition upperTable17 :: "(nat \<times> nat list) list" where
  "upperTable17 = [(42881, [42880]), (42883, [42882]), (42885, [42884]), (42887, [42886]),
    (42892, [42891]), (42897, [42896]), (42899, [42898]), (42900, [42948]), (42903, [42902]),
    (42905, [42904]), (42907, [42906]), (42909, [42908]), (42911, [42910]), (42913, [42912]),
    (42915, [42914]), (42917, [42916]), (42919, [42918]), (42921, [42920]), (42933, [42932]),
    (42935, [42934]), (42937, [42936]), (42939, [42938]), (42941, [42940]), (42943, [42942]),
    (42945, [42944]), (42947, [42946]), (42952, [42951]), (42954, [42953]), (42961, [42960]),
    (42967, [42966]), (42969, [42968]), (42998, [42997]), (43859, [42931]), (43888, [5024]),
    (43889, [5025]), (43890, [5026]), (43891, [5027]), (43892, [5028]), (43893, [5029]),
    (43894, [5030]), (43895, [5031]), (43896, [5032]), (43897, [5033]), (43898, [5034]),
    (43899, [5035]), (43900, [5036]), (43901, [5037]), (43902, [5038]), (43903, [5039]),
    (43904, [5040]), (43905, [5041]), (43906, [5042]), (43907, [5043]), (43908, [5044]),
    (43909, [5045]), (43910, [5046]), (43911, [5047]), (43912, [5048]), (43913, [5049]),
    (43914, [5050]), (43915, [5051]), (43916, [5052]), (43917, [5053]), (43918, [5054])]"

definition upperTable18 :: "(nat \<times> nat list) list" where
  "upperTable18 = [(43919, [5055]), (43920, [5056]), (43921, [5057]), (43922, [5058]),
    (43923, [5059]), (43924, [5060]), (43925, [5061]), (43926, [5062]), (43927, [5063]),
    (43928, [5064]), (43929, [5065]), (43930, [5066]), (43931, [5067]), (43932, [5068]),
    (43933, [5069]), (43934, [5070]), (43935, [5071]), (43936, [5072]), (43937, [5073]),
    (43938, [5074]), (43939, [5075]), (43940, [5076]), (43941, [5077]), (43942, [5078]),
    (43943, [5079]), (43944, [5080]), (43945, [5081]), (43946, [5082]), (43947, [5083]),
    (43948, [5084]), (43949, [5085]), (43950, [5086]), (43951, [5087]), (43952, [5088]),
    (43953, [5089]), (43954, [5090]), (43955, [5091]), (43956, [5092]), (43957, [5093]),
    (43958, [5094]), (43959, [5095]), (43960, [5096]), (43961, [5097]), (43962, [5098]),
    (43963, [5099]), (43964, [5100]), (43965, [5101]), (43966, [5102]), (43967, [5103]),
    (64256, [70, 70]), (64257, [70, 73]), (64258, [70, 76]), (64259, [70, 70, 73]),
    (64260, [70, 70, 76]), (64261, [83, 84]), (64262, [83, 84]), (64275, [1348, 1350]),
    (64276, [1348, 1333]), (64277, [1348, 1339]), (64278, [1358, 1350]), (64279, [1348, 1341]),
    (65345, [65313]), (65346, [65314]), (65347, [65315])]"

definition upperTable19 :: "(nat \<times> nat list) list" where
  "upperTable19 = [(65348, [65316]), (65349, [65317]), (65350, [65318]), (65351, [65319]),
    (65352, [65320]), (65353, [65321]), (65354, [65322]), (65355, [65323]), (65356, [65324]),
    (65357, [65325]), (65358, [65326]), (65359, [65327]), (65360, [65328]), (65361, [65329]),
    (65362, [65330]), (65363, [65331]), (65364, [65332]), (65365, [65333]), (65366, [65334]),
    (65367, [65335]), (65368, [65336]), (65369, [65337]), (65370, [65338]), (66600, [66560]),
    (66601, [66561]), (66602, [66562]), (66603, [66563]), (66604, [66564]), (66605, [66565]),
    (66606, [66566]), (66607, [66567]), (66608, [66568]), (66609, [66569]), (66610, [66570]),
    (66611, [66571]), (66612, [66572]), (66613, [66573]), (66614, [66574]), (66615, [66575]),
    (66616, [66576]), (66617, [66577]), (66618, [66578]), (66619, [66579]), (66620, [66580]),
    (66621, [66581]), (66622, [66582]), (66623, [66583]), (66624, [66584]), (66625, [66585]),
    (66626, [66586]), (66627, [66587]), (66628, [66588]), (66629, [66589]), (66630, [66590]),
    (66631, [66591]), (66632, [66592]), (66633, [66593]), (66634, [66594]), (66635, [66595]),
    (66636, [66596]), (66637, [66597]), (66638, [66598]), (66639, [66599]), (66776, [66736])]"

definition upperTable20 :: "(nat \<times> nat list) list" where
  "upperTable20 = [(66777, [66737]), (66778, [66738]), (66779, [66739]), (66780, [66740]),
    (66781, [66741]), (66782, [66742]), (66783, [66743]), (66784, [66744]), (66785, [66745]),
    (66786, [66746]), (66787, [66747]), (66788, [66748]), (66789, [66749]), (66790, [66750]),
    (66791, [66751]), (66792, [66752]), (66793, [66753]), (66794, [66754]), (66795, [66755]),
    (66796, [66756]), (66797, [66757]), (66798, [66758]), (66799, [66759]), (66800, [66760]),
    (66801, [66761]), (66802, [66762]), (66803, [66763]), (66804, [66764]), (66805, [66765]),
    (66806, [66766]), (66807, [66767]), (66808, [66768]), (66809, [66769]), (66810, [66770]),
    (66811, [66771]), (66967, [66928]), (66968, [66929]), (66969, [66930]), (66970, [66931]),
    (66971, [66932]), (66972, [66933]), (66973, [66934]), (66974, [66935]), (66975, [66936]),
    (66976, [66937]), (66977, [66938]), (66979, [66940]), (66980, [66941]), (66981, [66942]),
    (66982, [66943]), (66983, [66944]), (66984, [66945]), (66985, [66946]), (66986, [66947]),
    (66987, [66948]), (66988, [66949]), (66989, [66950]), (66990, [66951]), (66991, [66952]),
    (66992, [66953]), (66993, [66954]), (66995, [66956]), (66996, [66957]), (66997, [66958])]"

definition upperTable21 :: "(nat \<times> nat list) list" where
  "upperTable21 = [(66998, [66959]), (66999, [66960]), (67000, [66961]), (67001, [66962]),
    (67003, [66964]), (67004, [66965]), (68800, [68736]), (68801, [68737]), (68802, [68738]),
    (68803, [68739]), (68804, [68740]), (68805, [68741]), (68806, [68742]), (68807, [68743]),
    (68808, [68744]), (68809, [68745]), (68810, [68746]), (68811, [68747]), (68812, [68748]),
    (68813, [68749]), (68814, [68750]), (68815, [68751]), (68816, [68752]), (68817, [68753]),
    (68818, [68754]), (68819, [68755]), (68820, [68756]), (68821, [68757]), (68822, [68758]),
    (68823, [68759]), (68824, [68760]), (68825, [68761]), (68826, [68762]), (68827, [68763]),
    (68828, [68764]), (68829, [68765]), (68830, [68766]), (68831, [68767]), (68832, [68768]),
    (68833, [68769]), (68834, [68770]), (68835, [68771]), (68836, [68772]), (68837, [68773]),
    (68838, [68774]), (68839, [68775]), (68840, [68776]), (68841, [68777]), (68842, [68778]),
    (68843, [68779]), (68844, [68780]), (68845, [68781]), (68846, [68782]), (68847, [68783]),
    (68848, [68784]), (68849, [68785]), (68850, [68786]), (71872, [71840]), (71873, [71841]),
    (71874, [71842]), (71875, [71843]), (71876, [71844]), (71877, [71845]), (71878, [71846])]"

definition upperTable22 :: "(nat \<times> nat list) list" where
  "upperTable22 = [(71879, [71847]), (71880, [71848]), (71881, [71849]), (71882, [71850]),
    (71883, [71851]), (71884, [71852]), (71885, [71853]), (71886, [71854]), (71887, [71855]),
    (71888, [71856]), (71889, [71857]), (71890, [71858]), (71891, [71859]), (71892, [71860]),
    (71893, [71861]), (71894, [71862]), (71895, [71863]), (71896, [71864]), (71897, [71865]),
    (71898, [71866]), (71899, [71867]), (71900, [71868]), (71901, [71869]), (71902, [71870]),
    (71903, [71871]), (93792, [93760]), (93793, [93761]), (93794, [93762]), (93795, [93763]),
    (93796, [93764]), (93797, [93765]), (93798, [93766]), (93799, [93767]), (93800, [93768]),
    (93801, [93769]), (93802, [93770]), (93803, [93771]), (93804, [93772]), (93805, [93773]),
    (93806, [93774]), (93807, [93775]), (93808, [93776]), (93809, [93777]), (93810, [93778]),
    (93811, [93779]), (93812, [93780]), (93813, [93781]), (93814, [93782]), (93815, [93783]),
    (93816, [93784]), (93817, [93785]), (93818, [93786]), (93819, [93787]), (93820, [93788]),
    (93821, [93789]), (93822, [93790]), (93823, [93791]), (125218, [125184]), (125219, [125185]),
    (125220, [125186]), (125221, [125187]), (125222, [125188]), (125223, [125189]),
    (125224, [125190])]"

definition upperTable23 :: "(nat \<times> nat list) list" where
  "upperTable23 = [(125225, [125191]), (125226, [125192]), (125227, [125193]), (125228, [125194]),
    (125229, [125195]), (125230, [125196]), (125231, [125197]), (125232, [125198]),
    (125233, [125199]), (125234, [125200]), (125235, [125201]), (125236, [125202]),
    (125237, [125203]), (125238, [125204]), (125239, [125205]), (125240, [125206]),
    (125241, [125207]), (125242, [125208]), (125243, [125209]), (125244, [125210]),
    (125245, [125211]), (125246, [125212]), (125247, [125213]), (125248, [125214]),
    (125249, [125215]), (125250, [125216]), (125251, [125217])]"

definition upperTable :: "(nat \<times> nat list) list" where
  "upperTable = upperTable0 @ upperTable1 @ upperTable2 @ upperTable3 @ upperTable4 @ upperTable5 @ upperTable6 @ upperTable7 @ upperTable8 @ upperTable9 @ upperTable10 @ upperTable11 @ upperTable12 @ upperTable13 @ upperTable14 @ upperTable15 @ upperTable16 @ upperTable17 @ upperTable18 @ upperTable19 @ upperTable20 @ upperTable21 @ upperTable22 @ upperTable23"
definition toUpperCodePoint :: "nat \<Rightarrow> nat list" where
  "toUpperCodePoint c =
     (if 97 \<le> c \<and> c \<le> 122 then [c - 32]
      else if c < 128 then [c]
      else (case map_of upperTable c of Some u \<Rightarrow> u | None \<Rightarrow> [c]))"

text \<open>Code points above \<open>65535\<close> are held as a surrogate pair of code units.\<close>

definition isHighSurrogate :: "jschar \<Rightarrow> bool" where
  "isHighSurrogate c = (55296 \<le> c \<and> c \<le> 56319)"

definition isLowSurrogate :: "jschar \<Rightarrow> bool" where
  "isLowSurrogate c = (56320 \<le> c \<and> c \<le> 57343)"

definition decodeSurrogates :: "jschar \<Rightarrow> jschar \<Rightarrow> nat" where
  "decodeSurrogates h l = 65536 + (h - 55296) * 1024 + (l - 56320)"

definition encodeCodePoint :: "nat \<Rightarrow> jsstring" where
  "encodeCodePoint c =
     (if c < 65536 then [c]
      else [55296 + (c - 65536) div 1024, 56320 + (c - 65536) mod 1024])"

fun toUpperCase :: "jsstring \<Rightarrow> jsstring" where
  "toUpperCase [] = []"
| "toUpperCase [c] = concat (map encodeCodePoint (toUpperCodePoint c))"
| "toUpperCase (h # l # rest) =
     (if isHighSurrogate h \<and> isLowSurrogate l
      then concat (map encodeCodePoint (toUpperCodePoint (decodeSurrogates h l)))
             @ toUpperCase rest
      else concat (map encodeCodePoint (toUpperCodePoint h)) @ toUpperCase (l # rest))"

subsection \<open>\<^verbatim>\<open>parseInt(s, 10)\<close>\<close>

text \<open>
  \<^verbatim>\<open>parseInt\<close> skips leading white space, reads an optional sign and then the longest
  run of decimal digits; with no digit the result is \<^verbatim>\<open>NaN\<close>, here \<open>None\<close>. The
  program's value is the double nearest to the integer read (\<^verbatim>\<open>Infinity\<close> for the
  longest runs); here it is the integer itself. The two agree up to \<open>2 ^ 53\<close>, and an
  integer beyond has a double beyond. The program compares the results with numbers
  below 100 and tests a difference from such a number against 2, which comes out the
  same for both; only the difference of minutes that \<^verbatim>\<open>validateTime\<close> reports is, for
  a run of more than 15 digits, the exact one here and the rounded one in the program.
\<close>

definition digitValue :: "jschar \<Rightarrow> nat" where
  "digitValue c = c - 48"

definition digitsValue :: "jsstring \<Rightarrow> nat" where
  "digitsValue ds = foldl (\<lambda>acc c. 10 * acc + digitValue c) 0 ds"

definition parseInt :: "jsstring \<Rightarrow> int option" where
  "parseInt s =
     (let t = dropWhile isWhiteSpace s;
          neg = (case t of [] \<Rightarrow> False | c # _ \<Rightarrow> c = 45);
          u = (case t of [] \<Rightarrow> [] | c # r \<Rightarrow> if c = 43 \<or> c = 45 then r else t);
          ds = takeWhile isDigit u
      in if ds = [] then None
         else Some (if neg then - int (digitsValue ds) else int (digitsValue ds)))"

section \<open>The transaction parser (\<^verbatim>\<open>src/utils/transactionParser.js\<close>)\<close>

subsection \<open>Constants of the constructor\<close>

definition KBANK_PREFIX :: jsstring where
  "KBANK_PREFIX = js ''0152''"

definition MIN_LENGTH :: nat where
  "MIN_LENGTH = 20"

definition MAX_LENGTH :: nat where
  "MAX_LENGTH = 21"

text \<open>The dictionary of type codes, in the order of the object literal.\<close>

definition transactionTypes :: "(jsstring \<times> jsstring) list" where
  "transactionTypes =
     [(js ''BPMO'', js ''Bill Payment Mobile Online''),
      (js ''BQR0'', js ''Bill QR Payment''),
      (js ''BQR'', js ''Bill QR Payment''),
      (js ''BPAY'', js ''Bill Payment''),
      (js ''ATF0'', js ''Account Transfer via Mobile''),
      (js ''ATF'', js ''Account Transfer''),
      (js ''ATMO'', js ''Account Transfer Mobile Online''),
      (js ''ATMB'', js ''ATM Transfer''),
      (js ''APM0'', js ''App Payment''),
      (js ''APM'', js ''App Payment''),
      (js ''APAY'', js ''App Payment''),
      (js ''QRP0'', js ''QR Payment''),
      (js ''QRPM'', js ''QR PromptPay''),
      (js ''TFMO'', js ''Transfer Mobile'')]"

subsection \<open>The two regular expressions of the grammar\<close>

text \<open>
  Every piece of the two patterns has a fixed width, except the last, which runs to the
  end of the input (\<^verbatim>\<open>$\<close> without the multiline flag). A match, when there is one, is
  therefore unique and backtracking plays no part; the pieces are matched left to right.
  \<open>lit\<close> matches a literal and returns the rest, \<open>cls\<close> matches exactly \<open>n\<close> characters
  of a class and returns them with the rest, \<open>clsEnd\<close> matches between \<open>lo\<close> and \<open>hi\<close>
  characters of a class up to the end.
\<close>

definition lit :: "jsstring \<Rightarrow> jsstring \<Rightarrow> jsstring option" where
  "lit p s = (if take (length p) s = p then Some (drop (length p) s) else None)"

definition cls :: "(jschar \<Rightarrow> bool) \<Rightarrow> nat \<Rightarrow> jsstring \<Rightarrow> (jsstring \<times> jsstring) option" where
  "cls P n s =
     (if n \<le> length s \<and> list_all P (take n s) then Some (take n s, drop n s) else None)"

definition clsEnd :: "(jschar \<Rightarrow> bool) \<Rightarrow> nat \<Rightarrow> nat \<Rightarrow> jsstring \<Rightarrow> jsstring option" where
  "clsEnd P lo hi s =
     (if lo \<le> length s \<and> length s \<le> hi \<and> list_all P s then Some s else None)"

text \<open>\<^verbatim>\<open>STRICT_PATTERN = /^0152\d{8}[A-Z0-9]{4}\d{3,5}$/\<close>, as \<^verbatim>\<open>test\<close> uses it.\<close>

definition STRICT_PATTERN :: "jsstring \<Rightarrow> bool" where
  "STRICT_PATTERN s =
     (do {
        r0 \<leftarrow> lit (js ''0152'') s;
        (digits, r1) \<leftarrow> cls isDigit 8 r0;
        (code, r2) \<leftarrow> cls isAlnum 4 r1;
        clsEnd isDigit 3 5 r2
      } \<noteq> None)"

text \<open>
  \<^verbatim>\<open>/^0152(\d{2})(\d{2})(\d{2})(\d{2})([A-Z0-9]{4})(\d{3,5})$/\<close>, as \<^verbatim>\<open>match\<close> uses
  it: the six captured groups, or \<open>None\<close> for \<^verbatim>\<open>null\<close>.
\<close>

definition parsePattern ::
  "jsstring \<Rightarrow> (jsstring \<times> jsstring \<times> jsstring \<times> jsstring \<times> jsstring \<times> jsstring) option" where
  "parsePattern s =
     do {
       r0 \<leftarrow> lit (js ''0152'') s;
       (yy, r1) \<leftarrow> cls isDigit 2 r0;
       (hh, r2) \<leftarrow> cls isDigit 2 r1;
       (mm, r3) \<leftarrow> cls isDigit 2 r2;
       (ss, r4) \<leftarrow> cls isDigit 2 r3;
       (type, r5) \<leftarrow> cls isAlnum 4 r4;
       seq \<leftarrow> clsEnd isDigit 3 5 r5;
       Some (yy, hh, mm, ss, type, seq)
     }"

subsection \<open>\<^verbatim>\<open>parse\<close>\<close>

record Timestamp =
  tsYear :: int
  tsHour :: "int option"
  tsMinute :: "int option"
  tsSecond :: "int option"

text \<open>
  The record \<^verbatim>\<open>parse\<close> returns. Its fields \<^verbatim>\<open>type\<close> and \<^verbatim>\<open>length\<close> are
  \<open>typeCode\<close> and \<open>idLength\<close> here; the fields of the timestamp carry the prefix
  \<open>ts\<close> and hold what \<^verbatim>\<open>parseInt\<close> returns.
\<close>

record ParsedIdentifier =
  raw :: jsstring
  valid :: bool
  prefix :: jsstring
  year :: int
  yearCode :: jsstring
  time :: jsstring
  hour :: int
  minute :: int
  second :: int
  typeCode :: jsstring
  typeDescription :: jsstring
  isKnownType :: bool
  sequence :: jsstring
  idLength :: nat
  timestamp :: Timestamp
  validPrefix :: bool
  validLength :: bool
  validPattern :: bool
  validTime :: bool
  validYear :: bool

text \<open>
  \<^verbatim>\<open>buildTimestamp\<close> parses the three time strings again; its \<^verbatim>\<open>catch\<close> branch
  cannot be taken, since nothing in the \<^verbatim>\<open>try\<close> block throws.
\<close>

definition buildTimestamp :: "int \<Rightarrow> jsstring \<Rightarrow> jsstring \<Rightarrow> jsstring \<Rightarrow> Timestamp" where
  "buildTimestamp y hh mm ss =
     \<lparr>tsYear = y, tsHour = parseInt hh, tsMinute = parseInt mm, tsSecond = parseInt ss\<rparr>"

text \<open>The cleaning both \<^verbatim>\<open>parse\<close> and \<^verbatim>\<open>isValid\<close> start with.\<close>

definition cleanId :: "jsstring \<Rightarrow> jsstring" where
  "cleanId transactionId = toUpperCase (removeWhitespace (trim transactionId))"

text \<open>
  The wall clock is the one hidden input: \<open>fullYear\<close> stands for
  \<^verbatim>\<open>new Date().getFullYear()\<close>, and \<open>currentYear\<close> is the source's conversion of it
  to the Buddhist Era. Every function that reads the clock, directly or through a
  function it calls, takes \<open>fullYear\<close> as its first argument: the reads of the clock
  during one call are taken to give the same year.
\<close>

definition currentYear :: "int \<Rightarrow> int" where
  "currentYear fullYear = fullYear + 543"

text \<open>
  \<^verbatim>\<open>parse\<close> returns the record, or \<open>None\<close> for \<^verbatim>\<open>null\<close>. The argument is a string, so
  the first guard is the test for the empty string. The four \<^verbatim>\<open>parseInt\<close> calls are on
  groups of two digits and return numbers (lemma \<open>parseInt_digits\<close> below); the \<open>None\<close>
  alternative of the \<^theory_text>\<open>case\<close> is there only because \<open>parseInt\<close> has one.
  The type code has four characters of \<^verbatim>\<open>[A-Z0-9]\<close>, so the property lookup can only
  find the object's own keys, and every description is a non-empty string.
\<close>

definition parse :: "int \<Rightarrow> jsstring \<Rightarrow> ParsedIdentifier option" where
  "parse fullYear transactionId =
     (if transactionId = [] then None
      else let cleaned = cleanId transactionId in
        if \<not> startsWith cleaned KBANK_PREFIX then None
        else if length cleaned < MIN_LENGTH \<or> length cleaned > MAX_LENGTH then None
        else if \<not> STRICT_PATTERN cleaned then None
        else (case parsePattern cleaned of
            None \<Rightarrow> None
          | Some (yy, hh, mm, ss, type, seq) \<Rightarrow>
             (case (parseInt hh, parseInt mm, parseInt ss, parseInt yy) of
                (Some h, Some m, Some s, Some yc) \<Rightarrow>
                  if h > 23 \<or> m > 59 \<or> s > 59 then None
                  else let y = 2470 + yc in
                    if y < currentYear fullYear - 5 \<or> y > currentYear fullYear + 1 then None
                    else Some
                      \<lparr>raw = cleaned,
                       valid = True,
                       prefix = KBANK_PREFIX,
                       year = y,
                       yearCode = yy,
                       time = hh @ js '':'' @ mm @ js '':'' @ ss,
                       hour = h,
                       minute = m,
                       second = s,
                       typeCode = type,
                       typeDescription =
                         (case map_of transactionTypes type of
                            Some d \<Rightarrow> d
                          | None \<Rightarrow> js ''Unknown Transaction Type''),
                       isKnownType = (map_of transactionTypes type \<noteq> None),
                       sequence = seq,
                       idLength = length cleaned,
                       timestamp = buildTimestamp y hh mm ss,
                       validPrefix = True,
                       validLength = True,
                       validPattern = True,
                       validTime = True,
                       validYear = True\<rparr>
              | _ \<Rightarrow> None)))"

subsection \<open>\<^verbatim>\<open>isValid\<close>\<close>

text \<open>
  The reason strings, one constructor for each message of the source, carrying the
  values the template interpolates:
  \<^item> \<open>Required\<close>: \<^verbatim>\<open>Transaction ID is required and must be a string\<close>;
  \<^item> \<open>InvalidPrefix got\<close>: \<^verbatim>\<open>Invalid prefix. Expected "0152" (KBank K PLUS), got "..."\<close>;
  \<^item> \<open>InvalidLength n\<close>: \<^verbatim>\<open>Invalid length. Expected 20-21 characters, got n\<close>;
  \<^item> \<open>InvalidFormat\<close>: \<^verbatim>\<open>Invalid format. Expected pattern: 0152 + 8 digits + 4 letters + 3-5 digits\<close>;
  \<^item> \<open>ParseFailed\<close>: \<^verbatim>\<open>Failed to parse transaction ID. May contain invalid time or year values\<close>.
\<close>

datatype Reason =
    Required
  | InvalidPrefix jsstring
  | InvalidLength nat
  | InvalidFormat
  | ParseFailed

text \<open>
  The result object is \<^verbatim>\<open>{valid: false, reason}\<close>, here \<open>Inl reason\<close>, or
  \<^verbatim>\<open>{valid: true, reason: 'Valid KBank K PLUS transaction ID', parsed}\<close>, here
  \<open>Inr parsed\<close>. Note that \<^verbatim>\<open>parse\<close> is called on the cleaned string.
\<close>

definition isValid :: "int \<Rightarrow> jsstring \<Rightarrow> Reason + ParsedIdentifier" where
  "isValid fullYear transactionId =
     (if transactionId = [] then Inl Required
      else let cleaned = cleanId transactionId in
        if \<not> startsWith cleaned KBANK_PREFIX
        then Inl (InvalidPrefix (substring cleaned 0 4))
        else if length cleaned < MIN_LENGTH \<or> length cleaned > MAX_LENGTH
        then Inl (InvalidLength (length cleaned))
        else if \<not> STRICT_PATTERN cleaned then Inl InvalidFormat
        else (case parse fullYear cleaned of
                None \<Rightarrow> Inl ParseFailed
              | Some parsed \<Rightarrow> Inr parsed))"

definition isValidQuick :: "int \<Rightarrow> jsstring \<Rightarrow> bool" where
  "isValidQuick fullYear transactionId =
     (case isValid fullYear transactionId of Inl _ \<Rightarrow> False | Inr _ \<Rightarrow> True)"

subsection \<open>\<^verbatim>\<open>detectFakeSlip\<close>\<close>

datatype RiskLevel = LOW | MEDIUM | HIGH

text \<open>The order of the levels, for stating that one level is at most another.\<close>

fun riskRank :: "RiskLevel \<Rightarrow> nat" where
  "riskRank LOW = 0"
| "riskRank MEDIUM = 1"
| "riskRank HIGH = 2"

text \<open>
  The entries of the \<^verbatim>\<open>reasons\<close> list, one constructor for each message:
  \<^item> \<open>InvalidId r\<close>: the reason \<^verbatim>\<open>isValid\<close> gave;
  \<^item> \<open>UnknownType code\<close>: \<^verbatim>\<open>Unknown transaction type code: code\<close>;
  \<^item> \<open>RepetitiveSequence\<close>: \<^verbatim>\<open>Sequential number is repetitive (e.g., 1111, 2222)\<close>;
  \<^item> \<open>YearOlder y\<close>: \<^verbatim>\<open>Transaction year y is older than expected\<close>;
  \<^item> \<open>YearFuture y\<close>: \<^verbatim>\<open>Transaction year y is in the future\<close>;
  \<^item> \<open>MidnightTime\<close>: \<^verbatim>\<open>Transaction time is exactly 00:00:00 (unusual)\<close>.
\<close>

datatype Suspicion =
    InvalidId Reason
  | UnknownType jsstring
  | RepetitiveSequence
  | YearOlder int
  | YearFuture int
  | MidnightTime

text \<open>
  The two local variables the checks update, \<^verbatim>\<open>suspiciousReasons\<close> and
  \<^verbatim>\<open>riskLevel\<close>, as a state that each check takes and returns.
\<close>

record Assessment =
  suspiciousReasons :: "Suspicion list"
  level :: RiskLevel

text \<open>\<^verbatim>\<open>/^(\d)\1+$/\<close>: a digit, then one or more copies of it, to the end.\<close>

definition repetitive :: "jsstring \<Rightarrow> bool" where
  "repetitive seq =
     (case seq of
        [] \<Rightarrow> False
      | d # rest \<Rightarrow> isDigit d \<and> rest \<noteq> [] \<and> list_all (\<lambda>c. c = d) rest)"

definition checkUnknownType :: "ParsedIdentifier \<Rightarrow> Assessment \<Rightarrow> Assessment" where
  "checkUnknownType parsed st =
     (if \<not> isKnownType parsed
      then \<lparr>suspiciousReasons = suspiciousReasons st @ [UnknownType (typeCode parsed)],
            level = MEDIUM\<rparr>
      else st)"

definition checkSequence :: "ParsedIdentifier \<Rightarrow> Assessment \<Rightarrow> Assessment" where
  "checkSequence parsed st =
     (if repetitive (sequence parsed)
      then \<lparr>suspiciousReasons = suspiciousReasons st @ [RepetitiveSequence], level = MEDIUM\<rparr>
      else st)"

definition checkYear :: "int \<Rightarrow> ParsedIdentifier \<Rightarrow> Assessment \<Rightarrow> Assessment" where
  "checkYear fullYear parsed st =
     (if year parsed < currentYear fullYear - 2
      then \<lparr>suspiciousReasons = suspiciousReasons st @ [YearOlder (year parsed)],
            level = MEDIUM\<rparr>
      else if year parsed > currentYear fullYear + 1
      then \<lparr>suspiciousReasons = suspiciousReasons st @ [YearFuture (year parsed)],
            level = HIGH\<rparr>
      else st)"

definition checkMidnight :: "ParsedIdentifier \<Rightarrow> Assessment \<Rightarrow> Assessment" where
  "checkMidnight parsed st =
     (if hour parsed = 0 \<and> minute parsed = 0 \<and> second parsed = 0
      then \<lparr>suspiciousReasons = suspiciousReasons st @ [MidnightTime], level = MEDIUM\<rparr>
      else st)"

definition overallAssessment :: "Assessment \<Rightarrow> Assessment" where
  "overallAssessment st =
     (if length (suspiciousReasons st) > 2 then st\<lparr>level := HIGH\<rparr> else st)"

text \<open>The result; its field \<^verbatim>\<open>parsed\<close> is \<open>detectedParsed\<close> here.\<close>

record FakeSlipDetection =
  isSuspicious :: bool
  riskLevel :: RiskLevel
  reasons :: "Suspicion list"
  recommendation :: jsstring
  detectedParsed :: "ParsedIdentifier option"

text \<open>
  One assessment reads the clock as one year: \<open>fullYear\<close> is passed both to the
  validation and to the year check.
\<close>

definition detectFakeSlip :: "int \<Rightarrow> jsstring \<Rightarrow> FakeSlipDetection" where
  "detectFakeSlip fullYear transactionId =
     (case isValid fullYear transactionId of
        Inl reason \<Rightarrow>
          \<lparr>isSuspicious = True,
           riskLevel = HIGH,
           reasons = [InvalidId reason],
           recommendation = js ''Reject - Invalid transaction ID format'',
           detectedParsed = None\<rparr>
      | Inr parsed \<Rightarrow>
          let st0 = \<lparr>suspiciousReasons = [], level = LOW\<rparr>;
              st1 = checkUnknownType parsed st0;
              st2 = checkSequence parsed st1;
              st3 = checkYear fullYear parsed st2;
              st4 = checkMidnight parsed st3;
              st5 = overallAssessment st4
          in \<lparr>isSuspicious = (length (suspiciousReasons st5) > 0),
              riskLevel = level st5,
              reasons = suspiciousReasons st5,
              recommendation =
                (if level st5 = HIGH then js ''Reject - Multiple suspicious indicators''
                 else if level st5 = MEDIUM
                 then js ''Review - Some suspicious indicators detected''
                 else js ''Accept - No major concerns''),
              detectedParsed = Some parsed\<rparr>)"

subsection \<open>\<^verbatim>\<open>verifyDateTime\<close>\<close>

text \<open>
  \<^verbatim>\<open>/(\d{1,2}):(\d{2})/\<close> is not anchored: \<^verbatim>\<open>match\<close> returns the leftmost match.
  \<open>timeAt\<close> matches at the head of its argument, trying two digits for the hour before
  one, as the greedy quantifier does; \<open>timeSearch\<close> tries each start position from the
  left.
\<close>

definition timeAtWith :: "nat \<Rightarrow> jsstring \<Rightarrow> (jsstring \<times> jsstring) option" where
  "timeAtWith n s =
     do {
       (h, r0) \<leftarrow> cls isDigit n s;
       r1 \<leftarrow> lit (js '':'') r0;
       (m, r2) \<leftarrow> cls isDigit 2 r1;
       Some (h, m)
     }"

definition timeAt :: "jsstring \<Rightarrow> (jsstring \<times> jsstring) option" where
  "timeAt s = (case timeAtWith 2 s of Some r \<Rightarrow> Some r | None \<Rightarrow> timeAtWith 1 s)"

fun timeSearch :: "jsstring \<Rightarrow> (jsstring \<times> jsstring) option" where
  "timeSearch [] = timeAt []"
| "timeSearch (c # cs) =
     (case timeAt (c # cs) of Some r \<Rightarrow> Some r | None \<Rightarrow> timeSearch cs)"

text \<open>
  \<^verbatim>\<open>/\s(\d{2})\s+(\d{1,2}):(\d{2})/\<close>: white space and digits are disjoint, so
  \<^verbatim>\<open>\s+\<close> can only stand for the whole run of white space after the two digits.
\<close>

definition yearAt :: "jsstring \<Rightarrow> (jsstring \<times> jsstring \<times> jsstring) option" where
  "yearAt s =
     do {
       (w, r0) \<leftarrow> cls isWhiteSpace 1 s;
       (yy, r1) \<leftarrow> cls isDigit 2 r0;
       (ws, r2) \<leftarrow> (if takeWhile isWhiteSpace r1 = [] then None
                    else Some (takeWhile isWhiteSpace r1, dropWhile isWhiteSpace r1));
       (h, m) \<leftarrow> timeAt r2;
       Some (yy, h, m)
     }"

fun yearSearch :: "jsstring \<Rightarrow> (jsstring \<times> jsstring \<times> jsstring) option" where
  "yearSearch [] = yearAt []"
| "yearSearch (c # cs) =
     (case yearAt (c # cs) of Some r \<Rightarrow> Some r | None \<Rightarrow> yearSearch cs)"

text \<open>
  The messages of the result:
  \<^item> \<open>InvalidTransactionIdFormat\<close>: \<^verbatim>\<open>Invalid transaction ID format\<close>;
  \<^item> \<open>OcrNotProvided\<close>: \<^verbatim>\<open>OCR date/time not provided\<close>;
  \<^item> \<open>DateTimeMatch\<close>: \<^verbatim>\<open>Date and time match between transaction ID and OCR\<close>;
  \<^item> \<open>Mismatch h m y oh om\<close>: the \<^verbatim>\<open>Mismatch - Transaction: Time ... | OCR: ...\<close>
    template with the parsed hour and minute and the OCR year, hour and minute.
\<close>

datatype VerifyMessage =
    InvalidTransactionIdFormat
  | OcrNotProvided
  | DateTimeMatch
  | Mismatch int int "int option" "int option" "int option"

text \<open>
  The result and its two nested objects. The fields \<^verbatim>\<open>valid\<close>, \<^verbatim>\<open>message\<close> and
  \<^verbatim>\<open>ocrDateTime\<close> of the result are \<open>dtValid\<close>, \<open>dtMessage\<close> and
  \<open>ocrDateTimeInfo\<close>; the fields of the nested objects carry the prefixes \<open>td\<close> and
  \<open>od\<close>.
\<close>

record TransactionDateTime =
  tdYear :: int
  tdYearCode :: jsstring
  tdTime :: jsstring
  tdHour :: int
  tdMinute :: int

text \<open>In the OCR fields \<open>None\<close> is \<^verbatim>\<open>null\<close>.\<close>

record OcrDateTime =
  odRaw :: jsstring
  odYear :: "int option"
  odYearCode :: "int option"
  odHour :: "int option"
  odMinute :: "int option"

record DateTimeVerification =
  dtValid :: bool
  dtMessage :: VerifyMessage
  dateMatch :: bool
  timeMatch :: bool
  transactionDateTime :: "TransactionDateTime option"
  ocrDateTimeInfo :: "OcrDateTime option"

definition verifyDateTime :: "int \<Rightarrow> jsstring \<Rightarrow> jsstring \<Rightarrow> DateTimeVerification" where
  "verifyDateTime fullYear transactionId ocrDateTime =
     (case parse fullYear transactionId of
        None \<Rightarrow>
          \<lparr>dtValid = False, dtMessage = InvalidTransactionIdFormat,
           dateMatch = False, timeMatch = False,
           transactionDateTime = None, ocrDateTimeInfo = None\<rparr>
      | Some parsed \<Rightarrow>
          if ocrDateTime = []
          then \<lparr>dtValid = False, dtMessage = OcrNotProvided,
                dateMatch = False, timeMatch = False,
                transactionDateTime = None, ocrDateTimeInfo = None\<rparr>
          else
            let yearMatch = yearSearch ocrDateTime;
                timeMatchResult = timeSearch ocrDateTime;
                dateMatches = True;
                ocrYear = (case yearMatch of
                             Some (yy, h, m) \<Rightarrow> parseInt yy
                           | None \<Rightarrow> None);
                ocrHour = (case timeMatchResult of
                             Some (h, m) \<Rightarrow> parseInt h
                           | None \<Rightarrow> None);
                ocrMinute = (case timeMatchResult of
                               Some (h, m) \<Rightarrow> parseInt m
                             | None \<Rightarrow> None);
                timeMatches =
                  (case timeMatchResult of
                     Some (h, m) \<Rightarrow>
                       let hourMatches = (ocrHour = Some (hour parsed));
                           minuteMatches =
                             (case ocrMinute of
                                Some om \<Rightarrow> \<bar>minute parsed - om\<bar> \<le> 2
                              | None \<Rightarrow> False)
                       in hourMatches \<and> minuteMatches
                   | None \<Rightarrow> False);
                overallMatch = (dateMatches \<and> timeMatches)
            in \<lparr>dtValid = overallMatch,
                dtMessage =
                  (if overallMatch then DateTimeMatch
                   else Mismatch (hour parsed) (minute parsed) ocrYear ocrHour ocrMinute),
                dateMatch = dateMatches,
                timeMatch = timeMatches,
                transactionDateTime =
                  Some \<lparr>tdYear = year parsed, tdYearCode = yearCode parsed,
                        tdTime = time parsed, tdHour = hour parsed,
                        tdMinute = minute parsed\<rparr>,
                ocrDateTimeInfo =
                  Some \<lparr>odRaw = ocrDateTime,
                        odYear = (case ocrYear of
                                    Some y \<Rightarrow> if y \<noteq> 0 then Some (2470 + y) else None
                                  | None \<Rightarrow> None),
                        odYearCode = ocrYear,
                        odHour = ocrHour,
                        odMinute = ocrMinute\<rparr>\<rparr>)"

section \<open>The OCR service (\<^verbatim>\<open>src/services/ocrService.js\<close>)\<close>

subsection \<open>Global replacement of a literal pattern\<close>

text \<open>
  \<^verbatim>\<open>s.replace(new RegExp(p, 'g'), r)\<close> for a pattern \<open>p\<close> without regular-expression
  metacharacters and a replacement \<open>r\<close> without \<^verbatim>\<open>$\<close>: the matches are found from
  the left, each search starting where the previous match ended. (The keys of the two
  tables below are Thai letters, Thai digits and the slash, their values ASCII letters
  and digits.) The empty pattern, which no table has, matches at every position.
\<close>

function replaceAll :: "jsstring \<Rightarrow> jsstring \<Rightarrow> jsstring \<Rightarrow> jsstring" where
  "replaceAll p r [] = (if p = [] then r else [])"
| "replaceAll p r (c # cs) =
     (if p = [] then r @ c # replaceAll p r cs
      else if take (length p) (c # cs) = p
      then r @ replaceAll p r (drop (length p) (c # cs))
      else c # replaceAll p r cs)"
  by pat_completeness auto
termination
  by (relation "measure (\<lambda>(p, r, s). length s)") (auto simp: Suc_le_eq)

subsection \<open>\<^verbatim>\<open>cleanOCRText\<close>\<close>

text \<open>
  The table \<^verbatim>\<open>ocrFixes\<close>, in the order of the object literal (none of its keys is an
  array index, so \<^verbatim>\<open>Object.entries\<close> keeps that order). A key is listed by its code
  units: \<open>47\<close> is the slash, \<open>3585\<close> to \<open>3673\<close> is the Thai block from KO KAI to the
  digit nine.
\<close>

definition ocrFixes :: "(jsstring \<times> jsstring) list" where
  "ocrFixes =
     [([47, 3648, 3623], js ''APM''),
      ([47, 3648, 3629, 3607, 3637], js ''ATF''),
      ([47, 3648, 3629], js ''A''),
      ([47, 3610, 3637], js ''B''),
      ([3648, 3623, 3617], js ''APM''),
      ([3648, 3623], js ''APM''),
      ([3648, 3629, 3607, 3637], js ''ATF''),
      ([3610, 3637, 3588, 3636, 3623], js ''BQ''),
      ([3610, 3637, 3588, 3636, 3623, 3629, 3634, 3619, 3660], js ''BQR''),
      ([3610, 3637, 3614, 3637], js ''BP''),
      ([3604, 3641], js ''QR''),
      ([3604, 3641, 3629, 3634, 3619, 3660], js ''QR''),
      ([3648, 3629], js ''A''),
      ([3610, 3637], js ''B''),
      ([3595, 3637], js ''C''),
      ([3604, 3637], js ''D''),
      ([3629, 3637], js ''E''),
      ([3648, 3629, 3615], js ''F''),
      ([3592, 3637], js ''G''),
      ([3648, 3629, 3594], js ''H''),
      ([3652, 3629], js ''I''),
      ([3648, 3592], js ''J''),
      ([3648, 3588], js ''K''),
      ([3649, 3629, 3621], js ''L''),
      ([3648, 3629, 3655, 3617], js ''M''),
      ([3648, 3629, 3655, 3609], js ''N''),
      ([3650, 3629], js ''O''),
      ([3614, 3637], js ''P''),
      ([3588, 3636, 3623], js ''Q''),
      ([3629, 3634, 3619, 3660], js ''R''),
      ([3648, 3629, 3626], js ''S''),
      ([3607, 3637], js ''T''),
      ([3618, 3641], js ''U''),
      ([3623, 3637], js ''V''),
      ([3604, 3633, 3610, 3648, 3610, 3636, 3621, 3618, 3641], js ''W''),
      ([3648, 3629, 3655, 3585, 3595, 3660], js ''X''),
      ([3623, 3634, 3618], js ''Y''),
      ([3649, 3595, 3604], js ''Z''),
      ([3648, 3648, 3629], js ''A''),
      ([3664], js ''0''),
      ([3665], js ''1''),
      ([3666], js ''2''),
      ([3667], js ''3''),
      ([3668], js ''4''),
      ([3669], js ''5''),
      ([3670], js ''6''),
      ([3671], js ''7''),
      ([3672], js ''8''),
      ([3673], js ''9'')]"

definition cleanOCRText :: "jsstring \<Rightarrow> jsstring" where
  "cleanOCRText text =
     (if text = [] then []
      else fold (\<lambda>(wrong, correct) cleaned. replaceAll wrong correct cleaned) ocrFixes text)"

subsection \<open>\<^verbatim>\<open>fixTransactionIdOCRErrors\<close>\<close>

text \<open>The table \<^verbatim>\<open>thaiToEnglish\<close>, in the order of the object literal.\<close>

definition thaiToEnglish :: "(jsstring \<times> jsstring) list" where
  "thaiToEnglish =
     [([3604, 3641], js ''QR''),
      ([3588, 3636, 3623], js ''Q''),
      ([3629, 3634, 3619, 3660], js ''R''),
      ([3610, 3637], js ''B''),
      ([3648, 3629], js ''A''),
      ([3607, 3637], js ''T''),
      ([3648, 3629, 3615], js ''F''),
      ([3614, 3637], js ''P''),
      ([3648, 3629, 3655, 3617], js ''M''),
      ([3650, 3629], js ''O'')]"

text \<open>\<^verbatim>\<open>/[\<close>KO KAI\<^verbatim>\<open>-\<close>THAI DIGIT NINE\<^verbatim>\<open>]/\<close>: the code units \<open>3585\<close> to \<open>3673\<close>.\<close>

definition isThai :: "jschar \<Rightarrow> bool" where
  "isThai c = (3585 \<le> c \<and> c \<le> 3673)"

text \<open>
  The first part of the function: the replacements of \<^verbatim>\<open>thaiToEnglish\<close>, then the
  removal of every remaining Thai character.
\<close>

definition thaiCleaned :: "jsstring \<Rightarrow> jsstring" where
  "thaiCleaned transactionId =
     filter (\<lambda>c. \<not> isThai c)
       (fold (\<lambda>(thai, eng) cleaned. replaceAll thai eng cleaned) thaiToEnglish transactionId)"

text \<open>
  In what follows the variable \<^verbatim>\<open>prefix\<close> of the source is \<open>pre\<close>.

  \<^verbatim>\<open>/^(0152\d{8})(8QR[08]0?)(\d{4,5})$/\<close>. The optional \<^verbatim>\<open>0\<close> is greedy: it is taken
  when the rest then still is four or five digits to the end, and left out otherwise.
\<close>

definition bqrPattern :: "jsstring \<Rightarrow> (jsstring \<times> jsstring \<times> jsstring) option" where
  "bqrPattern s =
     do {
       r0 \<leftarrow> lit (js ''0152'') s;
       (digits, r1) \<leftarrow> cls isDigit 8 r0;
       r2 \<leftarrow> lit (js ''8QR'') r1;
       (x, r3) \<leftarrow> cls (\<lambda>c. c = 48 \<or> c = 56) 1 r2;
       (case do { r4 \<leftarrow> lit (js ''0'') r3; clsEnd isDigit 4 5 r4 } of
          Some suffix \<Rightarrow> Some (js ''0152'' @ digits, js ''8QR'' @ x @ js ''0'', suffix)
        | None \<Rightarrow>
            do {
              suffix \<leftarrow> clsEnd isDigit 4 5 r3;
              Some (js ''0152'' @ digits, js ''8QR'' @ x, suffix)
            })
     }"

text \<open>
  \<^verbatim>\<open>/^(0152\d{8})(.{2,7}?)(\d{3,5})$/\<close>. The dot matches every code unit but the four
  line terminators. The middle group is lazy: it is tried with 2 characters, then 3, up
  to 7, and the first length after which the rest is three to five digits to the end
  gives the match.
\<close>

definition isDot :: "jschar \<Rightarrow> bool" where
  "isDot c = (c \<noteq> 10 \<and> c \<noteq> 13 \<and> c \<noteq> 8232 \<and> c \<noteq> 8233)"

fun lazyMiddle :: "nat list \<Rightarrow> jsstring \<Rightarrow> (jsstring \<times> jsstring) option" where
  "lazyMiddle [] r = None"
| "lazyMiddle (k # ks) r =
     (case do { (middle, r') \<leftarrow> cls isDot k r;
                suffix \<leftarrow> clsEnd isDigit 3 5 r';
                Some (middle, suffix) } of
        Some m \<Rightarrow> Some m
      | None \<Rightarrow> lazyMiddle ks r)"

definition splitPattern :: "jsstring \<Rightarrow> (jsstring \<times> jsstring \<times> jsstring) option" where
  "splitPattern s =
     do {
       r0 \<leftarrow> lit (js ''0152'') s;
       (digits, r1) \<leftarrow> cls isDigit 8 r0;
       (middle, suffix) \<leftarrow> lazyMiddle [2, 3, 4, 5, 6, 7] r1;
       Some (js ''0152'' @ digits, middle, suffix)
     }"

text \<open>
  \<^verbatim>\<open>numberToLetter[char] || char\<close>: the digit 9 has no entry and stays.
\<close>

definition numberToLetter :: "(jschar \<times> jschar) list" where
  "numberToLetter =
     [(48, 79), (49, 73), (51, 66), (52, 65), (53, 83), (54, 70), (55, 84), (56, 66), (50, 90)]"

definition reconstruct :: "jsstring \<Rightarrow> jsstring" where
  "reconstruct middle =
     map (\<lambda>c. case map_of numberToLetter c of Some l \<Rightarrow> l | None \<Rightarrow> c) middle"

definition knownCodes :: "jsstring list" where
  "knownCodes =
     [js ''ATF0'', js ''ATF'', js ''APM0'', js ''APM'', js ''BQR0'', js ''BQR'', js ''BPMO'',
      js ''TRF'', js ''PMT'', js ''BIL'']"

text \<open>
  The loop over \<^verbatim>\<open>knownCodes\<close>: the first code that the reconstruction equals, or
  with whose first three characters it starts.
\<close>

fun matchKnownCode :: "jsstring list \<Rightarrow> jsstring \<Rightarrow> jsstring option" where
  "matchKnownCode [] reconstructedUpper = None"
| "matchKnownCode (code # codes) reconstructedUpper =
     (if reconstructedUpper = code \<or> startsWith reconstructedUpper (substring code 0 3)
      then Some code
      else matchKnownCode codes reconstructedUpper)"

definition endsWith :: "jsstring \<Rightarrow> jsstring \<Rightarrow> bool" where
  "endsWith s p = (length p \<le> length s \<and> drop (length s - length p) s = p)"

text \<open>
  The block for a middle section that is all digits, of length 2 to 4: \<open>Some\<close> of the
  string a \<^verbatim>\<open>return\<close> of the block gives, \<open>None\<close> when control leaves the block.
  \<^verbatim>\<open>/^8.{2}8$/\<close> and \<^verbatim>\<open>/^8\d{2}0$/\<close> are applied to a string of digits; the tests
  against \<^verbatim>\<open>8TF\<close>, \<^verbatim>\<open>8T6\<close>, \<^verbatim>\<open>8PM\<close> and \<^verbatim>\<open>/^8P\d$/\<close> are kept as the source
  has them.
\<close>

definition digitRules :: "jsstring \<Rightarrow> jsstring \<Rightarrow> jsstring \<Rightarrow> jsstring option" where
  "digitRules pre middle suffix =
     (let reconstructed = reconstruct middle in
      if length middle = 4 \<and> take 1 middle = js ''8'' \<and> drop 3 middle = js ''8''
         \<and> list_all isDot (take 2 (drop 1 middle))
      then Some (pre @ js ''BQR0'' @ suffix)
      else if middle = js ''8008'' \<or> middle = js ''8080''
      then Some (pre @ js ''BQR0'' @ suffix)
      else if middle = js ''816'' \<or> middle = js ''8160''
      then Some (pre @ js ''ATF0'' @ suffix)
      else if startsWith middle (js ''8'') \<and> length middle \<ge> 3
              \<and> length middle = 4 \<and> list_all isDigit (take 2 (drop 1 middle))
              \<and> drop 3 middle = js ''0''
      then Some (pre @ js ''BQR0'' @ suffix)
      else if startsWith middle (js ''8'') \<and> length middle \<ge> 3
              \<and> (middle = js ''8TF'' \<or> middle = js ''8T6'' \<or> middle = js ''816'')
      then Some (pre @ js ''ATF0'' @ suffix)
      else if startsWith middle (js ''8'') \<and> length middle \<ge> 3
              \<and> (middle = js ''8PM''
                  \<or> (length middle = 3 \<and> take 2 middle = js ''8P''
                      \<and> list_all isDigit (drop 2 middle)))
      then Some (pre @ js ''APM0'' @ suffix)
      else (case matchKnownCode knownCodes (toUpperCase reconstructed) of
              Some code \<Rightarrow> Some (pre @ code @ suffix)
            | None \<Rightarrow>
                if length middle = 4 \<and> endsWith middle (js ''0'')
                then Some (pre @ reconstructed @ suffix)
                else None))"

text \<open>
  The block for a middle section with a capital letter, of length 3 or 4. It always
  returns: \<^verbatim>\<open>/^8[A-Z]+8$/\<close> turns the outer characters into \<^verbatim>\<open>B\<close> and \<^verbatim>\<open>0\<close>,
  \<^verbatim>\<open>/^8[A-Z]+0$/\<close> the first into \<^verbatim>\<open>B\<close>, and any other middle section is put back
  as it is.
\<close>

definition eightLettersThen :: "jschar \<Rightarrow> jsstring \<Rightarrow> bool" where
  "eightLettersThen z middle =
     (2 < length middle \<and> take 1 middle = js ''8'' \<and> drop (length middle - 1) middle = [z]
      \<and> list_all isUpperAZ (take (length middle - 2) (drop 1 middle)))"

definition mixedRules :: "jsstring \<Rightarrow> jsstring" where
  "mixedRules middle =
     (if eightLettersThen 56 middle
      then js ''B'' @ substring middle 1 (length middle - 1) @ js ''0''
      else if eightLettersThen 48 middle
      then js ''B'' @ drop 1 middle
      else middle)"

text \<open>
  The rules between the Thai clean-up and the final \<^verbatim>\<open>return cleaned\<close>: \<open>Some\<close> of
  the string one of their \<^verbatim>\<open>return\<close> statements gives, \<open>None\<close> when control reaches
  the final \<^verbatim>\<open>return\<close>.
\<close>

definition repairRules :: "jsstring \<Rightarrow> jsstring option" where
  "repairRules cleaned =
     (case bqrPattern cleaned of
        Some (p1, p2, p3) \<Rightarrow> Some (p1 @ js ''BQR0'' @ p3)
      | None \<Rightarrow>
         (case splitPattern cleaned of
            None \<Rightarrow> None
          | Some (pre, middle, suffix) \<Rightarrow>
              if middle = js ''8QR8'' then Some (pre @ js ''BQR0'' @ suffix)
              else if middle = js ''8QR0'' then Some (pre @ js ''BQR0'' @ suffix)
              else (case (if list_all isDigit middle \<and> middle \<noteq> []
                             \<and> length middle \<ge> 2 \<and> length middle \<le> 4
                          then digitRules pre middle suffix else None) of
                      Some fixed \<Rightarrow> Some fixed
                    | None \<Rightarrow>
                        if list_ex isUpperAZ middle \<and> length middle \<ge> 3
                           \<and> length middle \<le> 4
                        then Some (pre @ mixedRules middle @ suffix)
                        else None)))"

definition fixTransactionIdOCRErrors :: "jsstring \<Rightarrow> jsstring" where
  "fixTransactionIdOCRErrors transactionId =
     (if transactionId = [] \<or> length transactionId < 20 then transactionId
      else let cleaned = thaiCleaned transactionId in
        case repairRules cleaned of
          Some fixed \<Rightarrow> fixed
        | None \<Rightarrow> cleaned)"

section \<open>The validation service (\<^verbatim>\<open>src/services/validationService.js\<close>)\<close>

subsection \<open>JavaScript numbers\<close>

text \<open>
  The amounts, the OCR confidence and the score percentage are IEEE 754 doubles. A finite
  double is kept as the rational number it denotes, and an arithmetic operation returns
  the exact result rounded to the nearest double, ties to the even mantissa (\<open>roundDouble\<close>;
  53 bits of mantissa; overflow and the subnormal range are not modelled, the values the
  service computes are far from both). \<open>NaN\<close>, \<^verbatim>\<open>null\<close> and \<^verbatim>\<open>undefined\<close> are \<open>None\<close>
  where a field can hold them.
\<close>

fun bitLength :: "nat \<Rightarrow> nat" where
  "bitLength 0 = 0"
| "bitLength (Suc n) = Suc (bitLength (Suc n div 2))"

text \<open>\<open>floorLog2 a\<close> is the exponent \<open>e\<close> with \<open>2\<^sup>e \<le> a < 2\<^sup>e\<^sup>+\<^sup>1\<close>, for \<open>a > 0\<close>.\<close>

definition floorLog2 :: "rat \<Rightarrow> int" where
  "floorLog2 a =
     (if 1 \<le> a then int (bitLength (nat \<lfloor>a\<rfloor>)) - 1
      else - int (bitLength (nat (\<lceil>1 / a\<rceil> - 1))))"

definition pow2 :: "int \<Rightarrow> rat" where
  "pow2 e = (if 0 \<le> e then 2 ^ nat e else 1 / 2 ^ nat (- e))"

definition roundHalfEven :: "rat \<Rightarrow> int" where
  "roundHalfEven m =
     (let f = \<lfloor>m\<rfloor>; d = m - of_int f
      in if d < 1 / 2 then f else if 1 / 2 < d then f + 1 else if even f then f else f + 1)"

definition roundDouble :: "rat \<Rightarrow> rat" where
  "roundDouble q =
     (if q = 0 then 0
      else let u = pow2 (floorLog2 \<bar>q\<bar> - 52)
           in sgn q * of_int (roundHalfEven (\<bar>q\<bar> / u)) * u)"

definition fsub :: "rat \<Rightarrow> rat \<Rightarrow> rat" where
  "fsub a b = roundDouble (a - b)"

definition fmul :: "rat \<Rightarrow> rat \<Rightarrow> rat" where
  "fmul a b = roundDouble (a * b)"

text \<open>Division, for a divisor that is not zero.\<close>

definition fdiv :: "rat \<Rightarrow> rat \<Rightarrow> rat" where
  "fdiv a b = roundDouble (a / b)"

text \<open>\<^verbatim>\<open>Math.round\<close>: the nearest integer, a tie going up.\<close>

definition mathRound :: "rat \<Rightarrow> int" where
  "mathRound x = \<lfloor>x + 1 / 2\<rfloor>"

subsection \<open>The input and the result\<close>

text \<open>
  The slip data as the OCR service builds it: the transaction ID, the recipient and the
  time strings are strings or \<^verbatim>\<open>null\<close>, the amount and the confidence numbers or
  \<^verbatim>\<open>null\<close>. The expected amount is a number, \<^verbatim>\<open>null\<close> or \<open>NaN\<close>.
\<close>

record DateTimeInfo =
  slipTime :: "jsstring option"
  rawOCR :: "jsstring option"

record SlipData =
  success :: bool
  transactionId :: "jsstring option"
  dateTime :: "DateTimeInfo option"
  amount :: "rat option"
  recipient :: "jsstring option"
  ocrConfidence :: "rat option"

record ExpectedData =
  expectedAmount :: "rat option"
  expectedRecipient :: "jsstring option"

text \<open>
  The messages, one constructor for each string of the source, with the values its
  template interpolates.
  \<^item> \<open>TimeNotFound\<close>: \<^verbatim>\<open>Time not found in slip\<close>; \<open>InvalidTimeFormat\<close>:
    \<^verbatim>\<open>Invalid time format\<close>; \<open>TimeMatches\<close>: \<^verbatim>\<open>Time matches between slip and
    transaction ID\<close>; \<open>TimeDiffers slip tx\<close>: \<^verbatim>\<open>Time mismatch: Slip shows ...,
    transaction ID indicates ...\<close>.
  \<^item> \<open>AmountMatches\<close>: \<^verbatim>\<open>Amount matches expected value\<close>; \<open>AmountDiffers e a\<close>:
    \<^verbatim>\<open>Amount mismatch: Expected e but found a\<close>.
  \<^item> \<open>RecipientMatches\<close>: \<^verbatim>\<open>Recipient name matches\<close>; \<open>RecipientDiffers e a\<close>:
    \<^verbatim>\<open>Recipient mismatch: Expected "e" but found "a"\<close>.
\<close>

datatype TimeMessage = TimeNotFound | InvalidTimeFormat | TimeMatches | TimeDiffers jsstring jsstring

datatype AmountMessage = AmountMatches | AmountDiffers rat rat

datatype RecipientMessage = RecipientMatches | RecipientDiffers jsstring jsstring

text \<open>
  The errors and the warnings of the result:
  \<^item> \<open>FailedToParseSlip\<close>: \<^verbatim>\<open>Failed to parse slip image\<close>;
  \<^item> \<open>TransactionIdNotFound\<close>: \<^verbatim>\<open>Transaction ID not found in slip\<close>;
  \<^item> \<open>InvalidTransactionId r\<close>: \<^verbatim>\<open>Invalid transaction ID: r\<close>;
  \<^item> \<open>HighRiskFake rs\<close>: \<^verbatim>\<open>High risk fake slip: \<close> and the reasons joined;
  \<^item> \<open>DateMismatch\<close>, \<open>TimeMismatch\<close>: \<^verbatim>\<open>Date mismatch between transaction ID and
    OCR\<close> and \<^verbatim>\<open>Time mismatch between transaction ID and OCR\<close>;
  \<^item> \<open>TimeError m\<close>, \<open>AmountError m\<close>: the message of the time or amount validation;
  \<^item> \<open>SuspiciousIndicators rs\<close>: \<^verbatim>\<open>Suspicious indicators: \<close> and the reasons joined;
  \<^item> \<open>VerifyWarning m\<close>, \<open>RecipientWarning m\<close>: the message of the cross-check or of
    the recipient validation;
  \<^item> \<open>AmountNotFound\<close>: \<^verbatim>\<open>Amount not found or invalid in slip\<close>;
  \<^item> \<open>OcrBelowOptimal\<close>: \<^verbatim>\<open>OCR confidence is below optimal level\<close>;
  \<^item> \<open>OcrLow\<close>: \<^verbatim>\<open>Low OCR confidence - results may be unreliable\<close>.
\<close>

datatype SlipError =
    FailedToParseSlip
  | TransactionIdNotFound
  | InvalidTransactionId Reason
  | HighRiskFake "Suspicion list"
  | DateMismatch
  | TimeMismatch
  | TimeError TimeMessage
  | AmountError AmountMessage

datatype SlipWarning =
    SuspiciousIndicators "Suspicion list"
  | VerifyWarning VerifyMessage
  | AmountNotFound
  | RecipientWarning RecipientMessage
  | OcrBelowOptimal
  | OcrLow

text \<open>
  The result of \<^verbatim>\<open>validateTime\<close>: the fields after \<open>tvMessage\<close> are present only when
  both times could be split; \<open>None\<close> in \<open>minuteDiff\<close> is \<open>NaN\<close>.
\<close>

record TimeValidation =
  tvValid :: bool
  tvMessage :: TimeMessage
  tvSlipTime :: "jsstring option"
  tvTransactionTime :: "jsstring option"
  tvHourMatch :: "bool option"
  minuteDiff :: "int option option"

record AmountValidation =
  avValid :: bool
  actualAmount :: rat
  avExpectedAmount :: rat
  difference :: rat
  avMessage :: AmountMessage

record RecipientValidation =
  rvValid :: bool
  actualRecipient :: jsstring
  rvExpectedRecipient :: jsstring
  rvMessage :: RecipientMessage

datatype TimeCheckResult = ByOcrText DateTimeVerification | BySlipTime TimeValidation

record Details =
  transactionInfo :: "ParsedIdentifier option"
  authenticity :: "jsstring option"
  timeValidation :: "TimeCheckResult option"
  detailAmount :: "rat option"
  amountValidation :: "AmountValidation option"
  recipientValidation :: "RecipientValidation option"
  ocrQuality :: "jsstring option"

text \<open>
  The result object; its field \<^verbatim>\<open>valid\<close> is \<open>vrValid\<close> here, and the field
  \<^verbatim>\<open>amount\<close> of its details is \<open>detailAmount\<close>. \<open>scorePercentage\<close> is set only
  by the final statement; before it the field is absent. In the validation records the
  fields \<^verbatim>\<open>valid\<close>, \<^verbatim>\<open>message\<close> and \<^verbatim>\<open>expected...\<close> carry the prefixes
  \<open>tv\<close>, \<open>av\<close> and \<open>rv\<close>; \<^verbatim>\<open>time\<close> of the slip's date and time is \<open>slipTime\<close>.
\<close>

record ValidationResult =
  vrValid :: bool
  errors :: "SlipError list"
  warnings :: "SlipWarning list"
  details :: Details
  score :: nat
  maxScore :: nat
  fakeSlipDetection :: "FakeSlipDetection option"
  scorePercentage :: "int option"

subsection \<open>The helper validations\<close>

text \<open>\<^verbatim>\<open>s.split(':')\<close>, for any separator character.\<close>

fun splitOn :: "jschar \<Rightarrow> jsstring \<Rightarrow> jsstring list" where
  "splitOn d [] = [[]]"
| "splitOn d (c # cs) =
     (if c = d then [] # splitOn d cs
      else (case splitOn d cs of
              [] \<Rightarrow> [[c]]
            | part # parts \<Rightarrow> (c # part) # parts))"

text \<open>
  \<^verbatim>\<open>validateTime\<close>. A comparison with \<open>NaN\<close> is false, and \<^verbatim>\<open>Math.abs\<close> of a
  difference with \<open>NaN\<close> is \<open>NaN\<close>.
\<close>

definition validateTime :: "SlipData \<Rightarrow> ParsedIdentifier \<Rightarrow> TimeValidation" where
  "validateTime slipData parsedTransaction =
     (case (case dateTime slipData of None \<Rightarrow> None | Some d \<Rightarrow> slipTime d) of
        None \<Rightarrow>
          \<lparr>tvValid = False, tvMessage = TimeNotFound, tvSlipTime = None,
           tvTransactionTime = None, tvHourMatch = None, minuteDiff = None\<rparr>
      | Some slipT \<Rightarrow>
          if slipT = []
          then \<lparr>tvValid = False, tvMessage = TimeNotFound, tvSlipTime = None,
                tvTransactionTime = None, tvHourMatch = None, minuteDiff = None\<rparr>
          else
            let transactionTime = time parsedTransaction;
                slipParts = splitOn 58 slipT;
                transParts = splitOn 58 transactionTime
            in if length slipParts < 2 \<or> length transParts < 2
               then \<lparr>tvValid = False, tvMessage = InvalidTimeFormat, tvSlipTime = None,
                     tvTransactionTime = None, tvHourMatch = None, minuteDiff = None\<rparr>
               else
                 let slipHour = parseInt (slipParts ! 0);
                     slipMinute = parseInt (slipParts ! 1);
                     transHour = parseInt (transParts ! 0);
                     transMinute = parseInt (transParts ! 1);
                     hourMatch = (slipHour \<noteq> None \<and> slipHour = transHour);
                     diff = (case (slipMinute, transMinute) of
                               (Some a, Some b) \<Rightarrow> Some \<bar>a - b\<bar>
                             | _ \<Rightarrow> None);
                     minuteMatch = (case diff of Some n \<Rightarrow> n \<le> 2 | None \<Rightarrow> False);
                     v = (hourMatch \<and> minuteMatch)
                 in \<lparr>tvValid = v,
                     tvMessage = (if v then TimeMatches else TimeDiffers slipT transactionTime),
                     tvSlipTime = Some slipT,
                     tvTransactionTime = Some transactionTime,
                     tvHourMatch = Some hourMatch,
                     minuteDiff = Some diff\<rparr>)"

text \<open>\<^verbatim>\<open>validateAmount\<close>, with the default tolerance \<^verbatim>\<open>0.01\<close>, the double nearest to 1/100.\<close>

definition validateAmount :: "rat \<Rightarrow> rat \<Rightarrow> AmountValidation" where
  "validateAmount actual expected =
     (let tolerance = roundDouble (1 / 100);
          diff = \<bar>fsub actual expected\<bar>;
          v = (diff \<le> tolerance)
      in \<lparr>avValid = v, actualAmount = actual, avExpectedAmount = expected, difference = diff,
          avMessage = (if v then AmountMatches else AmountDiffers expected actual)\<rparr>)"

text \<open>\<^verbatim>\<open>a.includes(b)\<close>.\<close>

fun jsIncludes :: "jsstring \<Rightarrow> jsstring \<Rightarrow> bool" where
  "jsIncludes [] p = (p = [])"
| "jsIncludes (c # cs) p = (startsWith (c # cs) p \<or> jsIncludes cs p)"

text \<open>
  \<^verbatim>\<open>validateRecipient\<close>. \<^verbatim>\<open>String.prototype.toLowerCase\<close> is the parameter
  \<open>toLowerCase\<close>: what is proved below holds whatever function stands for it.
\<close>

definition validateRecipient ::
  "(jsstring \<Rightarrow> jsstring) \<Rightarrow> jsstring \<Rightarrow> jsstring \<Rightarrow> RecipientValidation" where
  "validateRecipient toLowerCase actual expected =
     (let normalize = (\<lambda>str. removeWhitespace (toLowerCase str));
          actualNorm = normalize actual;
          expectedNorm = normalize expected;
          match = (jsIncludes actualNorm expectedNorm \<or> jsIncludes expectedNorm actualNorm)
      in \<lparr>rvValid = match, actualRecipient = actual, rvExpectedRecipient = expected,
          rvMessage = (if match then RecipientMatches else RecipientDiffers expected actual)\<rparr>)"

subsection \<open>\<^verbatim>\<open>validateSlip\<close>\<close>

text \<open>
  The function updates one \<^verbatim>\<open>result\<close> object, check after check. Each check is a
  function from the result to the result; \<open>validateSlip\<close> composes them in the order of
  the source.
\<close>

definition initialResult :: ValidationResult where
  "initialResult =
     \<lparr>vrValid = False, errors = [], warnings = [],
      details = \<lparr>transactionInfo = None, authenticity = None, timeValidation = None,
                 detailAmount = None, amountValidation = None, recipientValidation = None,
                 ocrQuality = None\<rparr>,
      score = 0, maxScore = 0, fakeSlipDetection = None, scorePercentage = None\<rparr>"

definition authenticityCheck :: "FakeSlipDetection \<Rightarrow> ValidationResult \<Rightarrow> ValidationResult" where
  "authenticityCheck fakeDetection result =
     (let r = result\<lparr>fakeSlipDetection := Some fakeDetection, maxScore := maxScore result + 25\<rparr>
      in if riskLevel fakeDetection = LOW
         then r\<lparr>score := score r + 25,
                details := (details r)\<lparr>authenticity := Some (js ''Likely authentic'')\<rparr>\<rparr>
         else if riskLevel fakeDetection = MEDIUM
         then r\<lparr>score := score r + 15,
                details := (details r)\<lparr>authenticity := Some (js ''Review required'')\<rparr>,
                warnings := warnings r @ [SuspiciousIndicators (reasons fakeDetection)]\<rparr>
         else r\<lparr>details := (details r)\<lparr>authenticity := Some (js ''High risk of fake'')\<rparr>,
                errors := errors r @ [HighRiskFake (reasons fakeDetection)]\<rparr>)"

definition timeCheck ::
  "int \<Rightarrow> SlipData \<Rightarrow> jsstring \<Rightarrow> ParsedIdentifier \<Rightarrow> ValidationResult \<Rightarrow> ValidationResult" where
  "timeCheck fullYear slipData tid parsedTransaction result =
     (case (case dateTime slipData of None \<Rightarrow> None | Some d \<Rightarrow> rawOCR d) of
        Some ocrText \<Rightarrow>
          if ocrText \<noteq> []
          then
            let tv = verifyDateTime fullYear tid ocrText;
                r = result\<lparr>details := (details result)\<lparr>timeValidation := Some (ByOcrText tv)\<rparr>,
                          maxScore := maxScore result + 25\<rparr>
            in if dtValid tv then r\<lparr>score := score r + 25\<rparr>
               else r\<lparr>errors := errors r
                                 @ (if \<not> dateMatch tv then [DateMismatch] else [])
                                 @ (if \<not> timeMatch tv then [TimeMismatch] else []),
                       warnings := warnings r @ [VerifyWarning (dtMessage tv)]\<rparr>
          else
            let tv = validateTime slipData parsedTransaction;
                r = result\<lparr>details := (details result)\<lparr>timeValidation := Some (BySlipTime tv)\<rparr>,
                          maxScore := maxScore result + 25\<rparr>
            in if tvValid tv then r\<lparr>score := score r + 25\<rparr>
               else r\<lparr>errors := errors r @ [TimeError (tvMessage tv)]\<rparr>
      | None \<Rightarrow>
          let tv = validateTime slipData parsedTransaction;
              r = result\<lparr>details := (details result)\<lparr>timeValidation := Some (BySlipTime tv)\<rparr>,
                        maxScore := maxScore result + 25\<rparr>
          in if tvValid tv then r\<lparr>score := score r + 25\<rparr>
             else r\<lparr>errors := errors r @ [TimeError (tvMessage tv)]\<rparr>)"

definition amountCheck :: "SlipData \<Rightarrow> ExpectedData \<Rightarrow> ValidationResult \<Rightarrow> ValidationResult" where
  "amountCheck slipData expectedData result =
     (let r = result\<lparr>maxScore := maxScore result + 20\<rparr>
      in case amount slipData of
           None \<Rightarrow> r\<lparr>warnings := warnings r @ [AmountNotFound]\<rparr>
         | Some a \<Rightarrow>
             if a \<noteq> 0 \<and> a > 0
             then
               let r1 = r\<lparr>score := score r + 20,
                          details := (details r)\<lparr>detailAmount := Some a\<rparr>\<rparr>
               in (case expectedAmount expectedData of
                     None \<Rightarrow> r1
                   | Some e \<Rightarrow>
                       if e \<noteq> 0
                       then
                         let amountMatch = validateAmount a e;
                             r2 = r1\<lparr>details := (details r1)\<lparr>amountValidation := Some amountMatch\<rparr>,
                                     maxScore := maxScore r1 + 15\<rparr>
                         in if avValid amountMatch then r2\<lparr>score := score r2 + 15\<rparr>
                            else r2\<lparr>errors := errors r2 @ [AmountError (avMessage amountMatch)]\<rparr>
                       else r1)
             else r\<lparr>warnings := warnings r @ [AmountNotFound]\<rparr>)"

definition recipientCheck ::
  "(jsstring \<Rightarrow> jsstring) \<Rightarrow> SlipData \<Rightarrow> ExpectedData \<Rightarrow> ValidationResult \<Rightarrow> ValidationResult" where
  "recipientCheck toLowerCase slipData expectedData result =
     (case (expectedRecipient expectedData, recipient slipData) of
        (Some e, Some a) \<Rightarrow>
          if e \<noteq> [] \<and> a \<noteq> []
          then
            let recipientMatch = validateRecipient toLowerCase a e;
                r = result\<lparr>details := (details result)\<lparr>recipientValidation := Some recipientMatch\<rparr>,
                          maxScore := maxScore result + 10\<rparr>
            in if rvValid recipientMatch then r\<lparr>score := score r + 10\<rparr>
               else r\<lparr>warnings := warnings r @ [RecipientWarning (rvMessage recipientMatch)]\<rparr>
          else result
      | _ \<Rightarrow> result)"

definition confidenceCheck :: "SlipData \<Rightarrow> ValidationResult \<Rightarrow> ValidationResult" where
  "confidenceCheck slipData result =
     (let r = result\<lparr>maxScore := maxScore result + 15\<rparr>;
          atLeast = (\<lambda>bound. case ocrConfidence slipData of None \<Rightarrow> False | Some c \<Rightarrow> bound \<le> c)
      in if atLeast 70
         then r\<lparr>score := score r + 15,
                details := (details r)\<lparr>ocrQuality := Some (js ''Good'')\<rparr>\<rparr>
         else if atLeast 50
         then r\<lparr>score := score r + 10,
                details := (details r)\<lparr>ocrQuality := Some (js ''Fair'')\<rparr>,
                warnings := warnings r @ [OcrBelowOptimal]\<rparr>
         else r\<lparr>details := (details r)\<lparr>ocrQuality := Some (js ''Poor'')\<rparr>,
                warnings := warnings r @ [OcrLow]\<rparr>)"

text \<open>
  The final statements. \<^verbatim>\<open>maxScore\<close> is at least 85 here, so the division is by a
  number that is not zero.
\<close>

definition percentageOf :: "nat \<Rightarrow> nat \<Rightarrow> rat" where
  "percentageOf sc mx = fmul (fdiv (of_nat sc) (of_nat mx)) 100"

definition finalVerdict :: "ValidationResult \<Rightarrow> ValidationResult" where
  "finalVerdict result =
     (let percentage = percentageOf (score result) (maxScore result)
      in result\<lparr>vrValid := (length (errors result) = 0 \<and> 70 \<le> percentage),
                scorePercentage := Some (mathRound percentage)\<rparr>)"

definition validateSlip ::
  "(jsstring \<Rightarrow> jsstring) \<Rightarrow> int \<Rightarrow> SlipData \<Rightarrow> ExpectedData \<Rightarrow> ValidationResult" where
  "validateSlip toLowerCase fullYear slipData expectedData =
     (if \<not> success slipData
      then initialResult\<lparr>errors := [FailedToParseSlip]\<rparr>
      else case transactionId slipData of
             None \<Rightarrow> initialResult\<lparr>errors := [TransactionIdNotFound]\<rparr>
           | Some tid \<Rightarrow>
               if tid = [] then initialResult\<lparr>errors := [TransactionIdNotFound]\<rparr>
               else (case isValid fullYear tid of
                       Inl reason \<Rightarrow> initialResult\<lparr>errors := [InvalidTransactionId reason]\<rparr>
                     | Inr parsedTransaction \<Rightarrow>
                         let r0 = initialResult
                                    \<lparr>details := (details initialResult)
                                        \<lparr>transactionInfo := Some parsedTransaction\<rparr>\<rparr>;
                             r1 = authenticityCheck (detectFakeSlip fullYear tid) r0;
                             r2 = timeCheck fullYear slipData tid parsedTransaction r1;
                             r3 = amountCheck slipData expectedData r2;
                             r4 = recipientCheck toLowerCase slipData expectedData r3;
                             r5 = confidenceCheck slipData r4
                         in finalVerdict r5))"

section \<open>Notions for stating the properties\<close>

subsection \<open>The grammar in the specification's words\<close>

text \<open>
  The specification gives the canonical identifier by positions: characters 1 to 4 the
  literal prefix, 5 to 6 the year code, 7 to 8 the hour, 9 to 10 the minute, 11 to 12
  the second, 13 to 16 the type code, the rest a sequence number of three to five
  digits. \<open>specGrammar\<close> is that table, \<open>specAccepts\<close> adds the length and the
  bounds on time and year; \<open>cy\<close> is the current year in the Buddhist Era. Neither is
  used by the model of the code.
\<close>

definition specGrammar :: "jsstring \<Rightarrow> bool" where
  "specGrammar c \<longleftrightarrow>
     take 4 c = js ''0152''
     \<and> list_all isDigit (take 2 (drop 4 c))
     \<and> list_all isDigit (take 2 (drop 6 c))
     \<and> list_all isDigit (take 2 (drop 8 c))
     \<and> list_all isDigit (take 2 (drop 10 c))
     \<and> list_all isAlnum (take 4 (drop 12 c))
     \<and> list_all isDigit (drop 16 c)
     \<and> 3 \<le> length (drop 16 c) \<and> length (drop 16 c) \<le> 5"

definition specAccepts :: "int \<Rightarrow> jsstring \<Rightarrow> bool" where
  "specAccepts cy c \<longleftrightarrow>
     startsWith c (js ''0152'')
     \<and> (length c = 20 \<or> length c = 21)
     \<and> specGrammar c
     \<and> digitsValue (take 2 (drop 6 c)) \<le> 23
     \<and> digitsValue (take 2 (drop 8 c)) \<le> 59
     \<and> digitsValue (take 2 (drop 10 c)) \<le> 59
     \<and> cy - 5 \<le> 2470 + int (digitsValue (take 2 (drop 4 c)))
     \<and> 2470 + int (digitsValue (take 2 (drop 4 c))) \<le> cy + 1"

text \<open>
  The first check that fails, in the specification's priority order: prefix, length,
  pattern, then the bounds on time and year; \<open>None\<close> when nothing fails. Each failure
  is named by the reason the validator has for it.
\<close>

definition specFirstFailure :: "int \<Rightarrow> jsstring \<Rightarrow> Reason option" where
  "specFirstFailure cy c =
     (if \<not> startsWith c (js ''0152'') then Some (InvalidPrefix (take 4 c))
      else if \<not> (length c = 20 \<or> length c = 21) then Some (InvalidLength (length c))
      else if \<not> specGrammar c then Some InvalidFormat
      else if \<not> (digitsValue (take 2 (drop 6 c)) \<le> 23
                \<and> digitsValue (take 2 (drop 8 c)) \<le> 59
                \<and> digitsValue (take 2 (drop 10 c)) \<le> 59
                \<and> cy - 5 \<le> 2470 + int (digitsValue (take 2 (drop 4 c)))
                \<and> 2470 + int (digitsValue (take 2 (drop 4 c))) \<le> cy + 1)
      then Some ParseFailed
      else None)"

subsection \<open>Notions about the code\<close>

text \<open>
  The record \<^verbatim>\<open>parse\<close> builds, read off the positions of the cleaned string; the
  lemma \<open>parse_char\<close> shows that \<open>parse\<close> returns exactly this record.
\<close>

definition parsedOf :: "int \<Rightarrow> jsstring \<Rightarrow> ParsedIdentifier" where
  "parsedOf fullYear c =
     (let yy = take 2 (drop 4 c); hh = take 2 (drop 6 c); mm = take 2 (drop 8 c);
          ss = take 2 (drop 10 c); type = take 4 (drop 12 c); seq = drop 16 c;
          y = 2470 + int (digitsValue yy)
      in \<lparr>raw = c, valid = True, prefix = KBANK_PREFIX, year = y, yearCode = yy,
          time = hh @ js '':'' @ mm @ js '':'' @ ss,
          hour = int (digitsValue hh), minute = int (digitsValue mm),
          second = int (digitsValue ss), typeCode = type,
          typeDescription =
            (case map_of transactionTypes type of
               Some d \<Rightarrow> d | None \<Rightarrow> js ''Unknown Transaction Type''),
          isKnownType = (map_of transactionTypes type \<noteq> None),
          sequence = seq, idLength = length c,
          timestamp = buildTimestamp y hh mm ss,
          validPrefix = True, validLength = True, validPattern = True,
          validTime = True, validYear = True\<rparr>)"

text \<open>
  The conditions of the four heuristic checks, named: a check fires exactly when its
  condition holds of the parsed record.
\<close>

datatype Trigger = UnknownTypeCode | RepeatedDigit | StaleYear | FutureYear | Midnight

fun triggered :: "int \<Rightarrow> ParsedIdentifier \<Rightarrow> Trigger \<Rightarrow> bool" where
  "triggered fullYear p UnknownTypeCode = (\<not> isKnownType p)"
| "triggered fullYear p RepeatedDigit = repetitive (sequence p)"
| "triggered fullYear p StaleYear = (year p < currentYear fullYear - 2)"
| "triggered fullYear p FutureYear = (year p > currentYear fullYear + 1)"
| "triggered fullYear p Midnight = (hour p = 0 \<and> minute p = 0 \<and> second p = 0)"

text \<open>
  The number of conditions that hold among the four a parsed identifier can meet (the
  year of a parsed identifier is never in the future, see \<open>parse_year_bounds\<close>).
\<close>

definition firedCount :: "int \<Rightarrow> ParsedIdentifier \<Rightarrow> nat" where
  "firedCount fullYear p =
     length (filter (triggered fullYear p) [UnknownTypeCode, RepeatedDigit, StaleYear, Midnight])"

text \<open>\<open>occursIn p s\<close>: the string \<open>s\<close> has an occurrence of \<open>p\<close>.\<close>

definition occursIn :: "jsstring \<Rightarrow> jsstring \<Rightarrow> bool" where
  "occursIn p s \<longleftrightarrow> (\<exists>u v. s = u @ p @ v)"

subsection \<open>The cleaning in the specification's words\<close>





subsection \<open>The repair rules as conditions on the middle section\<close>

text \<open>
  The specification has the repair isolate prefix, middle section and suffix, apply a
  table of known middle-section patterns, and fall back to the digit-to-letter
  substitution, accepted when it gives a known type code or when the middle section has
  four characters and a trailing zero. \<open>digitRuleMatches\<close> lists these for a middle
  section of 2 to 4 digits: \<^verbatim>\<open>8XX8\<close>, \<^verbatim>\<open>8008\<close>, \<^verbatim>\<open>8080\<close>, \<^verbatim>\<open>816\<close>, \<^verbatim>\<open>8160\<close>,
  \<^verbatim>\<open>8XX0\<close>, a reconstruction that is a known code or starts with the first three
  characters of one, four digits ending in \<^verbatim>\<open>0\<close>. \<open>letterRuleMatches\<close> is the rule for
  a middle section of 3 or 4 characters that is \<^verbatim>\<open>8\<close>, capital letters, then \<^verbatim>\<open>8\<close>
  or \<^verbatim>\<open>0\<close>. A repair rule matches a string when the pattern for the misread
  \<^verbatim>\<open>BQR0\<close> matches it, or when it splits and one of the rules matches its middle
  section. None of these definitions is used by the model of the code.
\<close>

definition digitRuleMatches :: "jsstring \<Rightarrow> bool" where
  "digitRuleMatches middle \<longleftrightarrow>
     list_all isDigit middle \<and> 2 \<le> length middle \<and> length middle \<le> 4
     \<and> ((length middle = 4 \<and> middle ! 0 = 56 \<and> middle ! 3 = 56)
        \<or> middle = js ''8008'' \<or> middle = js ''8080''
        \<or> middle = js ''816'' \<or> middle = js ''8160''
        \<or> (length middle = 4 \<and> middle ! 0 = 56 \<and> middle ! 3 = 48)
        \<or> list_ex (\<lambda>code. reconstruct middle = code
                            \<or> startsWith (reconstruct middle) (take 3 code)) knownCodes
        \<or> (length middle = 4 \<and> middle ! 3 = 48))"

definition letterRuleMatches :: "jsstring \<Rightarrow> bool" where
  "letterRuleMatches middle \<longleftrightarrow>
     3 \<le> length middle \<and> length middle \<le> 4
     \<and> middle ! 0 = 56
     \<and> (middle ! (length middle - 1) = 56 \<or> middle ! (length middle - 1) = 48)
     \<and> list_all isUpperAZ (butlast (tl middle))"

definition middleRuleMatches :: "jsstring \<Rightarrow> bool" where
  "middleRuleMatches middle \<longleftrightarrow>
     middle = js ''8QR8'' \<or> middle = js ''8QR0'' \<or> digitRuleMatches middle
     \<or> letterRuleMatches middle"

definition repairRuleMatches :: "jsstring \<Rightarrow> bool" where
  "repairRuleMatches cleaned \<longleftrightarrow>
     bqrPattern cleaned \<noteq> None
     \<or> (case splitPattern cleaned of
           None \<Rightarrow> False
         | Some (pre, middle, suffix) \<Rightarrow> middleRuleMatches middle)"

section \<open>Properties of the cleaning\<close>


























































section \<open>Properties of the parser\<close>

lemma js_0152: "js ''0152'' = [48, 49, 53, 50]"
  by (simp add: js_def)

lemma isDigit_not_isWhiteSpace: "isDigit c \<Longrightarrow> \<not> isWhiteSpace c"
  by (auto simp: isDigit_def isWhiteSpace_def)

lemma isAlnum_not_isWhiteSpace: "isAlnum c \<Longrightarrow> \<not> isWhiteSpace c"
  by (auto simp: isAlnum_def isUpperAZ_def isDigit_def isWhiteSpace_def)

lemma takeWhile_all: "list_all P xs \<Longrightarrow> takeWhile P xs = xs"
  by (induction xs) auto

lemma parseInt_digits:
  assumes "ds \<noteq> []" and "list_all isDigit ds"
  shows "parseInt ds = Some (int (digitsValue ds))"
proof -
  from assms obtain d rest where ds: "ds = d # rest" by (cases ds) auto
  with assms have d: "isDigit d" by simp
  then have nows: "\<not> isWhiteSpace d" by (rule isDigit_not_isWhiteSpace)
  from d have nosign: "d \<noteq> 43" "d \<noteq> 45" by (auto simp: isDigit_def)
  have "takeWhile isDigit ds = ds" using assms(2) by (rule takeWhile_all)
  then show ?thesis
    using ds nows nosign by (simp add: parseInt_def)
qed

lemma lit_0152:
  "lit (js ''0152'') s = (if take 4 s = js ''0152'' then Some (drop 4 s) else None)"
proof -
  have "length (js ''0152'') = 4" by (simp add: js_def)
  then show ?thesis by (simp add: lit_def)
qed

lemma parsePattern_char:
  "parsePattern c =
     (if specGrammar c
      then Some (take 2 (drop 4 c), take 2 (drop 6 c), take 2 (drop 8 c),
                 take 2 (drop 10 c), take 4 (drop 12 c), drop 16 c)
      else None)"
  unfolding parsePattern_def specGrammar_def cls_def clsEnd_def
  by (auto simp: lit_0152)

lemma STRICT_PATTERN_char: "STRICT_PATTERN c \<longleftrightarrow> specGrammar c"
proof -
  have "take 8 (drop 4 c) = take 2 (drop 4 c) @ take 6 (drop 6 c)"
    using take_add [of 2 6 "drop 4 c"] by simp
  also have "take 6 (drop 6 c) = take 2 (drop 6 c) @ take 4 (drop 8 c)"
    using take_add [of 2 4 "drop 6 c"] by simp
  also have "take 4 (drop 8 c) = take 2 (drop 8 c) @ take 2 (drop 10 c)"
    using take_add [of 2 2 "drop 8 c"] by simp
  finally have split8:
    "list_all isDigit (take 8 (drop 4 c)) \<longleftrightarrow>
       list_all isDigit (take 2 (drop 4 c)) \<and> list_all isDigit (take 2 (drop 6 c))
       \<and> list_all isDigit (take 2 (drop 8 c)) \<and> list_all isDigit (take 2 (drop 10 c))"
    by simp
  show ?thesis
    unfolding STRICT_PATTERN_def specGrammar_def cls_def clsEnd_def
    by (auto simp: lit_0152 split8)
qed

lemma cleanId_Nil: "cleanId [] = []"
  by (simp add: cleanId_def trim_def removeWhitespace_def)

lemma not_specAccepts_Nil: "\<not> specAccepts cy []"
  by (simp add: specAccepts_def startsWith_def js_def)

lemma parse_char:
  "parse fy s =
     (if specAccepts (currentYear fy) (cleanId s) then Some (parsedOf fy (cleanId s))
      else None)"
proof (cases "s = []")
  case True
  then show ?thesis
    by (simp add: parse_def cleanId_Nil not_specAccepts_Nil)
next
  case False
  define c where "c = cleanId s"
  show ?thesis
  proof (cases "startsWith c KBANK_PREFIX \<and> (length c = 20 \<or> length c = 21) \<and> specGrammar c")
    case struct: True
    then have g: "specGrammar c" and len: "20 \<le> length c" by auto
    from g have d:
      "list_all isDigit (take 2 (drop 4 c))" "list_all isDigit (take 2 (drop 6 c))"
      "list_all isDigit (take 2 (drop 8 c))" "list_all isDigit (take 2 (drop 10 c))"
      by (simp_all add: specGrammar_def)
    from len have ne:
      "take 2 (drop 4 c) \<noteq> []" "take 2 (drop 6 c) \<noteq> []"
      "take 2 (drop 8 c) \<noteq> []" "take 2 (drop 10 c) \<noteq> []"
      by auto
    have pi:
      "parseInt (take 2 (drop 4 c)) = Some (int (digitsValue (take 2 (drop 4 c))))"
      "parseInt (take 2 (drop 6 c)) = Some (int (digitsValue (take 2 (drop 6 c))))"
      "parseInt (take 2 (drop 8 c)) = Some (int (digitsValue (take 2 (drop 8 c))))"
      "parseInt (take 2 (drop 10 c)) = Some (int (digitsValue (take 2 (drop 10 c))))"
      using d ne by (simp_all add: parseInt_digits)
    show ?thesis
      using False struct
      unfolding parse_def c_def [symmetric] Let_def
      by (auto simp: STRICT_PATTERN_char parsePattern_char pi specAccepts_def
            parsedOf_def Let_def KBANK_PREFIX_def MIN_LENGTH_def MAX_LENGTH_def)
  next
    case nostruct: False
    then show ?thesis
      using False
      unfolding parse_def c_def [symmetric] Let_def
      by (auto simp: STRICT_PATTERN_char specAccepts_def KBANK_PREFIX_def
            MIN_LENGTH_def MAX_LENGTH_def)
  qed
qed

lemma parse_Some_iff:
  "parse fy s = Some p \<longleftrightarrow>
     specAccepts (currentYear fy) (cleanId s) \<and> p = parsedOf fy (cleanId s)"
  by (auto simp: parse_char)



lemma trim_no_whitespace: "\<forall>c\<in>set s. \<not> isWhiteSpace c \<Longrightarrow> trim s = s"
proof -
  assume a: "\<forall>c\<in>set s. \<not> isWhiteSpace c"
  have dw: "dropWhile isWhiteSpace xs = xs" if "\<forall>c\<in>set xs. \<not> isWhiteSpace c" for xs
    using that by (cases xs) auto
  from a have "dropWhile isWhiteSpace s = s" by (rule dw)
  moreover from a have "dropWhile isWhiteSpace (rev s) = rev s" by (intro dw) simp
  ultimately show ?thesis by (simp add: trim_def)
qed

lemma removeWhitespace_no_whitespace:
  "\<forall>c\<in>set s. \<not> isWhiteSpace c \<Longrightarrow> removeWhitespace s = s"
  by (simp add: removeWhitespace_def filter_id_conv)

lemma toUpperCodePoint_alnum: "isAlnum c \<Longrightarrow> toUpperCodePoint c = [c]"
  by (auto simp: isAlnum_def isUpperAZ_def isDigit_def toUpperCodePoint_def)

lemma toUpperCase_alnum: "list_all isAlnum s \<Longrightarrow> toUpperCase s = s"
proof (induction s rule: toUpperCase.induct)
  case 1
  show ?case by simp
next
  case (2 c)
  then have "isAlnum c" by simp
  then show ?case
    by (auto simp: toUpperCodePoint_alnum encodeCodePoint_def isAlnum_def isUpperAZ_def
          isDigit_def)
next
  case (3 h l rest)
  then have h: "isAlnum h" and tl: "list_all isAlnum (l # rest)" by simp_all
  from h have nosur: "\<not> isHighSurrogate h" and small: "h < 65536"
    by (auto simp: isAlnum_def isUpperAZ_def isDigit_def isHighSurrogate_def)
  from 3 nosur tl have "toUpperCase (l # rest) = l # rest" by simp
  with h nosur small show ?case
    by (simp add: toUpperCodePoint_alnum encodeCodePoint_def)
qed

lemma cleanId_alnum: "list_all isAlnum c \<Longrightarrow> cleanId c = c"
proof -
  assume a: "list_all isAlnum c"
  then have "\<forall>x\<in>set c. \<not> isWhiteSpace x"
    by (auto simp: list_all_iff isAlnum_not_isWhiteSpace)
  then show ?thesis
    using a by (simp add: cleanId_def trim_no_whitespace removeWhitespace_no_whitespace
                  toUpperCase_alnum)
qed

lemma isDigit_isAlnum: "list_all isDigit xs \<Longrightarrow> list_all isAlnum xs"
  by (auto simp: list_all_iff isAlnum_def)

lemma specGrammar_alnum:
  assumes "specGrammar c"
  shows "list_all isAlnum c"
proof -
  have "c = take 4 c @ drop 4 c" by simp
  also have "drop 4 c = take 2 (drop 4 c) @ drop 6 c"
    using append_take_drop_id [of 2 "drop 4 c"] by simp
  also have "drop 6 c = take 2 (drop 6 c) @ drop 8 c"
    using append_take_drop_id [of 2 "drop 6 c"] by simp
  also have "drop 8 c = take 2 (drop 8 c) @ drop 10 c"
    using append_take_drop_id [of 2 "drop 8 c"] by simp
  also have "drop 10 c = take 2 (drop 10 c) @ drop 12 c"
    using append_take_drop_id [of 2 "drop 10 c"] by simp
  also have "drop 12 c = take 4 (drop 12 c) @ drop 16 c"
    using append_take_drop_id [of 4 "drop 12 c"] by simp
  finally have split:
    "c = take 4 c @ take 2 (drop 4 c) @ take 2 (drop 6 c) @ take 2 (drop 8 c)
           @ take 2 (drop 10 c) @ take 4 (drop 12 c) @ drop 16 c" .
  have pre: "list_all isAlnum (take 4 c)"
    using assms by (simp add: specGrammar_def js_0152 isAlnum_def isDigit_def)
  have "list_all isAlnum (take 4 c @ take 2 (drop 4 c) @ take 2 (drop 6 c)
          @ take 2 (drop 8 c) @ take 2 (drop 10 c) @ take 4 (drop 12 c) @ drop 16 c)"
    using assms pre by (simp add: specGrammar_def isDigit_isAlnum)
  with split show ?thesis by simp
qed

lemma isValid_char:
  "isValid fy s =
     (if s = [] then Inl Required
      else case specFirstFailure (currentYear fy) (cleanId s) of
             Some r \<Rightarrow> Inl r
           | None \<Rightarrow> Inr (parsedOf fy (cleanId s)))"
proof (cases "s = []")
  case True
  then show ?thesis by (simp add: isValid_def)
next
  case False
  define c where "c = cleanId s"
  have fixed: "cleanId c = c" if "specGrammar c"
    using that by (intro cleanId_alnum specGrammar_alnum)
  have sub: "substring c 0 4 = take 4 c" by (simp add: substring_def)
  show ?thesis
    using False fixed
    unfolding isValid_def c_def [symmetric] Let_def
    by (auto simp: STRICT_PATTERN_char parse_char specFirstFailure_def specAccepts_def sub
          KBANK_PREFIX_def MIN_LENGTH_def MAX_LENGTH_def)
qed

lemma specFirstFailure_None:
  "specFirstFailure cy c = None \<longleftrightarrow> specAccepts cy c"
  by (auto simp: specFirstFailure_def specAccepts_def)

lemma isValid_Inr_iff: "isValid fy s = Inr p \<longleftrightarrow> parse fy s = Some p"
proof (cases "s = []")
  case True
  then show ?thesis
    by (simp add: isValid_char parse_char cleanId_Nil not_specAccepts_Nil)
next
  case False
  show ?thesis
  proof (cases "specFirstFailure (currentYear fy) (cleanId s)")
    case None
    then have "specAccepts (currentYear fy) (cleanId s)" by (simp add: specFirstFailure_None)
    with False None show ?thesis by (auto simp: isValid_char parse_char)
  next
    case (Some r)
    then have "\<not> specAccepts (currentYear fy) (cleanId s)"
      using specFirstFailure_None [of "currentYear fy" "cleanId s"] by simp
    with False Some show ?thesis by (simp add: isValid_char parse_char)
  qed
qed

lemma isValid_Inl_iff: "(\<exists>r. isValid fy s = Inl r) \<longleftrightarrow> parse fy s = None"
proof -
  have "(\<exists>r. isValid fy s = Inl r) \<longleftrightarrow> (\<forall>p. isValid fy s \<noteq> Inr p)"
    by (cases "isValid fy s") auto
  also have "\<dots> \<longleftrightarrow> parse fy s = None"
    by (simp add: isValid_Inr_iff)
  finally show ?thesis .
qed

text \<open>
  Claim C2, as stated, fails for the empty string: its cleaned form fails the prefix
  check first, but the reason reported is that the transaction ID is required.
\<close>

theorem isValid_reason_counterexample:
  "isValid 2025 [] = Inl Required
   \<and> specFirstFailure (currentYear 2025) (cleanId []) = Some (InvalidPrefix [])"
  by (simp add: isValid_def cleanId_Nil specFirstFailure_def startsWith_def js_def)

text \<open>
  Claim C2, amended. For every string, \<open>parse\<close> returns a record if and only if
  \<open>isValid\<close> reports valid, and then with the same record. For the empty string the
  reason reported is that the transaction ID is required; for every other string the
  reason reported is the first failing check in the order prefix, length, pattern,
  bounds on time and year.
\<close>

theorem isValid_agrees_with_parse:
  "(parse fy s \<noteq> None \<longleftrightarrow> (\<exists>p. isValid fy s = Inr p))
   \<and> (\<forall>p. isValid fy s = Inr p \<longrightarrow> parse fy s = Some p)
   \<and> (s = [] \<longrightarrow> isValid fy s = Inl Required)
   \<and> (s \<noteq> [] \<longrightarrow>
        (\<forall>r. isValid fy s = Inl r \<longleftrightarrow>
              specFirstFailure (currentYear fy) (cleanId s) = Some r))"
proof -
  have a: "parse fy s \<noteq> None \<longleftrightarrow> (\<exists>p. isValid fy s = Inr p)"
    by (auto simp: isValid_Inr_iff)
  have b: "\<forall>p. isValid fy s = Inr p \<longrightarrow> parse fy s = Some p"
    by (simp add: isValid_Inr_iff)
  have c: "s = [] \<longrightarrow> isValid fy s = Inl Required"
    by (simp add: isValid_char)
  have d: "s \<noteq> [] \<longrightarrow>
        (\<forall>r. isValid fy s = Inl r \<longleftrightarrow>
              specFirstFailure (currentYear fy) (cleanId s) = Some r)"
    by (cases "specFirstFailure (currentYear fy) (cleanId s)") (auto simp: isValid_char)
  from a b c d show ?thesis by blast
qed


theorem isValid_agrees_with_parse_witness:
  "isValid 2025 (js ''015298250819BQR02651'') = Inl ParseFailed
   \<and> parse 2025 (js ''015298250819BQR02651'') = None
   \<and> isValid 2025 (js ''015398170819BQR02651'') = Inl (InvalidPrefix (js ''0153''))
   \<and> (\<exists>p. isValid 2025 (js ''015298170819BQR02651'') = Inr p
          \<and> parse 2025 (js ''015298170819BQR02651'') = Some p)"
proof -
  have c1: "cleanId (js ''015298250819BQR02651'') = js ''015298250819BQR02651''"
    by (rule cleanId_alnum) (simp add: js_def isAlnum_def isDigit_def isUpperAZ_def)
  have c2: "cleanId (js ''015398170819BQR02651'') = js ''015398170819BQR02651''"
    by (rule cleanId_alnum) (simp add: js_def isAlnum_def isDigit_def isUpperAZ_def)
  have c3: "cleanId (js ''015298170819BQR02651'') = js ''015298170819BQR02651''"
    by (rule cleanId_alnum) (simp add: js_def isAlnum_def isDigit_def isUpperAZ_def)
  have f1: "specFirstFailure (currentYear 2025) (js ''015298250819BQR02651'') = Some ParseFailed"
    by (simp add: specFirstFailure_def specGrammar_def js_def startsWith_def isDigit_def
          isAlnum_def isUpperAZ_def digitsValue_def digitValue_def currentYear_def)
  have f2: "specFirstFailure (currentYear 2025) (js ''015398170819BQR02651'')
              = Some (InvalidPrefix (js ''0153''))"
    by (simp add: specFirstFailure_def js_def startsWith_def)
  have n1: "js ''015298250819BQR02651'' \<noteq> []" "js ''015398170819BQR02651'' \<noteq> []"
    by (simp_all add: js_def)
  have a3: "parse 2025 (js ''015298170819BQR02651'') \<noteq> None"
    using c3
    by (simp add: parse_char specAccepts_def specGrammar_def js_def startsWith_def isDigit_def
          isAlnum_def isUpperAZ_def digitsValue_def digitValue_def currentYear_def)
  note T1 = isValid_agrees_with_parse [of 2025 "js ''015298250819BQR02651''"]
  note T2 = isValid_agrees_with_parse [of 2025 "js ''015398170819BQR02651''"]
  note T3 = isValid_agrees_with_parse [of 2025 "js ''015298170819BQR02651''"]
  from T1 n1(1) c1 f1 have v1: "isValid 2025 (js ''015298250819BQR02651'') = Inl ParseFailed"
    by simp
  with T1 have p1: "parse 2025 (js ''015298250819BQR02651'') = None"
    by (cases "parse 2025 (js ''015298250819BQR02651'')") auto
  from T2 n1(2) c2 f2
  have v2: "isValid 2025 (js ''015398170819BQR02651'') = Inl (InvalidPrefix (js ''0153''))"
    by simp
  from T3 a3 obtain q where q: "isValid 2025 (js ''015298170819BQR02651'') = Inr q"
    by blast
  with T3 have "parse 2025 (js ''015298170819BQR02651'') = Some q" by blast
  with q v1 p1 v2 show ?thesis by blast
qed

subsection \<open>The cleaning\<close>

















section \<open>Properties of the risk scorer\<close>

lemma parse_year_bounds:
  assumes "parse fy s = Some p"
  shows "currentYear fy - 5 \<le> year p" and "year p \<le> currentYear fy + 1"
  using assms
  by (auto simp: parse_Some_iff specAccepts_def parsedOf_def Let_def)

lemma checkYear_parsed:
  assumes "parse fy s = Some p"
  shows "checkYear fy p st =
           (if year p < currentYear fy - 2
            then \<lparr>suspiciousReasons = suspiciousReasons st @ [YearOlder (year p)],
                  level = MEDIUM\<rparr>
            else st)"
  using parse_year_bounds(2) [OF assms] by (simp add: checkYear_def)

lemma riskRank_checkUnknownType:
  "level st \<noteq> HIGH \<Longrightarrow> riskRank (level st) \<le> riskRank (level (checkUnknownType p st))"
  by (cases "level st") (auto simp: checkUnknownType_def)

lemma riskRank_checkSequence:
  "level st \<noteq> HIGH \<Longrightarrow> riskRank (level st) \<le> riskRank (level (checkSequence p st))"
  by (cases "level st") (auto simp: checkSequence_def)

lemma riskRank_checkMidnight:
  "level st \<noteq> HIGH \<Longrightarrow> riskRank (level st) \<le> riskRank (level (checkMidnight p st))"
  by (cases "level st") (auto simp: checkMidnight_def)

lemma riskRank_checkYear:
  "parse fy s = Some p \<Longrightarrow> level st \<noteq> HIGH \<Longrightarrow>
     riskRank (level st) \<le> riskRank (level (checkYear fy p st))"
  by (cases "level st") (auto simp: checkYear_parsed)

lemma riskRank_overallAssessment:
  "riskRank (level st) \<le> riskRank (level (overallAssessment st))"
  by (cases "level st") (auto simp: overallAssessment_def)

lemma not_HIGH_checkUnknownType:
  "level st \<noteq> HIGH \<Longrightarrow> level (checkUnknownType p st) \<noteq> HIGH"
  by (auto simp: checkUnknownType_def)

lemma not_HIGH_checkSequence:
  "level st \<noteq> HIGH \<Longrightarrow> level (checkSequence p st) \<noteq> HIGH"
  by (auto simp: checkSequence_def)

lemma not_HIGH_checkYear:
  "parse fy s = Some p \<Longrightarrow> level st \<noteq> HIGH \<Longrightarrow> level (checkYear fy p st) \<noteq> HIGH"
  by (auto simp: checkYear_parsed)

lemma not_HIGH_checkMidnight:
  "level st \<noteq> HIGH \<Longrightarrow> level (checkMidnight p st) \<noteq> HIGH"
  by (auto simp: checkMidnight_def)

text \<open>The assessment of a valid identifier, and its level by the number of checks that fire.\<close>

lemma detectFakeSlip_valid:
  assumes "isValid fy s = Inr p"
  shows "detectFakeSlip fy s =
    (let st5 = overallAssessment (checkMidnight p (checkYear fy p (checkSequence p
                 (checkUnknownType p \<lparr>suspiciousReasons = [], level = LOW\<rparr>))))
     in \<lparr>isSuspicious = (length (suspiciousReasons st5) > 0),
         riskLevel = level st5,
         reasons = suspiciousReasons st5,
         recommendation =
           (if level st5 = HIGH then js ''Reject - Multiple suspicious indicators''
            else if level st5 = MEDIUM
            then js ''Review - Some suspicious indicators detected''
            else js ''Accept - No major concerns''),
         detectedParsed = Some p\<rparr>)"
  using assms by (simp add: detectFakeSlip_def Let_def)

lemma riskLevel_by_count:
  assumes "isValid fy s = Inr p"
  shows "riskLevel (detectFakeSlip fy s) =
           (if firedCount fy p \<ge> 3 then HIGH else if firedCount fy p \<ge> 1 then MEDIUM else LOW)"
proof -
  from assms have ps: "parse fy s = Some p" by (simp add: isValid_Inr_iff)
  show ?thesis
    unfolding detectFakeSlip_valid [OF assms] Let_def firedCount_def
    by (simp add: checkYear_parsed [OF ps] checkUnknownType_def checkSequence_def
          checkMidnight_def overallAssessment_def)
qed

lemma firedCount_mono:
  assumes "\<And>t. triggered fy p t \<Longrightarrow> triggered fy p' t"
  shows "firedCount fy p \<le> firedCount fy p'"
proof -
  have a: "triggered fy p UnknownTypeCode \<Longrightarrow> triggered fy p' UnknownTypeCode"
    and b: "triggered fy p RepeatedDigit \<Longrightarrow> triggered fy p' RepeatedDigit"
    and c: "triggered fy p StaleYear \<Longrightarrow> triggered fy p' StaleYear"
    and d: "triggered fy p Midnight \<Longrightarrow> triggered fy p' Midnight"
    using assms by blast+
  show ?thesis
    unfolding firedCount_def using a b c d by (auto simp del: triggered.simps)
qed


lemma isValid_concrete:
  assumes "s \<noteq> []" and "cleanId s = c" and "specAccepts (currentYear fy) c"
  shows "isValid fy s = Inr (parsedOf fy c)"
  using assms specFirstFailure_None [of "currentYear fy" c] by (simp add: isValid_char)

text \<open>
  Claim C3. For a structurally valid identifier the running risk level never goes down
  from one check to the next (unknown type, repetitive sequence, year, midnight, then
  the overall rule), and the level reported is the last one. An identifier that meets
  every triggering condition another one meets is rated at least as high; in
  particular, adding a condition to an identifier rated \<open>LOW\<close> never lowers the level.
\<close>

theorem risk_level_only_escalates:
  assumes "isValid fy s = Inr p" and "isValid fy s' = Inr p'"
  shows "(let st0 = \<lparr>suspiciousReasons = [], level = LOW\<rparr>;
              st1 = checkUnknownType p st0;
              st2 = checkSequence p st1;
              st3 = checkYear fy p st2;
              st4 = checkMidnight p st3;
              st5 = overallAssessment st4
          in riskLevel (detectFakeSlip fy s) = level st5
             \<and> riskRank (level st0) \<le> riskRank (level st1)
             \<and> riskRank (level st1) \<le> riskRank (level st2)
             \<and> riskRank (level st2) \<le> riskRank (level st3)
             \<and> riskRank (level st3) \<le> riskRank (level st4)
             \<and> riskRank (level st4) \<le> riskRank (level st5))
         \<and> ((\<forall>t. triggered fy p t \<longrightarrow> triggered fy p' t) \<longrightarrow>
               riskRank (riskLevel (detectFakeSlip fy s))
                 \<le> riskRank (riskLevel (detectFakeSlip fy s')))"
proof -
  from assms(1) have ps: "parse fy s = Some p" by (simp add: isValid_Inr_iff)
  define st0 where "st0 = \<lparr>suspiciousReasons = [], level = LOW\<rparr>"
  define st1 where "st1 = checkUnknownType p st0"
  define st2 where "st2 = checkSequence p st1"
  define st3 where "st3 = checkYear fy p st2"
  define st4 where "st4 = checkMidnight p st3"
  define st5 where "st5 = overallAssessment st4"
  have n0: "level st0 \<noteq> HIGH" by (simp add: st0_def)
  then have n1: "level st1 \<noteq> HIGH" unfolding st1_def by (rule not_HIGH_checkUnknownType)
  then have n2: "level st2 \<noteq> HIGH" unfolding st2_def by (rule not_HIGH_checkSequence)
  with ps have n3: "level st3 \<noteq> HIGH" unfolding st3_def by (rule not_HIGH_checkYear)
  have r1: "riskRank (level st0) \<le> riskRank (level st1)"
    unfolding st1_def using n0 by (rule riskRank_checkUnknownType)
  have r2: "riskRank (level st1) \<le> riskRank (level st2)"
    unfolding st2_def using n1 by (rule riskRank_checkSequence)
  have r3: "riskRank (level st2) \<le> riskRank (level st3)"
    unfolding st3_def using ps n2 by (rule riskRank_checkYear)
  have r4: "riskRank (level st3) \<le> riskRank (level st4)"
    unfolding st4_def using n3 by (rule riskRank_checkMidnight)
  have r5: "riskRank (level st4) \<le> riskRank (level st5)"
    unfolding st5_def by (rule riskRank_overallAssessment)
  have fin: "riskLevel (detectFakeSlip fy s) = level st5"
    by (simp add: detectFakeSlip_valid [OF assms(1)] Let_def st5_def st4_def st3_def st2_def
          st1_def st0_def)
  have chain: "(let st0 = \<lparr>suspiciousReasons = [], level = LOW\<rparr>;
              st1 = checkUnknownType p st0;
              st2 = checkSequence p st1;
              st3 = checkYear fy p st2;
              st4 = checkMidnight p st3;
              st5 = overallAssessment st4
          in riskLevel (detectFakeSlip fy s) = level st5
             \<and> riskRank (level st0) \<le> riskRank (level st1)
             \<and> riskRank (level st1) \<le> riskRank (level st2)
             \<and> riskRank (level st2) \<le> riskRank (level st3)
             \<and> riskRank (level st3) \<le> riskRank (level st4)
             \<and> riskRank (level st4) \<le> riskRank (level st5))"
    unfolding Let_def
    using fin r1 r2 r3 r4 r5
    unfolding st5_def st4_def st3_def st2_def st1_def st0_def by blast
  have mono: "riskRank (riskLevel (detectFakeSlip fy s))
                \<le> riskRank (riskLevel (detectFakeSlip fy s'))"
    if "\<forall>t. triggered fy p t \<longrightarrow> triggered fy p' t"
  proof -
    from that have "firedCount fy p \<le> firedCount fy p'"
      by (intro firedCount_mono) blast
    then show ?thesis
      by (simp add: riskLevel_by_count [OF assms(1)] riskLevel_by_count [OF assms(2)])
  qed
  from chain mono show ?thesis by blast
qed

lemmas concrete_defs =
  specAccepts_def specGrammar_def js_def startsWith_def isDigit_def isAlnum_def
  isUpperAZ_def digitsValue_def digitValue_def currentYear_def

lemma parsedOf_fields:
  "isKnownType (parsedOf fy c) = (map_of transactionTypes (take 4 (drop 12 c)) \<noteq> None)"
  "typeCode (parsedOf fy c) = take 4 (drop 12 c)"
  "sequence (parsedOf fy c) = drop 16 c"
  "year (parsedOf fy c) = 2470 + int (digitsValue (take 2 (drop 4 c)))"
  "hour (parsedOf fy c) = int (digitsValue (take 2 (drop 6 c)))"
  "minute (parsedOf fy c) = int (digitsValue (take 2 (drop 8 c)))"
  "second (parsedOf fy c) = int (digitsValue (take 2 (drop 10 c)))"
  by (simp_all add: parsedOf_def Let_def)

lemmas field_eval =
  parsedOf_fields js_def transactionTypes_def repetitive_def isDigit_def digitsValue_def
  digitValue_def

lemmas check_defs =
  checkUnknownType_def checkSequence_def checkYear_def checkMidnight_def
  overallAssessment_def currentYear_def

theorem risk_level_only_escalates_witness:
  "isValid 2025 (js ''015298170819BQR02651'') = Inr (parsedOf 2025 (js ''015298170819BQR02651''))
   \<and> isValid 2025 (js ''015298170819BQR01111'') = Inr (parsedOf 2025 (js ''015298170819BQR01111''))
   \<and> riskLevel (detectFakeSlip 2025 (js ''015298170819BQR02651'')) = LOW
   \<and> riskLevel (detectFakeSlip 2025 (js ''015298170819BQR01111'')) = MEDIUM
   \<and> riskRank (riskLevel (detectFakeSlip 2025 (js ''015298170819BQR02651'')))
       \<le> riskRank (riskLevel (detectFakeSlip 2025 (js ''015298170819BQR01111'')))"
proof -
  let ?a = "js ''015298170819BQR02651''" and ?b = "js ''015298170819BQR01111''"
  have ca: "cleanId ?a = ?a"
    by (rule cleanId_alnum) (simp add: js_def isAlnum_def isDigit_def isUpperAZ_def)
  have cb: "cleanId ?b = ?b"
    by (rule cleanId_alnum) (simp add: js_def isAlnum_def isDigit_def isUpperAZ_def)
  have va: "isValid 2025 ?a = Inr (parsedOf 2025 ?a)"
    by (rule isValid_concrete [OF _ ca]) (simp_all add: concrete_defs)
  have vb: "isValid 2025 ?b = Inr (parsedOf 2025 ?b)"
    by (rule isValid_concrete [OF _ cb]) (simp_all add: concrete_defs)
  have fa: "isKnownType (parsedOf 2025 ?a)" "\<not> repetitive (sequence (parsedOf 2025 ?a))"
    "year (parsedOf 2025 ?a) = 2568" "hour (parsedOf 2025 ?a) = 17"
    by (simp_all add: field_eval)
  have fb: "isKnownType (parsedOf 2025 ?b)" "repetitive (sequence (parsedOf 2025 ?b))"
    "year (parsedOf 2025 ?b) = 2568" "hour (parsedOf 2025 ?b) = 17"
    by (simp_all add: field_eval)
  have ta: "\<not> triggered 2025 (parsedOf 2025 ?a) t" for t
    by (cases t) (simp_all add: fa currentYear_def)
  note T = risk_level_only_escalates [OF va vb]
  from T ta have le: "riskRank (riskLevel (detectFakeSlip 2025 ?a))
       \<le> riskRank (riskLevel (detectFakeSlip 2025 ?b))" by blast
  from T have "riskLevel (detectFakeSlip 2025 ?a) =
     level (overallAssessment (checkMidnight (parsedOf 2025 ?a) (checkYear 2025 (parsedOf 2025 ?a)
       (checkSequence (parsedOf 2025 ?a) (checkUnknownType (parsedOf 2025 ?a)
          \<lparr>suspiciousReasons = [], level = LOW\<rparr>)))))"
    unfolding Let_def by blast
  then have la: "riskLevel (detectFakeSlip 2025 ?a) = LOW"
    by (simp add: check_defs fa)
  from risk_level_only_escalates [OF vb va]
  have "riskLevel (detectFakeSlip 2025 ?b) =
     level (overallAssessment (checkMidnight (parsedOf 2025 ?b) (checkYear 2025 (parsedOf 2025 ?b)
       (checkSequence (parsedOf 2025 ?b) (checkUnknownType (parsedOf 2025 ?b)
          \<lparr>suspiciousReasons = [], level = LOW\<rparr>)))))"
    unfolding Let_def by blast
  then have lb: "riskLevel (detectFakeSlip 2025 ?b) = MEDIUM"
    by (simp add: check_defs fb)
  from va vb la lb le show ?thesis by blast
qed

text \<open>
  Claim C4. For a structurally valid identifier, three or more reasons give the level
  \<open>HIGH\<close>, and the recommendation is a function of the level alone: accept for
  \<open>LOW\<close>, review for \<open>MEDIUM\<close>, reject for \<open>HIGH\<close>.
\<close>

theorem three_reasons_force_HIGH:
  assumes "isValid fy s = Inr p"
  shows "(3 \<le> length (reasons (detectFakeSlip fy s)) \<longrightarrow>
            riskLevel (detectFakeSlip fy s) = HIGH)
         \<and> recommendation (detectFakeSlip fy s) =
             (case riskLevel (detectFakeSlip fy s) of
                LOW \<Rightarrow> js ''Accept - No major concerns''
              | MEDIUM \<Rightarrow> js ''Review - Some suspicious indicators detected''
              | HIGH \<Rightarrow> js ''Reject - Multiple suspicious indicators'')"
proof -
  define st4 where "st4 = checkMidnight p (checkYear fy p (checkSequence p
                 (checkUnknownType p \<lparr>suspiciousReasons = [], level = LOW\<rparr>)))"
  have d: "reasons (detectFakeSlip fy s) = suspiciousReasons (overallAssessment st4)"
    "riskLevel (detectFakeSlip fy s) = level (overallAssessment st4)"
    "recommendation (detectFakeSlip fy s) =
       (if level (overallAssessment st4) = HIGH then js ''Reject - Multiple suspicious indicators''
        else if level (overallAssessment st4) = MEDIUM
        then js ''Review - Some suspicious indicators detected''
        else js ''Accept - No major concerns'')"
    by (simp_all add: detectFakeSlip_valid [OF assms] Let_def st4_def)
  have three: "3 \<le> length (suspiciousReasons (overallAssessment st4)) \<longrightarrow>
                 level (overallAssessment st4) = HIGH"
    by (simp add: overallAssessment_def)
  have rec: "(if level (overallAssessment st4) = HIGH then js ''Reject - Multiple suspicious indicators''
        else if level (overallAssessment st4) = MEDIUM
        then js ''Review - Some suspicious indicators detected''
        else js ''Accept - No major concerns'') =
        (case level (overallAssessment st4) of
                LOW \<Rightarrow> js ''Accept - No major concerns''
              | MEDIUM \<Rightarrow> js ''Review - Some suspicious indicators detected''
              | HIGH \<Rightarrow> js ''Reject - Multiple suspicious indicators'')"
    by (cases "level (overallAssessment st4)") simp_all
  from three rec show ?thesis unfolding d by blast
qed

theorem three_reasons_force_HIGH_witness:
  "isValid 2025 (js ''015298000000ZZZZ1111'') = Inr (parsedOf 2025 (js ''015298000000ZZZZ1111''))
   \<and> reasons (detectFakeSlip 2025 (js ''015298000000ZZZZ1111''))
       = [UnknownType (js ''ZZZZ''), RepetitiveSequence, MidnightTime]
   \<and> riskLevel (detectFakeSlip 2025 (js ''015298000000ZZZZ1111'')) = HIGH
   \<and> recommendation (detectFakeSlip 2025 (js ''015298000000ZZZZ1111''))
       = js ''Reject - Multiple suspicious indicators''"
proof -
  let ?a = "js ''015298000000ZZZZ1111''"
  have ca: "cleanId ?a = ?a"
    by (rule cleanId_alnum) (simp add: js_def isAlnum_def isDigit_def isUpperAZ_def)
  have va: "isValid 2025 ?a = Inr (parsedOf 2025 ?a)"
    by (rule isValid_concrete [OF _ ca]) (simp_all add: concrete_defs)
  have fa: "\<not> isKnownType (parsedOf 2025 ?a)" "repetitive (sequence (parsedOf 2025 ?a))"
    "year (parsedOf 2025 ?a) = 2568" "hour (parsedOf 2025 ?a) = 0"
    "minute (parsedOf 2025 ?a) = 0" "second (parsedOf 2025 ?a) = 0"
    "typeCode (parsedOf 2025 ?a) = js ''ZZZZ''"
    by (simp_all add: field_eval)
  have rs: "reasons (detectFakeSlip 2025 ?a)
              = [UnknownType (js ''ZZZZ''), RepetitiveSequence, MidnightTime]"
    unfolding detectFakeSlip_valid [OF va] Let_def
    by (simp add: check_defs fa)
  note T = three_reasons_force_HIGH [OF va]
  from T rs have h: "riskLevel (detectFakeSlip 2025 ?a) = HIGH" by simp
  with T have "recommendation (detectFakeSlip 2025 ?a)
                 = js ''Reject - Multiple suspicious indicators''" by simp
  with va rs h show ?thesis by blast
qed


lemma no_future_checkUnknownType:
  "YearFuture y \<notin> set (suspiciousReasons st) \<Longrightarrow>
     YearFuture y \<notin> set (suspiciousReasons (checkUnknownType p st))"
  by (simp add: checkUnknownType_def)

lemma no_future_checkSequence:
  "YearFuture y \<notin> set (suspiciousReasons st) \<Longrightarrow>
     YearFuture y \<notin> set (suspiciousReasons (checkSequence p st))"
  by (simp add: checkSequence_def)

lemma no_future_checkYear:
  "parse fy s = Some p \<Longrightarrow> YearFuture y \<notin> set (suspiciousReasons st) \<Longrightarrow>
     YearFuture y \<notin> set (suspiciousReasons (checkYear fy p st))"
  by (simp add: checkYear_parsed)

lemma no_future_checkMidnight:
  "YearFuture y \<notin> set (suspiciousReasons st) \<Longrightarrow>
     YearFuture y \<notin> set (suspiciousReasons (checkMidnight p st))"
  by (simp add: checkMidnight_def)

lemma no_future_overallAssessment:
  "YearFuture y \<notin> set (suspiciousReasons st) \<Longrightarrow>
     YearFuture y \<notin> set (suspiciousReasons (overallAssessment st))"
  by (simp add: overallAssessment_def)

lemma no_future_reason: "YearFuture y \<notin> set (reasons (detectFakeSlip fy s))"
proof (cases "isValid fy s")
  case (Inl r)
  then show ?thesis by (simp add: detectFakeSlip_def)
next
  case (Inr p)
  then have ps: "parse fy s = Some p" by (simp add: isValid_Inr_iff)
  have "YearFuture y \<notin> set (suspiciousReasons \<lparr>suspiciousReasons = [], level = LOW\<rparr>)"
    by simp
  then have "YearFuture y \<notin> set (suspiciousReasons
      (overallAssessment (checkMidnight p (checkYear fy p (checkSequence p
         (checkUnknownType p \<lparr>suspiciousReasons = [], level = LOW\<rparr>))))))"
    by (intro no_future_overallAssessment no_future_checkMidnight
          no_future_checkYear [OF ps] no_future_checkSequence no_future_checkUnknownType)
  then show ?thesis
    by (simp add: detectFakeSlip_valid [OF Inr] Let_def)
qed

text \<open>
  Claim C10. With one current year for the parser and the scorer, the future-year branch
  of the year check is never taken: an identifier that parses has a year of at most the
  current year plus 1, so the year check only ever takes its older-than-expected branch
  or changes nothing; and no assessment, of any string, lists the reason that the year
  is in the future.
\<close>

theorem future_year_branch_unreachable:
  "(\<forall>p. parse fy s = Some p \<longrightarrow>
      year p \<le> currentYear fy + 1
      \<and> \<not> triggered fy p FutureYear
      \<and> (\<forall>st. checkYear fy p st =
             (if year p < currentYear fy - 2
              then \<lparr>suspiciousReasons = suspiciousReasons st @ [YearOlder (year p)],
                    level = MEDIUM\<rparr>
              else st)))
   \<and> (\<forall>y. YearFuture y \<notin> set (reasons (detectFakeSlip fy s)))"
proof -
  have "year p \<le> currentYear fy + 1
      \<and> \<not> triggered fy p FutureYear
      \<and> (\<forall>st. checkYear fy p st =
             (if year p < currentYear fy - 2
              then \<lparr>suspiciousReasons = suspiciousReasons st @ [YearOlder (year p)],
                    level = MEDIUM\<rparr>
              else st))" if ps: "parse fy s = Some p" for p
    using parse_year_bounds(2) [OF ps] checkYear_parsed [OF ps] by simp
  then show ?thesis using no_future_reason by blast
qed

theorem future_year_branch_unreachable_witness:
  "parse 2025 (js ''015299170819BQR02651'') = Some (parsedOf 2025 (js ''015299170819BQR02651''))
   \<and> year (parsedOf 2025 (js ''015299170819BQR02651'')) = currentYear 2025 + 1
   \<and> reasons (detectFakeSlip 2025 (js ''015299170819BQR02651'')) = []
   \<and> parse 2025 (js ''015200170819BQR02651'') = None"
proof -
  let ?a = "js ''015299170819BQR02651''" and ?b = "js ''015200170819BQR02651''"
  have ca: "cleanId ?a = ?a"
    by (rule cleanId_alnum) (simp add: js_def isAlnum_def isDigit_def isUpperAZ_def)
  have cb: "cleanId ?b = ?b"
    by (rule cleanId_alnum) (simp add: js_def isAlnum_def isDigit_def isUpperAZ_def)
  have pa: "parse 2025 ?a = Some (parsedOf 2025 ?a)"
    unfolding parse_char ca by (simp add: concrete_defs)
  have pb: "parse 2025 ?b = None"
    unfolding parse_char cb by (simp add: concrete_defs)
  have va: "isValid 2025 ?a = Inr (parsedOf 2025 ?a)"
    using pa by (simp add: isValid_Inr_iff)
  have fa: "isKnownType (parsedOf 2025 ?a)" "\<not> repetitive (sequence (parsedOf 2025 ?a))"
    "year (parsedOf 2025 ?a) = 2569" "hour (parsedOf 2025 ?a) = 17"
    by (simp_all add: field_eval)
  note T = future_year_branch_unreachable [of 2025 ?a]
  from T pa have cy: "checkYear 2025 (parsedOf 2025 ?a) st =
        (if year (parsedOf 2025 ?a) < currentYear 2025 - 2
         then \<lparr>suspiciousReasons = suspiciousReasons st @ [YearOlder (year (parsedOf 2025 ?a))],
               level = MEDIUM\<rparr>
         else st)" for st
    by blast
  have rs: "reasons (detectFakeSlip 2025 ?a) = []"
    unfolding detectFakeSlip_valid [OF va] Let_def
    by (simp add: cy checkUnknownType_def checkSequence_def checkMidnight_def
          overallAssessment_def currentYear_def fa)
  from pa pb rs fa(3) show ?thesis by (simp add: currentYear_def)
qed

section \<open>Properties of the timestamp cross-check\<close>

lemma lit_colon:
  "lit (js '':'') s = (case s of [] \<Rightarrow> None | c # r \<Rightarrow> if c = 58 then Some r else None)"
  by (cases s) (simp_all add: lit_def js_def)

lemma timeAtWith_Some:
  assumes "timeAtWith n s = Some (h, m)" and "0 < n"
  shows "h \<noteq> [] \<and> list_all isDigit h \<and> m \<noteq> [] \<and> list_all isDigit m \<and> s \<noteq> []
         \<and> length h = n \<and> length m = 2"
  using assms
  by (auto simp: timeAtWith_def cls_def lit_colon split: if_splits list.splits Option.bind_splits)

lemma timeAt_Some:
  assumes "timeAt s = Some (h, m)"
  shows "h \<noteq> [] \<and> list_all isDigit h \<and> m \<noteq> [] \<and> list_all isDigit m \<and> s \<noteq> []"
proof (cases "timeAtWith 2 s")
  case None
  with assms have "timeAtWith 1 s = Some (h, m)" by (simp add: timeAt_def)
  from timeAtWith_Some [OF this] show ?thesis by simp
next
  case (Some r)
  with assms have "timeAtWith 2 s = Some (h, m)" by (simp add: timeAt_def)
  from timeAtWith_Some [OF this] show ?thesis by simp
qed

lemma timeSearch_Some:
  "timeSearch t = Some (h, m) \<Longrightarrow>
     h \<noteq> [] \<and> list_all isDigit h \<and> m \<noteq> [] \<and> list_all isDigit m \<and> t \<noteq> []"
proof (induction t)
  case Nil
  then show ?case using timeAt_Some [of "[]" h m] by simp
next
  case (Cons c cs)
  show ?case
  proof (cases "timeAt (c # cs)")
    case None
    with Cons show ?thesis by simp
  next
    case (Some r)
    with Cons.prems have "timeAt (c # cs) = Some (h, m)" by simp
    from timeAt_Some [OF this] show ?thesis by simp
  qed
qed



lemma verifyDateTime_timeMatch:
  assumes "parse fy i = Some p" and "timeSearch t = Some (h, m)"
  shows "timeMatch (verifyDateTime fy i t) \<longleftrightarrow>
           hour p = int (digitsValue h) \<and> \<bar>minute p - int (digitsValue m)\<bar> \<le> 2"
proof -
  from timeSearch_Some [OF assms(2)]
  have ne: "t \<noteq> []" and ph: "parseInt h = Some (int (digitsValue h))"
    and pm: "parseInt m = Some (int (digitsValue m))"
    by (simp_all add: parseInt_digits)
  show ?thesis
    using assms ne by (auto simp: verifyDateTime_def Let_def ph pm)
qed


lemma timeAt_no_colon:
  assumes "s = x # rest" and "rest = [] \<or> hd rest \<noteq> 58"
    and "length rest < 2 \<or> rest ! 1 \<noteq> 58"
  shows "timeAt s = None"
proof -
  have one: "timeAtWith 1 s = None"
    using assms(1,2)
    by (cases rest) (auto simp: timeAtWith_def cls_def lit_colon split: Option.bind_splits)
  have two: "timeAtWith 2 s = None"
  proof (cases rest)
    case Nil
    with assms(1) show ?thesis by (simp add: timeAtWith_def cls_def)
  next
    case (Cons y r)
    show ?thesis
    proof (cases r)
      case Nil
      with Cons assms(1) show ?thesis
        by (auto simp: timeAtWith_def cls_def lit_colon split: Option.bind_splits)
    next
      case (Cons z r')
      with \<open>rest = y # r\<close> assms(3) have "z \<noteq> 58" by simp
      with Cons \<open>rest = y # r\<close> assms(1) show ?thesis
        by (auto simp: timeAtWith_def cls_def lit_colon split: Option.bind_splits)
    qed
  qed
  from one two show ?thesis by (simp add: timeAt_def)
qed

lemma timeAt_here:
  assumes "isDigit a" "isDigit b" "isDigit d" "isDigit e"
  shows "timeAt ([a, b, 58, d, e] @ post) = Some ([a, b], [d, e])"
  using assms by (simp add: timeAt_def timeAtWith_def cls_def lit_colon)

lemma timeSearch_first_colon:
  assumes "58 \<notin> set pre" and "isDigit a" "isDigit b" "isDigit d" "isDigit e"
  shows "timeSearch (pre @ [a, b, 58, d, e] @ post) = Some ([a, b], [d, e])"
  using assms(1)
proof (induction pre)
  case Nil
  have "timeSearch ([a, b, 58, d, e] @ post) = timeAt ([a, b, 58, d, e] @ post)"
    by (simp add: timeAt_here [OF assms(2-5), simplified])
  then show ?case using timeAt_here [OF assms(2-5), of post] by simp
next
  case (Cons x xs)
  from assms(2,3) have ab: "a \<noteq> 58" "b \<noteq> 58" by (auto simp: isDigit_def)
  let ?rest = "xs @ [a, b, 58, d, e] @ post"
  have h1: "?rest = [] \<or> hd ?rest \<noteq> 58"
    using Cons.prems ab by (cases xs) auto
  have h2: "length ?rest < 2 \<or> ?rest ! 1 \<noteq> 58"
  proof (cases xs)
    case Nil
    with ab show ?thesis by simp
  next
    case (Cons y ys)
    with Cons.prems ab show ?thesis by (cases ys) auto
  qed
  have "timeAt (x # ?rest) = None"
    by (rule timeAt_no_colon [OF refl h1 h2])
  with Cons show ?case by simp
qed

lemma parse_concrete:
  assumes "cleanId s = c" and "specAccepts (currentYear fy) c"
  shows "parse fy s = Some (parsedOf fy c)"
  using assms by (simp add: parse_char)


lemma timeMatch_first_pair:
  assumes "parse fy i = Some p" and "58 \<notin> set pre"
    and "isDigit a" "isDigit b" "isDigit d" "isDigit e"
  shows "timeMatch (verifyDateTime fy i (pre @ a # b # 58 # d # e # post)) \<longleftrightarrow>
           hour p = int (digitsValue [a, b]) \<and> \<bar>minute p - int (digitsValue [d, e])\<bar> \<le> 2"
  using verifyDateTime_timeMatch [OF assms(1) timeSearch_first_colon [OF assms(2-6)], of post]
  by simp

text \<open>
  Claim C6, as stated, fails at \<^verbatim>\<open>17:11\<close>: minute 11 is three minutes from minute 8,
  outside the tolerance of two, and the time is reported as not matching.
\<close>

theorem time_cross_check_counterexample:
  "parse 2025 (js ''015298170819BQR02651'')
     = Some (parsedOf 2025 (js ''015298170819BQR02651''))
   \<and> time (parsedOf 2025 (js ''015298170819BQR02651'')) = js ''17:08:19''
   \<and> \<not> timeMatch (verifyDateTime 2025 (js ''015298170819BQR02651'') (js ''17:11''))"
proof -
  let ?a = "js ''015298170819BQR02651''"
  have ca: "cleanId ?a = ?a"
    by (rule cleanId_alnum) (simp add: js_def isAlnum_def isDigit_def isUpperAZ_def)
  have pa: "parse 2025 ?a = Some (parsedOf 2025 ?a)"
    by (rule parse_concrete [OF ca]) (simp add: concrete_defs)
  have tm: "time (parsedOf 2025 ?a) = js ''17:08:19''"
    by (simp add: parsedOf_def Let_def js_def)
  have d: "isDigit 49" "isDigit 55" by (simp_all add: isDigit_def)
  have nc: "58 \<notin> set ([] :: jsstring)" by simp
  note R = timeMatch_first_pair [OF pa nc d(1) d(2) d(1) d(1), of "[]"]
  have "\<not> (hour (parsedOf 2025 ?a) = int (digitsValue [49, 55])
           \<and> \<bar>minute (parsedOf 2025 ?a) - int (digitsValue [49, 49])\<bar> \<le> 2)"
    by (simp add: field_eval)
  with R have "\<not> timeMatch (verifyDateTime 2025 ?a ([] @ 49 # 55 # 58 # 49 # 49 # []))"
    by blast
  moreover have "js ''17:11'' = [49, 55, 58, 49, 49]" by (simp add: js_def)
  ultimately have "\<not> timeMatch (verifyDateTime 2025 ?a (js ''17:11''))" by simp
  with pa tm show ?thesis by blast
qed

text \<open>
  Claim C6, amended. For an identifier whose parsed time is 17:08:19, against a text
  whose first hour:minute pair (no colon before it) is \<^verbatim>\<open>17:08\<close> or \<^verbatim>\<open>17:10\<close>
  the time matches; against \<^verbatim>\<open>17:11\<close> and against \<^verbatim>\<open>17:12\<close> it does not.
\<close>

theorem time_cross_check_scenario:
  assumes "parse fy i = Some p" and "hour p = 17" and "minute p = 8" and "second p = 19"
    and "58 \<notin> set pre"
  shows "timeMatch (verifyDateTime fy i (pre @ js ''17:08'' @ post))
         \<and> timeMatch (verifyDateTime fy i (pre @ js ''17:10'' @ post))
         \<and> \<not> timeMatch (verifyDateTime fy i (pre @ js ''17:11'' @ post))
         \<and> \<not> timeMatch (verifyDateTime fy i (pre @ js ''17:12'' @ post))"
proof -
  have d: "isDigit 48" "isDigit 49" "isDigit 50" "isDigit 55" "isDigit 56"
    by (simp_all add: isDigit_def)
  have t: "js ''17:08'' = [49, 55, 58, 48, 56]" "js ''17:10'' = [49, 55, 58, 49, 48]"
    "js ''17:11'' = [49, 55, 58, 49, 49]" "js ''17:12'' = [49, 55, 58, 49, 50]"
    by (simp_all add: js_def)
  have v: "digitsValue [49, 55] = 17" "digitsValue [48, 56] = 8" "digitsValue [49, 48] = 10"
    "digitsValue [49, 49] = 11" "digitsValue [49, 50] = 12"
    by (simp_all add: digitsValue_def digitValue_def)
  show ?thesis
    unfolding t
    using assms(2,3)
    by (simp add: timeMatch_first_pair [OF assms(1,5)] d v)
qed

theorem time_cross_check_scenario_witness:
  "parse 2025 (js ''015298170819BQR02651'')
     = Some (parsedOf 2025 (js ''015298170819BQR02651''))
   \<and> timeMatch (verifyDateTime 2025 (js ''015298170819BQR02651'')
        ([50, 53, 32, 3605, 46, 3588, 46, 32, 54, 56, 32] @ js ''17:08'' @ [32, 3609, 46]))
   \<and> timeMatch (verifyDateTime 2025 (js ''015298170819BQR02651'')
        ([50, 53, 32, 3605, 46, 3588, 46, 32, 54, 56, 32] @ js ''17:10'' @ [32, 3609, 46]))
   \<and> \<not> timeMatch (verifyDateTime 2025 (js ''015298170819BQR02651'')
        ([50, 53, 32, 3605, 46, 3588, 46, 32, 54, 56, 32] @ js ''17:11'' @ [32, 3609, 46]))
   \<and> \<not> timeMatch (verifyDateTime 2025 (js ''015298170819BQR02651'')
        ([50, 53, 32, 3605, 46, 3588, 46, 32, 54, 56, 32] @ js ''17:12'' @ [32, 3609, 46]))"
proof -
  let ?a = "js ''015298170819BQR02651''"
  have ca: "cleanId ?a = ?a"
    by (rule cleanId_alnum) (simp add: js_def isAlnum_def isDigit_def isUpperAZ_def)
  have pa: "parse 2025 ?a = Some (parsedOf 2025 ?a)"
    by (rule parse_concrete [OF ca]) (simp add: concrete_defs)
  have f: "hour (parsedOf 2025 ?a) = 17" "minute (parsedOf 2025 ?a) = 8"
    "second (parsedOf 2025 ?a) = 19"
    by (simp_all add: field_eval)
  have nc: "58 \<notin> set [50, 53, 32, 3605, 46, 3588, 46, 32, 54, 56, 32::nat]" by simp
  from time_cross_check_scenario [OF pa f nc, of "[32, 3609, 46]"] pa
  show ?thesis by blast
qed

section \<open>Properties of the character normalizer and the repair function\<close>

lemma startsWith_Nil [simp]: "startsWith s []"
  by (simp add: startsWith_def)

lemma startsWith_Cons:
  "startsWith (c # s) q \<longleftrightarrow> q = [] \<or> (\<exists>q'. q = c # q' \<and> startsWith s q')"
  by (cases q) (auto simp: startsWith_def)

lemma startsWith_append: "startsWith s q \<longleftrightarrow> (\<exists>v. s = q @ v)"
proof
  assume "startsWith s q"
  then have "s = q @ drop (length q) s"
    unfolding startsWith_def by (metis append_take_drop_id)
  then show "\<exists>v. s = q @ v" ..
next
  assume "\<exists>v. s = q @ v"
  then show "startsWith s q" by (auto simp: startsWith_def)
qed

lemma occursIn_Nil: "occursIn q [] \<longleftrightarrow> q = []"
  by (auto simp: occursIn_def)

lemma occursIn_Cons:
  "occursIn q (c # s) \<longleftrightarrow> startsWith (c # s) q \<or> occursIn q s"
proof
  assume "occursIn q (c # s)"
  then obtain u v where e: "c # s = u @ q @ v" by (auto simp: occursIn_def)
  show "startsWith (c # s) q \<or> occursIn q s"
  proof (cases u)
    case Nil
    with e have "startsWith (c # s) q" by (auto simp: startsWith_append)
    then show ?thesis ..
  next
    case (Cons x u')
    with e have "s = u' @ q @ v" by simp
    then have "occursIn q s" by (auto simp: occursIn_def)
    then show ?thesis ..
  qed
next
  assume "startsWith (c # s) q \<or> occursIn q s"
  then show "occursIn q (c # s)"
  proof
    assume "startsWith (c # s) q"
    then obtain v where "c # s = q @ v" by (auto simp: startsWith_append)
    then have "c # s = [] @ q @ v" by simp
    then show ?thesis unfolding occursIn_def by blast
  next
    assume "occursIn q s"
    then obtain u v where "s = u @ q @ v" by (auto simp: occursIn_def)
    then have "c # s = (c # u) @ q @ v" by simp
    then show ?thesis unfolding occursIn_def by blast
  qed
qed

lemma occursIn_drop: "occursIn q (drop n s) \<Longrightarrow> occursIn q s"
proof -
  assume "occursIn q (drop n s)"
  then obtain u v where "drop n s = u @ q @ v" by (auto simp: occursIn_def)
  then have "s = (take n s @ u) @ q @ v"
    by (metis append_take_drop_id append_assoc)
  then show ?thesis unfolding occursIn_def by blast
qed

lemma startsWith_occursIn: "startsWith s q \<Longrightarrow> occursIn q s"
proof -
  assume "startsWith s q"
  then obtain v where "s = q @ v" by (auto simp: startsWith_append)
  then have "s = [] @ q @ v" by simp
  then show ?thesis unfolding occursIn_def by blast
qed

lemma occursIn_append_disjoint:
  "set q \<inter> set r = {} \<Longrightarrow> q \<noteq> [] \<Longrightarrow> occursIn q (r @ t) \<Longrightarrow> occursIn q t"
proof (induction r)
  case Nil
  then show ?case by simp
next
  case (Cons x r)
  from Cons.prems(3) have "startsWith (x # r @ t) q \<or> occursIn q (r @ t)"
    by (simp add: occursIn_Cons)
  then show ?case
  proof
    assume "startsWith (x # r @ t) q"
    with Cons.prems(2) obtain q' where "q = x # q'" by (auto simp: startsWith_Cons)
    with Cons.prems(1) show ?thesis by auto
  next
    assume "occursIn q (r @ t)"
    with Cons show ?thesis by auto
  qed
qed

lemma startsWith_replaceAll:
  assumes "p \<noteq> []" and "r \<noteq> []"
  shows "set q \<inter> set r = {} \<Longrightarrow> startsWith (replaceAll p r s) q \<Longrightarrow> startsWith s q"
proof (induction s arbitrary: q)
  case Nil
  with assms show ?case by simp
next
  case (Cons c cs)
  show ?case
  proof (cases "take (length p) (c # cs) = p")
    case True
    with assms(1) have e: "replaceAll p r (c # cs) = r @ replaceAll p r (drop (length p) (c # cs))"
      by simp
    from assms(2) obtain x r' where r: "r = x # r'" by (cases r) auto
    from Cons.prems(2) e r
    have "startsWith (x # r' @ replaceAll p r (drop (length p) (c # cs))) q" by simp
    then have "q = [] \<or> (\<exists>q'. q = x # q')"
      by (auto simp: startsWith_Cons)
    with Cons.prems(1) r have "q = []" by auto
    then show ?thesis by simp
  next
    case False
    with assms(1) have e: "replaceAll p r (c # cs) = c # replaceAll p r cs" by simp
    from Cons.prems(2) have "q = [] \<or> (\<exists>q'. q = c # q' \<and> startsWith (replaceAll p r cs) q')"
      unfolding e by (simp add: startsWith_Cons)
    then show ?thesis
    proof
      assume "q = []"
      then show ?thesis by simp
    next
      assume "\<exists>q'. q = c # q' \<and> startsWith (replaceAll p r cs) q'"
      then obtain q' where q: "q = c # q'" and s: "startsWith (replaceAll p r cs) q'" by blast
      from Cons.prems(1) q have "set q' \<inter> set r = {}" by auto
      from Cons.IH [OF this s] q show ?thesis by (simp add: startsWith_Cons)
    qed
  qed
qed

lemma occursIn_replaceAll:
  "p \<noteq> [] \<Longrightarrow> r \<noteq> [] \<Longrightarrow> set q \<inter> set r = {} \<Longrightarrow> q \<noteq> [] \<Longrightarrow>
     occursIn q (replaceAll p r s) \<Longrightarrow> occursIn q s"
proof (induction p r s rule: replaceAll.induct)
  case (1 p r)
  then show ?case by (simp add: occursIn_Nil)
next
  case (2 p r c cs)
  show ?case
  proof (cases "take (length p) (c # cs) = p")
    case True
    with "2.prems"(1)
    have e: "replaceAll p r (c # cs) = r @ replaceAll p r (drop (length p) (c # cs))"
      by simp
    with "2.prems"(5) have "occursIn q (r @ replaceAll p r (drop (length p) (c # cs)))"
      by simp
    with "2.prems"(3,4) have "occursIn q (replaceAll p r (drop (length p) (c # cs)))"
      by (rule occursIn_append_disjoint)
    with "2.IH"(2) [OF "2.prems"(1) True "2.prems"(1,2,3,4)]
    have "occursIn q (drop (length p) (c # cs))" by blast
    then show ?thesis by (rule occursIn_drop)
  next
    case False
    with "2.prems"(1) have e: "replaceAll p r (c # cs) = c # replaceAll p r cs" by simp
    with "2.prems"(5) have "occursIn q (c # replaceAll p r cs)" by simp
    then have "startsWith (c # replaceAll p r cs) q \<or> occursIn q (replaceAll p r cs)"
      by (simp add: occursIn_Cons)
    then show ?thesis
    proof
      assume "startsWith (c # replaceAll p r cs) q"
      with e have "startsWith (replaceAll p r (c # cs)) q" by simp
      with "2.prems"(1,2,3) have "startsWith (c # cs) q"
        by (intro startsWith_replaceAll [of p r q "c # cs"])
      then show ?thesis by (rule startsWith_occursIn)
    next
      assume "occursIn q (replaceAll p r cs)"
      with "2.IH"(3) [OF "2.prems"(1) False "2.prems"(1,2,3,4)]
      have "occursIn q cs" by blast
      then show ?thesis by (simp add: occursIn_Cons)
    qed
  qed
qed

lemma not_occursIn_replaceAll:
  "p \<noteq> [] \<Longrightarrow> r \<noteq> [] \<Longrightarrow> set p \<inter> set r = {} \<Longrightarrow> \<not> occursIn p (replaceAll p r s)"
proof (induction p r s rule: replaceAll.induct)
  case (1 p r)
  then show ?case by (simp add: occursIn_Nil)
next
  case (2 p r c cs)
  show ?case
  proof (cases "take (length p) (c # cs) = p")
    case True
    with "2.prems"(1)
    have e: "replaceAll p r (c # cs) = r @ replaceAll p r (drop (length p) (c # cs))"
      by simp
    from "2.IH"(2) [OF "2.prems"(1) True "2.prems"]
    have "\<not> occursIn p (replaceAll p r (drop (length p) (c # cs)))" .
    with occursIn_append_disjoint [OF "2.prems"(3,1)] e show ?thesis by auto
  next
    case False
    with "2.prems"(1) have e: "replaceAll p r (c # cs) = c # replaceAll p r cs" by simp
    from "2.IH"(3) [OF "2.prems"(1) False "2.prems"]
    have ih: "\<not> occursIn p (replaceAll p r cs)" .
    have "\<not> startsWith (c # replaceAll p r cs) p"
    proof
      assume "startsWith (c # replaceAll p r cs) p"
      with e have "startsWith (replaceAll p r (c # cs)) p" by simp
      with "2.prems" have "startsWith (c # cs) p"
        by (intro startsWith_replaceAll [of p r p "c # cs"])
      with False show False by (simp add: startsWith_def)
    qed
    with ih e show ?thesis by (simp add: occursIn_Cons)
  qed
qed

lemma replaceAll_id:
  "p \<noteq> [] \<Longrightarrow> \<not> occursIn p s \<Longrightarrow> replaceAll p r s = s"
proof (induction s)
  case Nil
  then show ?case by simp
next
  case (Cons c cs)
  from Cons.prems(2) have ns: "\<not> startsWith (c # cs) p" and no: "\<not> occursIn p cs"
    by (simp_all add: occursIn_Cons)
  from ns have "take (length p) (c # cs) \<noteq> p" by (simp add: startsWith_def)
  with Cons.prems(1) Cons.IH no show ?case by simp
qed

text \<open>
  A table is \<open>separated\<close> by a class of characters when every key is a non-empty string
  of the class and every value a non-empty string outside it.
\<close>

lemma fold_occursIn:
  assumes "\<forall>(w, c)\<in>set tbl. w \<noteq> [] \<and> c \<noteq> [] \<and> (\<forall>x\<in>set c. \<not> A x)"
    and "q \<noteq> []" and "\<forall>x\<in>set q. A x"
  shows "occursIn q (fold (\<lambda>(wrong, correct) cleaned. replaceAll wrong correct cleaned) tbl s)
           \<Longrightarrow> occursIn q s"
  using assms(1)
proof (induction tbl arbitrary: s)
  case Nil
  then show ?case by simp
next
  case (Cons e tbl)
  obtain w c where e: "e = (w, c)" by (cases e)
  from Cons.prems(2) e have wc: "w \<noteq> []" "c \<noteq> []" "\<forall>x\<in>set c. \<not> A x" by auto
  from wc(3) assms(3) have dis: "set q \<inter> set c = {}" by auto
  from Cons.prems(1) e
  have "occursIn q (fold (\<lambda>(wrong, correct) cleaned. replaceAll wrong correct cleaned) tbl
          (replaceAll w c s))" by simp
  with Cons.IH Cons.prems(2) have "occursIn q (replaceAll w c s)" by auto
  with wc(1,2) dis assms(2) show ?case by (intro occursIn_replaceAll [of w c q s])
qed

lemma fold_not_occursIn:
  assumes "\<forall>(w, c)\<in>set tbl. w \<noteq> [] \<and> c \<noteq> [] \<and> (\<forall>x\<in>set w. A x) \<and> (\<forall>x\<in>set c. \<not> A x)"
    and "(w, c) \<in> set tbl"
  shows "\<not> occursIn w (fold (\<lambda>(wrong, correct) cleaned. replaceAll wrong correct cleaned) tbl s)"
  using assms
proof (induction tbl arbitrary: s)
  case Nil
  then show ?case by simp
next
  case (Cons e tbl)
  obtain w0 c0 where e: "e = (w0, c0)" by (cases e)
  from Cons.prems(1) have rest:
    "\<forall>(w, c)\<in>set tbl. w \<noteq> [] \<and> c \<noteq> [] \<and> (\<forall>x\<in>set w. A x) \<and> (\<forall>x\<in>set c. \<not> A x)"
    by simp
  then have rest': "\<forall>(w, c)\<in>set tbl. w \<noteq> [] \<and> c \<noteq> [] \<and> (\<forall>x\<in>set c. \<not> A x)"
    by auto
  from Cons.prems(1) e have wc0: "w0 \<noteq> []" "c0 \<noteq> []" "\<forall>x\<in>set w0. A x" "\<forall>x\<in>set c0. \<not> A x"
    by auto
  have f: "fold (\<lambda>(wrong, correct) cleaned. replaceAll wrong correct cleaned) (e # tbl) s
         = fold (\<lambda>(wrong, correct) cleaned. replaceAll wrong correct cleaned) tbl
             (replaceAll w0 c0 s)"
    using e by simp
  from Cons.prems(2) e have "(w, c) = (w0, c0) \<or> (w, c) \<in> set tbl" by auto
  then show ?case
  proof
    assume "(w, c) = (w0, c0)"
    then have w: "w = w0" by simp
    from wc0 have "set w0 \<inter> set c0 = {}" by auto
    with wc0(1,2) have "\<not> occursIn w0 (replaceAll w0 c0 s)"
      by (intro not_occursIn_replaceAll)
    with fold_occursIn [OF rest' wc0(1,3)] show ?thesis unfolding f w by blast
  next
    assume "(w, c) \<in> set tbl"
    from Cons.IH [OF rest this] show ?thesis unfolding f .
  qed
qed

lemma fold_replaceAll_id:
  "\<forall>(w, c)\<in>set tbl. w \<noteq> [] \<and> \<not> occursIn w s \<Longrightarrow>
     fold (\<lambda>(wrong, correct) cleaned. replaceAll wrong correct cleaned) tbl s = s"
proof (induction tbl)
  case Nil
  then show ?case by simp
next
  case (Cons e tbl)
  obtain w c where e: "e = (w, c)" by (cases e)
  with Cons.prems have "replaceAll w c s = s" by (intro replaceAll_id) auto
  with Cons e show ?case by simp
qed

lemma ocrFixes_separated:
  "\<forall>(w, c)\<in>set ocrFixes.
      w \<noteq> [] \<and> c \<noteq> [] \<and> (\<forall>x\<in>set w. x = 47 \<or> isThai x) \<and> (\<forall>x\<in>set c. \<not> (x = 47 \<or> isThai x))"
  by (simp add: ocrFixes_def js_def isThai_def)

text \<open>
  Claim C8. The character normalizer is idempotent: applying \<open>cleanOCRText\<close> to its own
  output changes nothing.
\<close>

theorem cleanOCRText_idempotent:
  "cleanOCRText (cleanOCRText s) = cleanOCRText s"
proof (cases "cleanOCRText s = []")
  case True
  then show ?thesis by (simp add: cleanOCRText_def)
next
  case False
  then have ne: "s \<noteq> []" by (auto simp: cleanOCRText_def)
  let ?f = "fold (\<lambda>(wrong, correct) cleaned. replaceAll wrong correct cleaned) ocrFixes"
  have out: "cleanOCRText s = ?f s" using ne by (simp add: cleanOCRText_def)
  have "\<forall>(w, c)\<in>set ocrFixes. w \<noteq> [] \<and> \<not> occursIn w (?f s)"
    using ocrFixes_separated fold_not_occursIn [OF ocrFixes_separated, of _ _ s] by fastforce
  then have "?f (?f s) = ?f s" by (rule fold_replaceAll_id)
  with False out show ?thesis by (simp add: cleanOCRText_def)
qed


theorem cleanOCRText_idempotent_witness:
  "cleanOCRText (js ''015298175028/'' @ [3648, 3623] @ js ''16903'') = js ''015298175028APM16903''
   \<and> cleanOCRText (js ''015298175028APM16903'') = js ''015298175028APM16903''"
proof -
  have a: "cleanOCRText (js ''015298175028/'' @ [3648, 3623] @ js ''16903'')
             = js ''015298175028APM16903''"
    by (simp add: cleanOCRText_def ocrFixes_def js_def)
  from cleanOCRText_idempotent [of "js ''015298175028/'' @ [3648, 3623] @ js ''16903''"] a
  show ?thesis by simp
qed

lemma thaiToEnglish_keys:
  "\<forall>(w, c)\<in>set thaiToEnglish. w \<noteq> [] \<and> (\<forall>x\<in>set w. isThai x)"
  by (simp add: thaiToEnglish_def isThai_def)

lemma occursIn_set: "occursIn w s \<Longrightarrow> set w \<subseteq> set s"
  by (auto simp: occursIn_def)

lemma thaiCleaned_id:
  assumes "\<forall>c\<in>set s. \<not> isThai c"
  shows "thaiCleaned s = s"
proof -
  have "\<forall>(w, c)\<in>set thaiToEnglish. w \<noteq> [] \<and> \<not> occursIn w s"
  proof (clarify, rule conjI)
    fix w c assume wc: "(w, c) \<in> set thaiToEnglish"
    with thaiToEnglish_keys have ne: "w \<noteq> []" and th: "\<forall>x\<in>set w. isThai x" by auto
    from ne show "w \<noteq> []" .
    show "\<not> occursIn w s"
    proof
      assume "occursIn w s"
      then have "set w \<subseteq> set s" by (rule occursIn_set)
      moreover from ne obtain x where "x \<in> set w" by (cases w) auto
      ultimately show False using th assms by auto
    qed
  qed
  then have "fold (\<lambda>(thai, eng) cleaned. replaceAll thai eng cleaned) thaiToEnglish s = s"
    by (rule fold_replaceAll_id)
  with assms show ?thesis by (simp add: thaiCleaned_def filter_id_conv)
qed

subsection \<open>The repair of a candidate identifier\<close>

text \<open>
  The conditions of \<open>repairRuleMatches\<close> are exactly those under which a rule of the
  function applies: when none holds, the rules give nothing or put the string back
  together as it was (\<open>repairRules_no_match\<close>), and when one holds, a rule returns
  (\<open>repairRules_match\<close>).
\<close>

lemma lazyMiddle_append:
  "lazyMiddle ks r = Some (middle, suffix) \<Longrightarrow> r = middle @ suffix"
proof (induction ks)
  case Nil
  then show ?case by simp
next
  case (Cons k ks)
  then show ?case
    by (auto simp: cls_def clsEnd_def split: option.splits if_splits Option.bind_splits)
qed

lemma lit_append: "lit p s = Some r \<Longrightarrow> s = p @ r"
proof -
  assume "lit p s = Some r"
  then have "take (length p) s = p" and "r = drop (length p) s"
    by (simp_all add: lit_def split: if_splits)
  then show ?thesis by (metis append_take_drop_id)
qed

lemma cls_append: "cls P n s = Some (a, b) \<Longrightarrow> s = a @ b"
  by (auto simp: cls_def split: if_splits)

lemma splitPattern_append:
  assumes "splitPattern c = Some (pre, middle, suffix)"
  shows "c = pre @ middle @ suffix"
proof (cases "lit (js ''0152'') c")
  case None
  with assms show ?thesis by (simp add: splitPattern_def)
next
  case (Some r0)
  note a = this
  show ?thesis
  proof (cases "cls isDigit 8 r0")
    case None
    with assms a show ?thesis by (simp add: splitPattern_def)
  next
    case (Some t)
    then obtain digits r1 where b: "cls isDigit 8 r0 = Some (digits, r1)" by (cases t) auto
    show ?thesis
    proof (cases "lazyMiddle [2, 3, 4, 5, 6, 7] r1")
      case None
      with assms a b show ?thesis by (simp add: splitPattern_def)
    next
      case (Some u)
      then obtain m2 s2 where l: "lazyMiddle [2, 3, 4, 5, 6, 7] r1 = Some (m2, s2)"
        by (cases u) auto
      from assms a b l have p: "pre = js ''0152'' @ digits" "middle = m2" "suffix = s2"
        by (simp_all add: splitPattern_def)
      from a have "c = js ''0152'' @ r0" by (rule lit_append)
      moreover from b have "r0 = digits @ r1" by (rule cls_append)
      moreover from l have "r1 = m2 @ s2" by (rule lazyMiddle_append)
      ultimately show ?thesis using p by simp
    qed
  qed
qed

lemma matchKnownCode_None:
  "\<not> list_ex (\<lambda>code. r = code \<or> startsWith r (take 3 code)) codes \<Longrightarrow>
     matchKnownCode codes r = None"
  by (induction codes) (auto simp: substring_def)

lemma reconstruct_alnum: "list_all isDigit middle \<Longrightarrow> list_all isAlnum (reconstruct middle)"
proof -
  have "isAlnum (case map_of numberToLetter c of Some l \<Rightarrow> l | None \<Rightarrow> c)" if "isDigit c" for c
  proof -
    from that have "c = 48 \<or> c = 49 \<or> c = 50 \<or> c = 51 \<or> c = 52 \<or> c = 53 \<or> c = 54 \<or> c = 55
                      \<or> c = 56 \<or> c = 57" unfolding isDigit_def by arith
    then show ?thesis
      by (elim disjE) (simp_all add: numberToLetter_def isAlnum_def isUpperAZ_def isDigit_def)
  qed
  then show "list_all isDigit middle \<Longrightarrow> list_all isAlnum (reconstruct middle)"
    by (auto simp: reconstruct_def list_all_iff)
qed

lemma short_list_cases:
  assumes "2 \<le> length (m :: jsstring)" and "length m \<le> 4"
  obtains a b where "m = [a, b]"
  | a b c where "m = [a, b, c]"
  | a b c d where "m = [a, b, c, d]"
proof -
  from assms have "length m = Suc (Suc 0) \<or> length m = Suc (Suc (Suc 0))
                     \<or> length m = Suc (Suc (Suc (Suc 0)))" by arith
  then have "(\<exists>a b. m = [a, b]) \<or> (\<exists>a b c. m = [a, b, c]) \<or> (\<exists>a b c d. m = [a, b, c, d])"
    by (auto simp: length_Suc_conv)
  then show thesis using that by blast
qed

lemma digitRules_None:
  assumes "list_all isDigit middle" and "2 \<le> length middle" and "length middle \<le> 4"
    and "\<not> digitRuleMatches middle"
  shows "digitRules pre middle suffix = None"
proof -
  from assms(1) have up: "toUpperCase (reconstruct middle) = reconstruct middle"
    by (intro toUpperCase_alnum reconstruct_alnum)
  from assms have nk: "matchKnownCode knownCodes (reconstruct middle) = None"
    by (intro matchKnownCode_None) (simp add: digitRuleMatches_def)
  from assms(2,3) show ?thesis
  proof (cases middle rule: short_list_cases)
    case (1 a b)
    with assms nk up show ?thesis
      by (simp add: digitRules_def digitRuleMatches_def Let_def js_def startsWith_def
            endsWith_def)
  next
    case (2 a b c)
    with assms nk up show ?thesis
      by (auto simp: digitRules_def digitRuleMatches_def Let_def js_def startsWith_def
            endsWith_def isDigit_def)
  next
    case (3 a b c d)
    with assms nk up show ?thesis
      by (auto simp: digitRules_def digitRuleMatches_def Let_def js_def startsWith_def
            endsWith_def isDigit_def)
  qed
qed

lemma mixedRules_id:
  assumes "3 \<le> length middle" and "length middle \<le> 4" and "\<not> letterRuleMatches middle"
  shows "mixedRules middle = middle"
proof -
  from assms(1,2) have "2 \<le> length middle" by simp
  from this assms(2) show ?thesis
  proof (cases middle rule: short_list_cases)
    case (1 a b)
    with assms(1) show ?thesis by simp
  next
    case (2 a b c)
    with assms(3) show ?thesis
      by (auto simp: mixedRules_def eightLettersThen_def letterRuleMatches_def js_def)
  next
    case (3 a b c d)
    with assms(3) show ?thesis
      by (auto simp: mixedRules_def eightLettersThen_def letterRuleMatches_def js_def)
  qed
qed

lemma repairRules_no_match:
  assumes "\<not> repairRuleMatches c"
  shows "repairRules c = None \<or> repairRules c = Some c"
proof -
  from assms have bq: "bqrPattern c = None"
    by (cases "bqrPattern c") (simp_all add: repairRuleMatches_def)
  show ?thesis
  proof (cases "splitPattern c")
    case None
    with bq show ?thesis by (simp add: repairRules_def)
  next
    case (Some t)
    then obtain pre middle suffix where t: "splitPattern c = Some (pre, middle, suffix)"
      by (cases t) auto
    then have c: "c = pre @ middle @ suffix" by (rule splitPattern_append)
    from assms t have nm: "\<not> middleRuleMatches middle" by (simp add: repairRuleMatches_def)
    then have n1: "middle \<noteq> js ''8QR8''" "middle \<noteq> js ''8QR0''"
      and nd: "\<not> digitRuleMatches middle" and nl: "\<not> letterRuleMatches middle"
      by (simp_all add: middleRuleMatches_def)
    have dg: "(if list_all isDigit middle \<and> middle \<noteq> [] \<and> length middle \<ge> 2
                  \<and> length middle \<le> 4
               then digitRules pre middle suffix else None) = None"
      using digitRules_None [OF _ _ _ nd] by simp
    have mx: "mixedRules middle = middle" if "length middle \<ge> 3" "length middle \<le> 4"
      using that nl by (rule mixedRules_id)
    show ?thesis
      unfolding repairRules_def bq t using n1 dg mx c by simp
  qed
qed


lemma matchKnownCode_Some:
  "list_ex (\<lambda>code. r = code \<or> startsWith r (take 3 code)) codes \<Longrightarrow>
     matchKnownCode codes r \<noteq> None"
  by (induction codes) (auto simp: substring_def)

lemma digitRules_Some:
  assumes "digitRuleMatches middle"
  shows "digitRules pre middle suffix \<noteq> None"
proof -
  from assms have dg: "list_all isDigit middle" and l: "2 \<le> length middle" "length middle \<le> 4"
    by (simp_all add: digitRuleMatches_def)
  from dg have up: "toUpperCase (reconstruct middle) = reconstruct middle"
    by (intro toUpperCase_alnum reconstruct_alnum)
  show ?thesis
  proof (cases "matchKnownCode knownCodes (reconstruct middle)")
    case (Some code)
    with up show ?thesis by (simp add: digitRules_def Let_def)
  next
    case None
    then have nk: "\<not> list_ex (\<lambda>code. reconstruct middle = code
                     \<or> startsWith (reconstruct middle) (take 3 code)) knownCodes"
      using matchKnownCode_Some by blast
    from l show ?thesis
    proof (cases middle rule: short_list_cases)
      case (1 a b)
      with assms nk show ?thesis by (simp add: digitRuleMatches_def js_def)
    next
      case (2 a b c)
      with assms nk show ?thesis
        by (auto simp: digitRuleMatches_def digitRules_def Let_def js_def)
    next
      case (3 a b c d)
      with assms nk dg up None show ?thesis
        by (auto simp: digitRuleMatches_def digitRules_def Let_def js_def startsWith_def
              endsWith_def isDot_def isDigit_def)
    qed
  qed
qed

lemma repairRules_match:
  assumes "repairRuleMatches c"
  shows "repairRules c \<noteq> None"
proof (cases "bqrPattern c")
  case (Some t)
  then show ?thesis by (cases t) (simp add: repairRules_def)
next
  case None
  note bq = this
  with assms obtain pre middle suffix where t: "splitPattern c = Some (pre, middle, suffix)"
    and m: "middleRuleMatches middle"
    by (auto simp: repairRuleMatches_def split: option.splits)
  show ?thesis
  proof (cases "middle = js ''8QR8'' \<or> middle = js ''8QR0''")
    case True
    then show ?thesis unfolding repairRules_def bq t by auto
  next
    case False
    with m consider "digitRuleMatches middle" | "letterRuleMatches middle"
      by (auto simp: middleRuleMatches_def)
    then show ?thesis
    proof cases
      case 1
      then have "digitRules pre middle suffix \<noteq> None" by (rule digitRules_Some)
      moreover from 1 have "list_all isDigit middle \<and> middle \<noteq> [] \<and> length middle \<ge> 2
                  \<and> length middle \<le> 4" by (auto simp: digitRuleMatches_def)
      ultimately show ?thesis unfolding repairRules_def bq t using False by auto
    next
      case 2
      then have l: "3 \<le> length middle" "length middle \<le> 4"
        and u: "list_all isUpperAZ (butlast (tl middle))"
        by (simp_all add: letterRuleMatches_def)
      from l have "2 \<le> length middle" by simp
      from this l(2) have "list_ex isUpperAZ middle"
      proof (cases middle rule: short_list_cases)
        case (1 a b)
        with l show ?thesis by simp
      next
        case (2 a b c)
        with u show ?thesis by simp
      next
        case (3 a b c d)
        with u show ?thesis by simp
      qed
      with l show ?thesis unfolding repairRules_def bq t using False
        by (auto split: option.splits)
    qed
  qed
qed

text \<open>
  Claim C9, as stated, fails for a candidate of 20 or more characters that holds a Thai
  character: no rule matches the one below, before or after its Thai clean-up, and the
  function returns it without its Thai character.
\<close>

theorem repair_passthrough_counterexample:
  "\<not> repairRuleMatches (js ''015298170819BQR0265X'' @ [3585])
   \<and> \<not> repairRuleMatches (thaiCleaned (js ''015298170819BQR0265X'' @ [3585]))
   \<and> fixTransactionIdOCRErrors (js ''015298170819BQR0265X'' @ [3585])
       = js ''015298170819BQR0265X''
   \<and> fixTransactionIdOCRErrors (js ''015298170819BQR0265X'' @ [3585])
       \<noteq> js ''015298170819BQR0265X'' @ [3585]"
proof -
  have c: "thaiCleaned (js ''015298170819BQR0265X'' @ [3585]) = js ''015298170819BQR0265X''"
    by (simp add: thaiCleaned_def thaiToEnglish_def js_def isThai_def)
  have m0: "\<not> repairRuleMatches (js ''015298170819BQR0265X'' @ [3585])"
    by (simp add: repairRuleMatches_def bqrPattern_def splitPattern_def js_def lit_def cls_def
          clsEnd_def isDigit_def isDot_def)
  have m: "\<not> repairRuleMatches (js ''015298170819BQR0265X'')"
    by (simp add: repairRuleMatches_def bqrPattern_def splitPattern_def js_def lit_def cls_def
          clsEnd_def isDigit_def isDot_def)
  have r: "repairRules (js ''015298170819BQR0265X'') = None"
    by (simp add: repairRules_def bqrPattern_def splitPattern_def js_def lit_def cls_def
          clsEnd_def isDigit_def isDot_def)
  have f: "fixTransactionIdOCRErrors (js ''015298170819BQR0265X'' @ [3585])
             = js ''015298170819BQR0265X''"
    using c r by (simp add: fixTransactionIdOCRErrors_def js_def)
  have "js ''015298170819BQR0265X'' \<noteq> js ''015298170819BQR0265X'' @ [3585]" by simp
  with c m0 m f show ?thesis by simp
qed

text \<open>
  Claim C9, amended. A candidate of fewer than 20 characters is returned unchanged. A
  candidate of 20 or more characters whose Thai clean-up (the replacements of
  \<open>thaiToEnglish\<close>, then the removal of every remaining Thai character) no repair rule
  matches is returned as that clean-up; the clean-up of a candidate without Thai
  characters is the candidate itself, which is therefore returned unchanged when no
  repair rule matches it.
\<close>

theorem repair_passthrough:
  "(length s < 20 \<longrightarrow> fixTransactionIdOCRErrors s = s)
   \<and> (20 \<le> length s \<and> \<not> repairRuleMatches (thaiCleaned s) \<longrightarrow>
         fixTransactionIdOCRErrors s = thaiCleaned s)
   \<and> ((\<forall>c\<in>set s. \<not> isThai c) \<longrightarrow> thaiCleaned s = s)
   \<and> (\<not> repairRuleMatches s \<and> (\<forall>c\<in>set s. \<not> isThai c) \<longrightarrow>
         fixTransactionIdOCRErrors s = s)"
proof -
  have a: "length s < 20 \<longrightarrow> fixTransactionIdOCRErrors s = s"
    by (simp add: fixTransactionIdOCRErrors_def)
  have b: "fixTransactionIdOCRErrors s = thaiCleaned s"
    if "20 \<le> length s" and nm: "\<not> repairRuleMatches (thaiCleaned s)"
  proof -
    from repairRules_no_match [OF nm]
    have "repairRules (thaiCleaned s) = None \<or> repairRules (thaiCleaned s) = Some (thaiCleaned s)" .
    with that(1) show ?thesis
      by (auto simp: fixTransactionIdOCRErrors_def Let_def)
  qed
  have c: "(\<forall>c\<in>set s. \<not> isThai c) \<longrightarrow> thaiCleaned s = s"
    using thaiCleaned_id by blast
  have d: "\<not> repairRuleMatches s \<and> (\<forall>c\<in>set s. \<not> isThai c) \<longrightarrow>
         fixTransactionIdOCRErrors s = s"
    using a b c by (cases "length s < 20") auto
  from a b c d show ?thesis by blast
qed

theorem repair_passthrough_witness:
  "fixTransactionIdOCRErrors (js ''0152'') = js ''0152''
   \<and> \<not> repairRuleMatches (js ''015298170819BQR02651'')
   \<and> fixTransactionIdOCRErrors (js ''015298170819BQR02651'') = js ''015298170819BQR02651''
   \<and> \<not> repairRuleMatches (js ''015298181623BPMO4591'')
   \<and> fixTransactionIdOCRErrors (js ''015298181623BPMO4591'') = js ''015298181623BPMO4591''
   \<and> thaiCleaned (js ''015298170819BQR0265X'' @ [3585]) = js ''015298170819BQR0265X''
   \<and> fixTransactionIdOCRErrors (js ''015298170819BQR0265X'' @ [3585])
       = js ''015298170819BQR0265X''"
proof -
  let ?a = "js ''015298170819BQR02651''" and ?b = "js ''015298181623BPMO4591''"
  let ?x = "js ''015298170819BQR0265X''"
  have l: "length (js ''0152'') < 20" "20 \<le> length (?x @ [3585])" by (simp_all add: js_def)
  have nt: "\<forall>c\<in>set ?a. \<not> isThai c" "\<forall>c\<in>set ?b. \<not> isThai c"
    by (simp_all add: js_def isThai_def)
  have sa: "splitPattern ?a = Some (js ''015298170819'', js ''BQR'', js ''02651'')"
    by (simp add: splitPattern_def js_def lit_def cls_def clsEnd_def isDigit_def isDot_def)
  have sb: "splitPattern ?b = Some (js ''015298181623'', js ''BPMO'', js ''4591'')"
    by (simp add: splitPattern_def js_def lit_def cls_def clsEnd_def isDigit_def isDot_def)
  have ba: "bqrPattern ?a = None" "bqrPattern ?b = None"
    by (simp_all add: bqrPattern_def js_def lit_def cls_def clsEnd_def isDigit_def)
  have ma: "\<not> middleRuleMatches (js ''BQR'')" "\<not> middleRuleMatches (js ''BPMO'')"
    by (simp_all add: middleRuleMatches_def digitRuleMatches_def letterRuleMatches_def js_def
          isDigit_def)
  have na: "\<not> repairRuleMatches ?a" by (simp add: repairRuleMatches_def ba sa ma)
  have nb: "\<not> repairRuleMatches ?b" by (simp add: repairRuleMatches_def ba sb ma)
  have c: "thaiCleaned (?x @ [3585]) = ?x"
    by (simp add: thaiCleaned_def thaiToEnglish_def js_def isThai_def)
  have nx: "\<not> repairRuleMatches ?x"
    by (simp add: repairRuleMatches_def bqrPattern_def splitPattern_def js_def lit_def cls_def
          clsEnd_def isDigit_def isDot_def)
  note T1 = repair_passthrough [of "js ''0152''"]
  note Ta = repair_passthrough [of ?a]
  note Tb = repair_passthrough [of ?b]
  note Tx = repair_passthrough [of "?x @ [3585]"]
  from T1 l(1) have w1: "fixTransactionIdOCRErrors (js ''0152'') = js ''0152''" by blast
  from Ta na nt(1) have wa: "fixTransactionIdOCRErrors ?a = ?a" by blast
  from Tb nb nt(2) have wb: "fixTransactionIdOCRErrors ?b = ?b" by blast
  from Tx l(2) c nx have wx: "fixTransactionIdOCRErrors (?x @ [3585]) = ?x" by simp
  from w1 na wa nb wb c wx show ?thesis by blast
qed

text \<open>The repair the function was written for.\<close>

lemma repair_example:
  "fixTransactionIdOCRErrors (js ''0152981708198QR802651'') = js ''015298170819BQR02651''"
proof -
  have c: "thaiCleaned (js ''0152981708198QR802651'') = js ''0152981708198QR802651''"
    by (rule thaiCleaned_id) (simp add: js_def isThai_def)
  have "bqrPattern (js ''0152981708198QR802651'')
          = Some (js ''015298170819'', js ''8QR80'', js ''2651'')"
    by (simp add: bqrPattern_def js_def lit_def cls_def clsEnd_def isDigit_def)
  then have r: "repairRules (js ''0152981708198QR802651'') = Some (js ''015298170819BQR02651'')"
    by (simp add: repairRules_def js_def)
  show ?thesis
    using c r by (simp add: fixTransactionIdOCRErrors_def js_def)
qed

section \<open>Properties of the validation service\<close>

lemma bitLength_numeral:
  "bitLength (numeral k) = Suc (bitLength (numeral k div 2))"
proof -
  obtain n where n: "numeral k = Suc n" by (metis not0_implies_Suc zero_neq_numeral)
  have "bitLength (Suc n) = Suc (bitLength (Suc n div 2))" by (rule bitLength.simps(2))
  then show ?thesis unfolding n [symmetric] .
qed

lemma bitLength_1: "bitLength 1 = 1"
  using bitLength.simps(2) [of 0] by simp

lemma floor_rat_numeral_div:
  "\<lfloor>(numeral a / numeral b :: rat)\<rfloor> = numeral a div numeral b"
  using floor_divide_of_int_eq [of "numeral a" "numeral b", where ?'a = rat] by simp

lemma ceiling_rat_numeral_div:
  "\<lceil>(numeral a / numeral b :: rat)\<rceil> = - (- numeral a div numeral b)"
  using floor_divide_of_int_eq [of "- numeral a" "numeral b", where ?'a = rat]
  by (simp add: ceiling_def)

lemmas double_eval =
  percentageOf_def fmul_def fdiv_def fsub_def roundDouble_def floorLog2_def pow2_def
  roundHalfEven_def bitLength_numeral bitLength_1 floor_rat_numeral_div
  ceiling_rat_numeral_div Let_def


text \<open>
  The score percentage of every pair of a score and a maximum the service can reach,
  computed in doubles, against the threshold.
\<close>

lemma percentage_85:
  "\<not> 70 \<le> percentageOf 0 85"
  "\<not> 70 \<le> percentageOf 5 85"
  "\<not> 70 \<le> percentageOf 10 85"
  "\<not> 70 \<le> percentageOf 15 85"
  "\<not> 70 \<le> percentageOf 20 85"
  "\<not> 70 \<le> percentageOf 25 85"
  "\<not> 70 \<le> percentageOf 30 85"
  "\<not> 70 \<le> percentageOf 35 85"
  "\<not> 70 \<le> percentageOf 40 85"
  "\<not> 70 \<le> percentageOf 45 85"
  "\<not> 70 \<le> percentageOf 50 85"
  "\<not> 70 \<le> percentageOf 55 85"
  "70 \<le> percentageOf 60 85"
  "70 \<le> percentageOf 65 85"
  "70 \<le> percentageOf 70 85"
  "70 \<le> percentageOf 75 85"
  "70 \<le> percentageOf 80 85"
  "70 \<le> percentageOf 85 85"
  by (simp_all add: double_eval)

lemma percentage_95:
  "\<not> 70 \<le> percentageOf 0 95"
  "\<not> 70 \<le> percentageOf 5 95"
  "\<not> 70 \<le> percentageOf 10 95"
  "\<not> 70 \<le> percentageOf 15 95"
  "\<not> 70 \<le> percentageOf 20 95"
  "\<not> 70 \<le> percentageOf 25 95"
  "\<not> 70 \<le> percentageOf 30 95"
  "\<not> 70 \<le> percentageOf 35 95"
  "\<not> 70 \<le> percentageOf 40 95"
  "\<not> 70 \<le> percentageOf 45 95"
  "\<not> 70 \<le> percentageOf 50 95"
  "\<not> 70 \<le> percentageOf 55 95"
  "\<not> 70 \<le> percentageOf 60 95"
  "\<not> 70 \<le> percentageOf 65 95"
  "70 \<le> percentageOf 70 95"
  "70 \<le> percentageOf 75 95"
  "70 \<le> percentageOf 80 95"
  "70 \<le> percentageOf 85 95"
  "70 \<le> percentageOf 90 95"
  "70 \<le> percentageOf 95 95"
  by (simp_all add: double_eval)

lemma percentage_100:
  "\<not> 70 \<le> percentageOf 0 100"
  "\<not> 70 \<le> percentageOf 5 100"
  "\<not> 70 \<le> percentageOf 10 100"
  "\<not> 70 \<le> percentageOf 15 100"
  "\<not> 70 \<le> percentageOf 20 100"
  "\<not> 70 \<le> percentageOf 25 100"
  "\<not> 70 \<le> percentageOf 30 100"
  "\<not> 70 \<le> percentageOf 35 100"
  "\<not> 70 \<le> percentageOf 40 100"
  "\<not> 70 \<le> percentageOf 45 100"
  "\<not> 70 \<le> percentageOf 50 100"
  "\<not> 70 \<le> percentageOf 55 100"
  "\<not> 70 \<le> percentageOf 60 100"
  "\<not> 70 \<le> percentageOf 65 100"
  "70 \<le> percentageOf 70 100"
  "70 \<le> percentageOf 75 100"
  "70 \<le> percentageOf 80 100"
  "70 \<le> percentageOf 85 100"
  "70 \<le> percentageOf 90 100"
  "70 \<le> percentageOf 95 100"
  "70 \<le> percentageOf 100 100"
  by (simp_all add: double_eval)

lemma percentage_110:
  "\<not> 70 \<le> percentageOf 0 110"
  "\<not> 70 \<le> percentageOf 5 110"
  "\<not> 70 \<le> percentageOf 10 110"
  "\<not> 70 \<le> percentageOf 15 110"
  "\<not> 70 \<le> percentageOf 20 110"
  "\<not> 70 \<le> percentageOf 25 110"
  "\<not> 70 \<le> percentageOf 30 110"
  "\<not> 70 \<le> percentageOf 35 110"
  "\<not> 70 \<le> percentageOf 40 110"
  "\<not> 70 \<le> percentageOf 45 110"
  "\<not> 70 \<le> percentageOf 50 110"
  "\<not> 70 \<le> percentageOf 55 110"
  "\<not> 70 \<le> percentageOf 60 110"
  "\<not> 70 \<le> percentageOf 65 110"
  "\<not> 70 \<le> percentageOf 70 110"
  "\<not> 70 \<le> percentageOf 75 110"
  "70 \<le> percentageOf 80 110"
  "70 \<le> percentageOf 85 110"
  "70 \<le> percentageOf 90 110"
  "70 \<le> percentageOf 95 110"
  "70 \<le> percentageOf 100 110"
  "70 \<le> percentageOf 105 110"
  "70 \<le> percentageOf 110 110"
  by (simp_all add: double_eval)


lemma multiple_of_5_cases:
  assumes "5 dvd (sc::nat)" and "sc \<le> 110"
  shows "sc \<in> {0, 5, 10, 15, 20, 25, 30, 35, 40, 45, 50, 55, 60, 65, 70, 75, 80, 85, 90, 95,
               100, 105, 110}"
proof -
  from assms(1) obtain k where k: "sc = 5 * k" by (auto elim: dvdE)
  with assms(2) have "k \<le> 22" by simp
  then have "k \<in> {0, 1, 2, 3, 4, 5, 6, 7, 8, 9, 10, 11, 12, 13, 14, 15, 16, 17, 18, 19, 20,
                  21, 22}"
    by (simp only: insert_iff empty_iff) presburger
  with k show ?thesis by auto
qed

lemma percentage_exact:
  assumes "mx = 85 \<or> mx = 95 \<or> mx = 100 \<or> mx = 110" and "sc \<le> mx" and "5 dvd sc"
  shows "70 \<le> percentageOf sc mx \<longleftrightarrow> 70 * mx \<le> 100 * sc"
proof -
  from assms(1,2) have "sc \<le> 110" by auto
  with assms(3) have cases: "sc \<in> {0, 5, 10, 15, 20, 25, 30, 35, 40, 45, 50, 55, 60, 65, 70, 75,
      80, 85, 90, 95, 100, 105, 110}" by (rule multiple_of_5_cases)
  from assms(1) show ?thesis
  proof (elim disjE)
    assume m: "mx = 85"
    with cases assms(2) show ?thesis using percentage_85 by auto
  next
    assume m: "mx = 95"
    with cases assms(2) show ?thesis using percentage_95 by auto
  next
    assume m: "mx = 100"
    with cases assms(2) show ?thesis using percentage_100 by auto
  next
    assume m: "mx = 110"
    with cases assms(2) show ?thesis using percentage_110 by auto
  qed
qed

text \<open>What each check adds to the score, to the maximum and to the errors.\<close>

lemma authenticityCheck_fields:
  "maxScore (authenticityCheck fd r) = maxScore r + 25"
  "score (authenticityCheck fd r) =
     score r + (case riskLevel fd of LOW \<Rightarrow> 25 | MEDIUM \<Rightarrow> 15 | HIGH \<Rightarrow> 0)"
  "errors (authenticityCheck fd r) =
     errors r @ (if riskLevel fd = HIGH then [HighRiskFake (reasons fd)] else [])"
  "warnings (authenticityCheck fd r) =
     warnings r @ (if riskLevel fd = MEDIUM then [SuspiciousIndicators (reasons fd)] else [])"
  by (cases "riskLevel fd"; simp add: authenticityCheck_def Let_def)+

lemma timeCheck_fields:
  "maxScore (timeCheck fy sd tid p r) = maxScore r + 25"
  "score (timeCheck fy sd tid p r) = score r \<or> score (timeCheck fy sd tid p r) = score r + 25"
  "\<exists>es. errors (timeCheck fy sd tid p r) = errors r @ es"
  by (auto simp: timeCheck_def Let_def split: option.splits)

lemma amountCheck_fields:
  "(maxScore (amountCheck sd ed r) = maxScore r + 20
      \<and> (score (amountCheck sd ed r) = score r \<or> score (amountCheck sd ed r) = score r + 20))
   \<or> (maxScore (amountCheck sd ed r) = maxScore r + 35
      \<and> (score (amountCheck sd ed r) = score r + 20 \<or> score (amountCheck sd ed r) = score r + 35))"
  "\<exists>es. errors (amountCheck sd ed r) = errors r @ es"
  by (auto simp: amountCheck_def Let_def split: option.splits)

lemma recipientCheck_fields:
  "(maxScore (recipientCheck lc sd ed r) = maxScore r
      \<and> score (recipientCheck lc sd ed r) = score r)
   \<or> (maxScore (recipientCheck lc sd ed r) = maxScore r + 10
      \<and> (score (recipientCheck lc sd ed r) = score r
          \<or> score (recipientCheck lc sd ed r) = score r + 10))"
  "errors (recipientCheck lc sd ed r) = errors r"
  by (auto simp: recipientCheck_def Let_def split: option.splits)

lemma confidenceCheck_fields:
  "maxScore (confidenceCheck sd r) = maxScore r + 15"
  "score (confidenceCheck sd r) = score r \<or> score (confidenceCheck sd r) = score r + 10
     \<or> score (confidenceCheck sd r) = score r + 15"
  "errors (confidenceCheck sd r) = errors r"
  by (auto simp: confidenceCheck_def Let_def split: option.splits)

lemma finalVerdict_fields:
  "vrValid (finalVerdict r) \<longleftrightarrow> errors r = [] \<and> 70 \<le> percentageOf (score r) (maxScore r)"
  "errors (finalVerdict r) = errors r"
  "score (finalVerdict r) = score r"
  "maxScore (finalVerdict r) = maxScore r"
  by (simp_all add: finalVerdict_def Let_def)

lemma validateSlip_valid_id:
  assumes "success sd" and "transactionId sd = Some tid" and "tid \<noteq> []"
    and "isValid fy tid = Inr p"
  shows "validateSlip lc fy sd ed =
           finalVerdict (confidenceCheck sd (recipientCheck lc sd ed (amountCheck sd ed
             (timeCheck fy sd tid p (authenticityCheck (detectFakeSlip fy tid)
                (initialResult\<lparr>details := (details initialResult)
                                  \<lparr>transactionInfo := Some p\<rparr>\<rparr>))))))"
  using assms by (simp add: validateSlip_def Let_def)

lemma reachable_scores:
  assumes "score r0 = 0" and "maxScore r0 = 0"
    and r5_def: "r5 = confidenceCheck sd (recipientCheck lc sd ed (amountCheck sd ed
             (timeCheck fy sd tid p (authenticityCheck fd r0))))"
  shows "(maxScore r5 = 85 \<or> maxScore r5 = 95 \<or> maxScore r5 = 100 \<or> maxScore r5 = 110)
         \<and> score r5 \<le> maxScore r5 \<and> 5 dvd score r5"
proof -
  define r1 where "r1 = authenticityCheck fd r0"
  define r2 where "r2 = timeCheck fy sd tid p r1"
  define r3 where "r3 = amountCheck sd ed r2"
  define r4 where "r4 = recipientCheck lc sd ed r3"
  have r5: "r5 = confidenceCheck sd r4" by (simp add: r5_def r4_def r3_def r2_def r1_def)
  have s1: "maxScore r1 = 25 \<and> score r1 \<le> 25 \<and> 5 dvd score r1"
    unfolding r1_def using assms(1,2)
    by (cases "riskLevel fd") (simp_all add: authenticityCheck_fields)
  have s2: "maxScore r2 = 50 \<and> score r2 \<le> 50 \<and> 5 dvd score r2"
    unfolding r2_def using s1 timeCheck_fields(1,2) [of fy sd tid p r1] by auto
  have s3: "(maxScore r3 = 70 \<or> maxScore r3 = 85) \<and> score r3 \<le> maxScore r3 \<and> 5 dvd score r3"
    unfolding r3_def using s2 amountCheck_fields(1) [of sd ed r2] by auto
  have s4: "(maxScore r4 = 70 \<or> maxScore r4 = 80 \<or> maxScore r4 = 85 \<or> maxScore r4 = 95)
            \<and> score r4 \<le> maxScore r4 \<and> 5 dvd score r4"
    unfolding r4_def using s3 recipientCheck_fields(1) [of lc sd ed r3] by auto
  show ?thesis
    unfolding r5 using s4 confidenceCheck_fields(1,2) [of sd r4] by auto
qed

lemma errors_grow:
  assumes "e \<in> set (errors (authenticityCheck fd r0))"
  shows "e \<in> set (errors (finalVerdict (confidenceCheck sd (recipientCheck lc sd ed
           (amountCheck sd ed (timeCheck fy sd tid p (authenticityCheck fd r0)))))))"
proof -
  obtain es1 where "errors (timeCheck fy sd tid p (authenticityCheck fd r0))
      = errors (authenticityCheck fd r0) @ es1"
    using timeCheck_fields(3) by blast
  moreover obtain es2 where
    "errors (amountCheck sd ed (timeCheck fy sd tid p (authenticityCheck fd r0)))
      = errors (timeCheck fy sd tid p (authenticityCheck fd r0)) @ es2"
    using amountCheck_fields(2) by blast
  ultimately show ?thesis
    using assms
    by (simp add: finalVerdict_fields confidenceCheck_fields recipientCheck_fields)
qed

text \<open>
  Claim C7. For slip data with a structurally valid transaction ID, \<open>validateSlip\<close>
  reports valid exactly when no error was collected and the score is at least 70% of
  the maximum. The authenticity check adds 25 to the maximum; to the score it adds 25 at
  \<open>LOW\<close> risk, 15 at \<open>MEDIUM\<close> with a warning, and nothing at \<open>HIGH\<close>, where it
  appends an error, so that a \<open>HIGH\<close> risk always ends in an invalid result.
\<close>

theorem validateSlip_verdict:
  assumes "success sd" and "transactionId sd = Some tid" and "tid \<noteq> []"
    and "isValid fy tid = Inr p"
  shows "(let r = validateSlip lc fy sd ed; fd = detectFakeSlip fy tid in
           (vrValid r \<longleftrightarrow> errors r = [] \<and> 70 * maxScore r \<le> 100 * score r)
           \<and> r = finalVerdict (confidenceCheck sd (recipientCheck lc sd ed (amountCheck sd ed
                   (timeCheck fy sd tid p (authenticityCheck fd
                      (initialResult\<lparr>details := (details initialResult)
                                        \<lparr>transactionInfo := Some p\<rparr>\<rparr>))))))
           \<and> (\<forall>r0. let r1 = authenticityCheck fd r0 in
                  maxScore r1 = maxScore r0 + 25
                  \<and> (riskLevel fd = LOW \<longrightarrow>
                        score r1 = score r0 + 25 \<and> errors r1 = errors r0
                        \<and> warnings r1 = warnings r0)
                  \<and> (riskLevel fd = MEDIUM \<longrightarrow>
                        score r1 = score r0 + 15 \<and> errors r1 = errors r0
                        \<and> warnings r1 = warnings r0 @ [SuspiciousIndicators (reasons fd)])
                  \<and> (riskLevel fd = HIGH \<longrightarrow>
                        score r1 = score r0
                        \<and> errors r1 = errors r0 @ [HighRiskFake (reasons fd)]
                        \<and> warnings r1 = warnings r0))
           \<and> (riskLevel fd = HIGH \<longrightarrow>
                 HighRiskFake (reasons fd) \<in> set (errors r) \<and> \<not> vrValid r))"
proof -
  define fd where "fd = detectFakeSlip fy tid"
  define r0 where "r0 = initialResult\<lparr>details := (details initialResult)
                                        \<lparr>transactionInfo := Some p\<rparr>\<rparr>"
  define r5 where "r5 = confidenceCheck sd (recipientCheck lc sd ed (amountCheck sd ed
                   (timeCheck fy sd tid p (authenticityCheck fd r0))))"
  have r: "validateSlip lc fy sd ed = finalVerdict r5"
    unfolding r5_def r0_def fd_def by (rule validateSlip_valid_id [OF assms])
  have z: "score r0 = 0" "maxScore r0 = 0" by (simp_all add: r0_def initialResult_def)
  from reachable_scores [OF z r5_def]
  have reach: "maxScore r5 = 85 \<or> maxScore r5 = 95 \<or> maxScore r5 = 100 \<or> maxScore r5 = 110"
    "score r5 \<le> maxScore r5" "5 dvd score r5" by simp_all
  have exact: "70 \<le> percentageOf (score r5) (maxScore r5) \<longleftrightarrow> 70 * maxScore r5 \<le> 100 * score r5"
    using reach by (rule percentage_exact)
  have a: "vrValid (finalVerdict r5) \<longleftrightarrow>
             errors (finalVerdict r5) = [] \<and> 70 * maxScore (finalVerdict r5) \<le> 100 * score (finalVerdict r5)"
    by (simp add: finalVerdict_fields exact)
  have c: "\<forall>r0. let r1 = authenticityCheck fd r0 in
                  maxScore r1 = maxScore r0 + 25
                  \<and> (riskLevel fd = LOW \<longrightarrow>
                        score r1 = score r0 + 25 \<and> errors r1 = errors r0
                        \<and> warnings r1 = warnings r0)
                  \<and> (riskLevel fd = MEDIUM \<longrightarrow>
                        score r1 = score r0 + 15 \<and> errors r1 = errors r0
                        \<and> warnings r1 = warnings r0 @ [SuspiciousIndicators (reasons fd)])
                  \<and> (riskLevel fd = HIGH \<longrightarrow>
                        score r1 = score r0
                        \<and> errors r1 = errors r0 @ [HighRiskFake (reasons fd)]
                        \<and> warnings r1 = warnings r0)"
    by (simp add: Let_def authenticityCheck_fields)
  have d: "HighRiskFake (reasons fd) \<in> set (errors (finalVerdict r5)) \<and> \<not> vrValid (finalVerdict r5)"
    if h: "riskLevel fd = HIGH"
  proof -
    from h have "HighRiskFake (reasons fd) \<in> set (errors (authenticityCheck fd r0))"
      by (simp add: authenticityCheck_fields)
    then have "HighRiskFake (reasons fd) \<in> set (errors (finalVerdict r5))"
      unfolding r5_def by (rule errors_grow)
    moreover from this have "errors (finalVerdict r5) \<noteq> []" by auto
    ultimately show ?thesis using a by simp
  qed
  show ?thesis
    unfolding Let_def fd_def [symmetric] r
    using a c d unfolding Let_def r5_def r0_def by blast
qed


lemma verifyDateTime_dtValid:
  "parse fy i = Some p \<Longrightarrow> t \<noteq> [] \<Longrightarrow>
     dtValid (verifyDateTime fy i t) = timeMatch (verifyDateTime fy i t)"
  by (simp add: verifyDateTime_def Let_def)

theorem validateSlip_verdict_witness:
  "vrValid (validateSlip (\<lambda>s. s) 2025
      \<lparr>success = True, transactionId = Some (js ''015298170819BQR02651''),
       dateTime = Some \<lparr>slipTime = None, rawOCR = Some (js ''17:08'')\<rparr>,
       amount = Some 15, recipient = None, ocrConfidence = Some 90\<rparr>
      \<lparr>expectedAmount = None, expectedRecipient = None\<rparr>)
   \<and> score (validateSlip (\<lambda>s. s) 2025
      \<lparr>success = True, transactionId = Some (js ''015298170819BQR02651''),
       dateTime = Some \<lparr>slipTime = None, rawOCR = Some (js ''17:08'')\<rparr>,
       amount = Some 15, recipient = None, ocrConfidence = Some 90\<rparr>
      \<lparr>expectedAmount = None, expectedRecipient = None\<rparr>) = 85
   \<and> riskLevel (detectFakeSlip 2025 (js ''015298000000ZZZZ1111'')) = HIGH
   \<and> \<not> vrValid (validateSlip (\<lambda>s. s) 2025
      \<lparr>success = True, transactionId = Some (js ''015298000000ZZZZ1111''),
       dateTime = None, amount = None, recipient = None, ocrConfidence = None\<rparr>
      \<lparr>expectedAmount = None, expectedRecipient = None\<rparr>)"
proof -
  let ?a = "js ''015298170819BQR02651''" and ?b = "js ''015298000000ZZZZ1111''"
  let ?sd = "\<lparr>success = True, transactionId = Some ?a,
       dateTime = Some \<lparr>slipTime = None, rawOCR = Some (js ''17:08'')\<rparr>,
       amount = Some 15, recipient = None, ocrConfidence = Some 90\<rparr>"
  let ?sd' = "\<lparr>success = True, transactionId = Some ?b,
       dateTime = None, amount = None, recipient = None, ocrConfidence = None\<rparr>"
  let ?ed = "\<lparr>expectedAmount = None, expectedRecipient = None\<rparr>"
  have ne: "?a \<noteq> []" "?b \<noteq> []" by (simp_all add: js_def)
  have ca: "cleanId ?a = ?a"
    by (rule cleanId_alnum) (simp add: js_def isAlnum_def isDigit_def isUpperAZ_def)
  have cb: "cleanId ?b = ?b"
    by (rule cleanId_alnum) (simp add: js_def isAlnum_def isDigit_def isUpperAZ_def)
  have va: "isValid 2025 ?a = Inr (parsedOf 2025 ?a)"
    by (rule isValid_concrete [OF _ ca]) (simp_all add: concrete_defs)
  have vb: "isValid 2025 ?b = Inr (parsedOf 2025 ?b)"
    by (rule isValid_concrete [OF _ cb]) (simp_all add: concrete_defs)
  have pa: "parse 2025 ?a = Some (parsedOf 2025 ?a)"
    using va by (simp add: isValid_Inr_iff)
  have fa: "isKnownType (parsedOf 2025 ?a)" "\<not> repetitive (sequence (parsedOf 2025 ?a))"
    "year (parsedOf 2025 ?a) = 2568" "hour (parsedOf 2025 ?a) = 17"
    "minute (parsedOf 2025 ?a) = 8"
    by (simp_all add: field_eval)
  have fb: "\<not> isKnownType (parsedOf 2025 ?b)" "repetitive (sequence (parsedOf 2025 ?b))"
    "year (parsedOf 2025 ?b) = 2568" "hour (parsedOf 2025 ?b) = 0"
    "minute (parsedOf 2025 ?b) = 0" "second (parsedOf 2025 ?b) = 0"
    by (simp_all add: field_eval)
  have la: "riskLevel (detectFakeSlip 2025 ?a) = LOW"
    unfolding detectFakeSlip_valid [OF va] Let_def by (simp add: check_defs fa)
  have lb: "riskLevel (detectFakeSlip 2025 ?b) = HIGH"
    unfolding detectFakeSlip_valid [OF vb] Let_def by (simp add: check_defs fb)
  have t: "js ''17:08'' = [] @ 49 # 55 # 58 # 48 # 56 # []" by (simp add: js_def)
  have d: "isDigit 49" "isDigit 55" "isDigit 48" "isDigit 56" by (simp_all add: isDigit_def)
  have nc: "58 \<notin> set ([] :: jsstring)" by simp
  have "timeMatch (verifyDateTime 2025 ?a ([] @ 49 # 55 # 58 # 48 # 56 # []))"
    unfolding timeMatch_first_pair [OF pa nc d(1) d(2) d(3) d(4), of "[]"]
    by (simp add: fa digitsValue_def digitValue_def)
  then have tm: "timeMatch (verifyDateTime 2025 ?a (js ''17:08''))" by (simp only: t)
  have nt: "js ''17:08'' \<noteq> []" by (simp add: js_def)
  with pa tm have dv: "dtValid (verifyDateTime 2025 ?a (js ''17:08''))"
    by (simp add: verifyDateTime_dtValid)
  have g1: "success ?sd" "transactionId ?sd = Some ?a" by simp_all
  have g2: "success ?sd'" "transactionId ?sd' = Some ?b" by simp_all
  note T1 = validateSlip_verdict [OF g1 ne(1) va, of "\<lambda>s. s" ?ed, unfolded Let_def]
  note T2 = validateSlip_verdict [OF g2 ne(2) vb, of "\<lambda>s. s" ?ed, unfolded Let_def]
  have r1: "validateSlip (\<lambda>s. s) 2025 ?sd ?ed =
      finalVerdict (confidenceCheck ?sd (recipientCheck (\<lambda>s. s) ?sd ?ed (amountCheck ?sd ?ed
        (timeCheck 2025 ?sd ?a (parsedOf 2025 ?a) (authenticityCheck (detectFakeSlip 2025 ?a)
           (initialResult\<lparr>details := (details initialResult)
                             \<lparr>transactionInfo := Some (parsedOf 2025 ?a)\<rparr>\<rparr>))))))"
    using T1 by (rule conjunct1 [OF conjunct2])
  have e1: "errors (validateSlip (\<lambda>s. s) 2025 ?sd ?ed) = []"
    unfolding r1
    using ne(1) la dv nt
    by (simp add: finalVerdict_fields confidenceCheck_fields recipientCheck_fields
          amountCheck_def timeCheck_def authenticityCheck_fields initialResult_def Let_def)
  have s1: "score (validateSlip (\<lambda>s. s) 2025 ?sd ?ed) = 85"
    "maxScore (validateSlip (\<lambda>s. s) 2025 ?sd ?ed) = 85"
    unfolding r1
    using ne(1) la dv nt
    by (simp_all add: finalVerdict_fields confidenceCheck_def recipientCheck_def
          amountCheck_def timeCheck_def authenticityCheck_fields initialResult_def Let_def)
  from T1 have "vrValid (validateSlip (\<lambda>s. s) 2025 ?sd ?ed) \<longleftrightarrow>
      errors (validateSlip (\<lambda>s. s) 2025 ?sd ?ed) = []
      \<and> 70 * maxScore (validateSlip (\<lambda>s. s) 2025 ?sd ?ed)
          \<le> 100 * score (validateSlip (\<lambda>s. s) 2025 ?sd ?ed)"
    by (rule conjunct1)
  with e1 s1 have w1: "vrValid (validateSlip (\<lambda>s. s) 2025 ?sd ?ed)" by simp
  from T2 lb have w2: "\<not> vrValid (validateSlip (\<lambda>s. s) 2025 ?sd' ?ed)" by blast
  from w1 s1(1) lb w2 show ?thesis by blast
qed

end
